theory Spec2Isabelle
  imports Main
begin

section \<open>Strings, numbers and JSON values\<close>

text \<open>
  A JavaScript string is modelled by its UTF-8 encoding, one \<open>char\<close> for each byte (a string
  of ASCII characters is the list of its characters; the no-break space U+00A0 is the two
  bytes \<open>C2 A0\<close>). \<open>toUpperCase\<close> and \<open>toLowerCase\<close> are modelled on the ASCII range,
  which holds the method names and header names the gateway applies them to; other bytes are
  left alone. A falsy string is the empty string.
\<close>

definition toUpperCase :: "string \<Rightarrow> string" where
  "toUpperCase s =
     map (\<lambda>c. case map_of (zip ''abcdefghijklmnopqrstuvwxyz'' ''ABCDEFGHIJKLMNOPQRSTUVWXYZ'') c of
                 Some u \<Rightarrow> u | None \<Rightarrow> c) s"

definition toLowerCase :: "string \<Rightarrow> string" where
  "toLowerCase s =
     map (\<lambda>c. case map_of (zip ''ABCDEFGHIJKLMNOPQRSTUVWXYZ'' ''abcdefghijklmnopqrstuvwxyz'') c of
                 Some l \<Rightarrow> l | None \<Rightarrow> c) s"

text \<open>\<open>Array.prototype.join\<close> on an array of strings.\<close>

fun join :: "string \<Rightarrow> string list \<Rightarrow> string" where
  "join sep [] = []"
| "join sep [x] = x"
| "join sep (x # y # ys) = x @ sep @ join sep (y # ys)"

text \<open>\<open>String.prototype.startsWith\<close>.\<close>

definition startsWith :: "string \<Rightarrow> string \<Rightarrow> bool" where
  "startsWith s p = (take (length p) s = p)"

text \<open>\<open>s.replace(/\/+$/, "")\<close>: the string without its trailing slashes.\<close>

definition stripTrailingSlashes :: "string \<Rightarrow> string" where
  "stripTrailingSlashes s = rev (dropWhile (\<lambda>c. c = CHR ''/'') (rev s))"

text \<open>
  \<open>BigInt(s)\<close> on a string is the abstract operation \<open>StringToBigInt\<close> of ECMAScript: it
  reads a \<open>StringIntegerLiteral\<close>, which is white space, an integer literal, white space, with
  each part optional. \<open>StrWhiteSpaceChar\<close> lists the white space and line terminator
  characters of the language in UTF-8: TAB, LF, VT, FF, CR, SP, U+00A0, U+1680, U+2000 to
  U+200A, U+2028, U+2029, U+202F, U+205F, U+3000 and U+FEFF.
\<close>

definition StrWhiteSpaceChar :: "string list" where
  "StrWhiteSpaceChar =
     [[CHR 0x09], [CHR 0x0A], [CHR 0x0B], [CHR 0x0C], [CHR 0x0D], [CHR 0x20],
      [CHR 0xC2, CHR 0xA0],
      [CHR 0xE1, CHR 0x9A, CHR 0x80],
      [CHR 0xE2, CHR 0x80, CHR 0x80], [CHR 0xE2, CHR 0x80, CHR 0x81],
      [CHR 0xE2, CHR 0x80, CHR 0x82], [CHR 0xE2, CHR 0x80, CHR 0x83],
      [CHR 0xE2, CHR 0x80, CHR 0x84], [CHR 0xE2, CHR 0x80, CHR 0x85],
      [CHR 0xE2, CHR 0x80, CHR 0x86], [CHR 0xE2, CHR 0x80, CHR 0x87],
      [CHR 0xE2, CHR 0x80, CHR 0x88], [CHR 0xE2, CHR 0x80, CHR 0x89],
      [CHR 0xE2, CHR 0x80, CHR 0x8A],
      [CHR 0xE2, CHR 0x80, CHR 0xA8], [CHR 0xE2, CHR 0x80, CHR 0xA9],
      [CHR 0xE2, CHR 0x80, CHR 0xAF],
      [CHR 0xE2, CHR 0x81, CHR 0x9F],
      [CHR 0xE3, CHR 0x80, CHR 0x80],
      [CHR 0xEF, CHR 0xBB, CHR 0xBF]]"

text \<open>The string without the members of \<open>ws\<close> it starts with, one after the other.\<close>

function dropPrefixes :: "string list \<Rightarrow> string \<Rightarrow> string" where
  "dropPrefixes ws s =
     (case find (\<lambda>w. w \<noteq> [] \<and> startsWith s w) ws of
        None \<Rightarrow> s
      | Some w \<Rightarrow> dropPrefixes ws (drop (length w) s))"
  by pat_completeness auto
termination
proof (relation "measure (\<lambda>(ws, s). length s)")
  show "wf (measure (\<lambda>(ws, s). length s))" by simp
next
  fix ws :: "string list" and s w :: string
  assume "find (\<lambda>w. w \<noteq> [] \<and> startsWith s w) ws = Some w"
  then have "w \<noteq> []" "take (length w) s = w"
    by (auto simp: find_Some_iff startsWith_def)
  then have "s \<noteq> []" by auto
  with \<open>w \<noteq> []\<close> show "((ws, drop (length w) s), (ws, s)) \<in> measure (\<lambda>(ws, s). length s)"
    by simp
qed

declare dropPrefixes.simps [simp del]

text \<open>The white space in front of the string goes, then the white space at its end.\<close>

definition trimString :: "string \<Rightarrow> string" where
  "trimString s =
     rev (dropPrefixes (map rev StrWhiteSpaceChar) (rev (dropPrefixes StrWhiteSpaceChar s)))"

text \<open>
  The integer literal that is left: decimal digits with an optional sign, or an unsigned
  literal with prefix \<open>0x\<close>, \<open>0o\<close> or \<open>0b\<close>; nothing at all is \<open>0n\<close>. \<open>None\<close> is the
  \<open>SyntaxError\<close> that \<open>BigInt\<close> throws.
\<close>

definition digitValue :: "char \<Rightarrow> nat option" where
  "digitValue c =
     map_of (zip ''0123456789abcdefABCDEF''
                 [0, 1, 2, 3, 4, 5, 6, 7, 8, 9, 10, 11, 12, 13, 14, 15, 10, 11, 12, 13, 14, 15]) c"

fun digitsValue :: "nat \<Rightarrow> nat \<Rightarrow> string \<Rightarrow> nat option" where
  "digitsValue radix acc [] = Some acc"
| "digitsValue radix acc (c # cs) =
     (case digitValue c of
        None \<Rightarrow> None
      | Some d \<Rightarrow> if d < radix then digitsValue radix (acc * radix + d) cs else None)"

definition parseDigits :: "nat \<Rightarrow> string \<Rightarrow> int option" where
  "parseDigits radix s = (if s = [] then None else map_option int (digitsValue radix 0 s))"

definition StringToBigInt :: "string \<Rightarrow> int option" where
  "StringToBigInt s =
     (let t = trimString s in
      if t = [] then Some 0
      else if startsWith t ''0x'' \<or> startsWith t ''0X'' then parseDigits 16 (drop 2 t)
      else if startsWith t ''0o'' \<or> startsWith t ''0O'' then parseDigits 8 (drop 2 t)
      else if startsWith t ''0b'' \<or> startsWith t ''0B'' then parseDigits 2 (drop 2 t)
      else if hd t = CHR ''+'' then parseDigits 10 (tl t)
      else if hd t = CHR ''-'' then map_option uminus (parseDigits 10 (tl t))
      else parseDigits 10 t)"

text \<open>
  JSON values: what \<open>res.json\<close> sends and what the handlers return. The numbers the gateway
  writes (the protocol version, a timeout, a time stamp) are integers.
\<close>

datatype json =
    JNull
  | JBool bool
  | JNum int
  | JStr string
  | JArr "json list"
  | JObj "(string \<times> json) list"

text \<open>
  A number the gateway reads from JSON is modelled by the text that \<open>String(n)\<close>, and so a
  template literal, prints for it: \<open>2\<close> prints as \<open>2\<close>, \<open>2.5\<close> as \<open>2.5\<close>, \<open>10^21\<close> as
  \<open>1e+21\<close>. No two numbers print alike (the two zeros apart), so \<open>n !== 2\<close> holds exactly
  when the text is not \<open>2\<close>.
\<close>

datatype JsNumber = JsNumber (numberText: string)

section \<open>Route policies (packages/policy)\<close>

datatype HttpMethod = GET | POST | PUT | DELETE | PATCH

fun methodName :: "HttpMethod \<Rightarrow> string" where
  "methodName GET = ''GET''"
| "methodName POST = ''POST''"
| "methodName PUT = ''PUT''"
| "methodName DELETE = ''DELETE''"
| "methodName PATCH = ''PATCH''"

datatype FieldType = TString | TNumber | TBoolean | TObject | TArray

record SchemaField =
  fieldType :: FieldType
  description :: "string option"
  required :: "bool option"
  example :: "json option"

record SchemaInput =
  query :: "(string \<times> SchemaField) list option"
  body :: "(string \<times> SchemaField) list option"

record EndpointSchema =
  "method" :: string
  schemaInput :: SchemaInput
  schemaOutput :: "(string \<times> SchemaField) list"

record RoutePolicy =
  path :: string
  "method" :: HttpMethod
  scheme :: string
  network :: string
  asset :: string
  maxAmountRequired :: string
  payTo :: string
  description :: string
  mimeType :: string
  maxTimeoutSeconds :: int
  extra :: "(string \<times> json) list option"
  outputSchema :: "EndpointSchema option"

record PaymentAccept =
  scheme :: string
  network :: string
  maxAmountRequired :: string
  resource :: string
  description :: string
  mimeType :: string
  payTo :: string
  maxTimeoutSeconds :: int
  asset :: string
  extra :: "(string \<times> json) list option"

record PaymentRequirements =
  x402Version :: int
  accepts :: "PaymentAccept list"

record PaymentReceipt =
  txHash :: "string option"
  network :: string
  payer :: string
  amount :: string
  timestamp :: int
  settled :: bool

subsection \<open>PolicyEngine\<close>

record PolicyEngine =
  policies :: "RoutePolicy list"

definition newPolicyEngine :: PolicyEngine where
  "newPolicyEngine = \<lparr>policies = []\<rparr>"

text \<open>\<open>add(...items)\<close>: \<open>this.policies.push(...items)\<close>.\<close>

definition add :: "PolicyEngine \<Rightarrow> RoutePolicy list \<Rightarrow> PolicyEngine" where
  "add e items = e\<lparr>policies := policies e @ items\<rparr>"

text \<open>\<open>match(path, method)\<close>: \<open>Array.prototype.find\<close> returns the first hit.\<close>

definition match :: "PolicyEngine \<Rightarrow> string \<Rightarrow> string \<Rightarrow> RoutePolicy option" where
  "match e pth m =
     (let upper = toUpperCase m in
      find (\<lambda>p. RoutePolicy.path p = pth \<and> methodName (RoutePolicy.method p) = upper) (policies e))"

definition all :: "PolicyEngine \<Rightarrow> RoutePolicy list" where
  "all e = policies e"

definition isProxy :: "string \<Rightarrow> bool" where
  "isProxy pth = startsWith pth ''/proxy/''"

definition toAccept :: "RoutePolicy \<Rightarrow> string \<Rightarrow> PaymentAccept" where
  "toAccept policy res =
     \<lparr>PaymentAccept.scheme = RoutePolicy.scheme policy,
      PaymentAccept.network = RoutePolicy.network policy,
      PaymentAccept.maxAmountRequired = RoutePolicy.maxAmountRequired policy,
      resource = res,
      PaymentAccept.description = RoutePolicy.description policy,
      PaymentAccept.mimeType = RoutePolicy.mimeType policy,
      PaymentAccept.payTo = RoutePolicy.payTo policy,
      PaymentAccept.maxTimeoutSeconds = RoutePolicy.maxTimeoutSeconds policy,
      PaymentAccept.asset = RoutePolicy.asset policy,
      PaymentAccept.extra = RoutePolicy.extra policy\<rparr>"

definition toRequirements :: "PaymentAccept \<Rightarrow> PaymentRequirements" where
  "toRequirements accept = \<lparr>x402Version = 2, accepts = [accept]\<rparr>"

subsection \<open>PolicyBuilder\<close>

text \<open>
  The builder's state is \<open>Partial<RoutePolicy> & { path }\<close>; the constructor sets \<open>scheme\<close>,
  \<open>mimeType\<close> and \<open>maxTimeoutSeconds\<close>, the other fields start undefined. \<open>build\<close> throws
  when a required field is undefined or empty: \<open>Inl\<close> carries the message of the \<open>Error\<close>.
\<close>

record PolicyBuilder =
  path :: string
  "method" :: "HttpMethod option"
  scheme :: string
  network :: "string option"
  asset :: "string option"
  maxAmountRequired :: "string option"
  payTo :: "string option"
  description :: "string option"
  mimeType :: string
  maxTimeoutSeconds :: int
  extra :: "(string \<times> json) list option"
  outputSchema :: "EndpointSchema option"

definition policy :: "string \<Rightarrow> PolicyBuilder" where
  "policy pth =
     \<lparr>PolicyBuilder.path = pth, PolicyBuilder.method = None, PolicyBuilder.scheme = ''exact'',
      PolicyBuilder.network = None, PolicyBuilder.asset = None,
      PolicyBuilder.maxAmountRequired = None, PolicyBuilder.payTo = None,
      PolicyBuilder.description = None, PolicyBuilder.mimeType = ''application/json'',
      PolicyBuilder.maxTimeoutSeconds = 60, PolicyBuilder.extra = None,
      PolicyBuilder.outputSchema = None\<rparr>"

definition builder_method :: "HttpMethod \<Rightarrow> PolicyBuilder \<Rightarrow> PolicyBuilder" where
  "builder_method m b = b\<lparr>PolicyBuilder.method := Some m\<rparr>"

definition builder_get :: "PolicyBuilder \<Rightarrow> PolicyBuilder" where
  "builder_get b = b\<lparr>PolicyBuilder.method := Some GET\<rparr>"

definition builder_post :: "PolicyBuilder \<Rightarrow> PolicyBuilder" where
  "builder_post b = b\<lparr>PolicyBuilder.method := Some POST\<rparr>"

definition builder_put :: "PolicyBuilder \<Rightarrow> PolicyBuilder" where
  "builder_put b = b\<lparr>PolicyBuilder.method := Some PUT\<rparr>"

definition builder_delete :: "PolicyBuilder \<Rightarrow> PolicyBuilder" where
  "builder_delete b = b\<lparr>PolicyBuilder.method := Some DELETE\<rparr>"

definition builder_patch :: "PolicyBuilder \<Rightarrow> PolicyBuilder" where
  "builder_patch b = b\<lparr>PolicyBuilder.method := Some PATCH\<rparr>"

definition builder_costs :: "string \<Rightarrow> string \<Rightarrow> PolicyBuilder \<Rightarrow> PolicyBuilder" where
  "builder_costs amt ast b =
     b\<lparr>PolicyBuilder.maxAmountRequired := Some amt, PolicyBuilder.asset := Some ast\<rparr>"

definition builder_on :: "string \<Rightarrow> PolicyBuilder \<Rightarrow> PolicyBuilder" where
  "builder_on net b = b\<lparr>PolicyBuilder.network := Some net\<rparr>"

definition builder_payTo :: "string \<Rightarrow> PolicyBuilder \<Rightarrow> PolicyBuilder" where
  "builder_payTo addr b = b\<lparr>PolicyBuilder.payTo := Some addr\<rparr>"

definition builder_describe :: "string \<Rightarrow> PolicyBuilder \<Rightarrow> PolicyBuilder" where
  "builder_describe desc b = b\<lparr>PolicyBuilder.description := Some desc\<rparr>"

definition builder_mime :: "string \<Rightarrow> PolicyBuilder \<Rightarrow> PolicyBuilder" where
  "builder_mime t b = b\<lparr>PolicyBuilder.mimeType := t\<rparr>"

definition builder_timeout :: "int \<Rightarrow> PolicyBuilder \<Rightarrow> PolicyBuilder" where
  "builder_timeout seconds b = b\<lparr>PolicyBuilder.maxTimeoutSeconds := seconds\<rparr>"

definition builder_scheme :: "string \<Rightarrow> PolicyBuilder \<Rightarrow> PolicyBuilder" where
  "builder_scheme sch b = b\<lparr>PolicyBuilder.scheme := sch\<rparr>"

definition builder_extra :: "(string \<times> json) list \<Rightarrow> PolicyBuilder \<Rightarrow> PolicyBuilder" where
  "builder_extra e b = b\<lparr>PolicyBuilder.extra := Some e\<rparr>"

definition builder_ioSchema :: "EndpointSchema \<Rightarrow> PolicyBuilder \<Rightarrow> PolicyBuilder" where
  "builder_ioSchema sch b = b\<lparr>PolicyBuilder.outputSchema := Some sch\<rparr>"

text \<open>\<open>!x\<close> on an optional string: undefined or empty.\<close>

definition falsy :: "string option \<Rightarrow> bool" where
  "falsy v = (case v of None \<Rightarrow> True | Some s \<Rightarrow> s = [])"

definition build :: "PolicyBuilder \<Rightarrow> string + RoutePolicy" where
  "build b =
     (case PolicyBuilder.method b of
        None \<Rightarrow> Inl ''PolicyBuilder: method is required''
      | Some m \<Rightarrow>
          if falsy (PolicyBuilder.network b) then Inl ''PolicyBuilder: network is required (.on())''
          else if falsy (PolicyBuilder.asset b) \<or> falsy (PolicyBuilder.maxAmountRequired b)
            then Inl ''PolicyBuilder: cost is required (.costs())''
          else if falsy (PolicyBuilder.payTo b) then Inl ''PolicyBuilder: payTo is required''
          else if falsy (PolicyBuilder.description b)
            then Inl ''PolicyBuilder: description is required (.describe())''
          else Inr \<lparr>RoutePolicy.path = PolicyBuilder.path b,
                    RoutePolicy.method = m,
                    RoutePolicy.scheme = PolicyBuilder.scheme b,
                    RoutePolicy.network = the (PolicyBuilder.network b),
                    RoutePolicy.asset = the (PolicyBuilder.asset b),
                    RoutePolicy.maxAmountRequired = the (PolicyBuilder.maxAmountRequired b),
                    RoutePolicy.payTo = the (PolicyBuilder.payTo b),
                    RoutePolicy.description = the (PolicyBuilder.description b),
                    RoutePolicy.mimeType = PolicyBuilder.mimeType b,
                    RoutePolicy.maxTimeoutSeconds = PolicyBuilder.maxTimeoutSeconds b,
                    RoutePolicy.extra = PolicyBuilder.extra b,
                    RoutePolicy.outputSchema = PolicyBuilder.outputSchema b\<rparr>)"

section \<open>Gateway configuration (apps/gateway/src/config.ts)\<close>

text \<open>
  \<open>process.env\<close> is a map from names to strings. The fields \<open>port\<close> and \<open>publicBaseUrl\<close> (a
  \<open>parseInt\<close> and a template literal over it, which never throw) are read by none of the code
  modelled here and are left out; \<open>publicBaseUrl\<close> is an argument of the discovery generator.
\<close>

record config =
  network :: string
  facilitatorUrl :: string
  payTo :: string
  amountMicroStx :: string
  mockPayments :: bool
  upstreamUrl :: string
  baseUrl :: "string option"

text \<open>\<open>required(name, fallback)\<close>; \<open>Inl\<close> is the message of the thrown \<open>Error\<close>.\<close>

definition required_var :: "(string \<rightharpoonup> string) \<Rightarrow> string \<Rightarrow> string option \<Rightarrow> string + string" where
  "required_var env name fallback =
     (let val = (case env name of Some v \<Rightarrow> Some v | None \<Rightarrow> fallback) in
      if falsy val then Inl (''Missing required env var: '' @ name) else Inr (the val))"

definition bool_var :: "(string \<rightharpoonup> string) \<Rightarrow> string \<Rightarrow> bool \<Rightarrow> bool" where
  "bool_var env name fallback =
     (case env name of None \<Rightarrow> fallback | Some raw \<Rightarrow> raw = ''true'' \<or> raw = ''1'')"

definition orDefault :: "string option \<Rightarrow> string \<Rightarrow> string" where
  "orDefault v d = (case v of Some s \<Rightarrow> s | None \<Rightarrow> d)"

definition loadConfig :: "(string \<rightharpoonup> string) \<Rightarrow> string + config" where
  "loadConfig env =
     (case required_var env ''PAY_TO''
             (if env ''MOCK_PAYMENTS'' \<noteq> Some ''false''
              then Some ''ST1PQHQKV0RJXZFY1DGX8MNSNYVE3VGZJSRTPGZGM'' else None) of
        Inl err \<Rightarrow> Inl err
      | Inr pay \<Rightarrow>
          (case required_var env ''AMOUNT_MICROSTX''
                  (if env ''MOCK_PAYMENTS'' \<noteq> Some ''false'' then Some ''100000'' else None) of
             Inl err \<Rightarrow> Inl err
           | Inr amt \<Rightarrow>
               Inr \<lparr>config.network = orDefault (env ''NETWORK'') ''stacks:2147483648'',
                    facilitatorUrl =
                      orDefault (env ''FACILITATOR_URL'') ''https://facilitator.stacksx402.com'',
                    config.payTo = pay,
                    amountMicroStx = amt,
                    mockPayments = bool_var env ''MOCK_PAYMENTS'' True,
                    upstreamUrl = orDefault (env ''UPSTREAM_URL'') ''http://localhost:4000'',
                    baseUrl = env ''BASE_URL''\<rparr>))"

section \<open>The gateway's policy registry (apps/gateway/src/policies.ts)\<close>

definition field :: "FieldType \<Rightarrow> string \<Rightarrow> SchemaField" where
  "field t d = \<lparr>fieldType = t, SchemaField.description = Some d, required = None, example = None\<rparr>"

definition param :: "FieldType \<Rightarrow> bool \<Rightarrow> string \<Rightarrow> string \<Rightarrow> SchemaField" where
  "param t r d ex =
     \<lparr>fieldType = t, SchemaField.description = Some d, required = Some r,
      example = Some (JStr ex)\<rparr>"

text \<open>The em dash and the micro sign of the descriptions, in UTF-8.\<close>

definition emDash :: string where
  "emDash = [CHR 0xE2, CHR 0x80, CHR 0x94]"

definition microSign :: string where
  "microSign = [CHR 0xC2, CHR 0xB5]"

definition echoPolicy :: "config \<Rightarrow> string + RoutePolicy" where
  "echoPolicy cfg =
     build (builder_ioSchema
              \<lparr>EndpointSchema.method = ''GET'',
               schemaInput = \<lparr>query = Some [(''msg'', param TString False ''Message to echo back''
                                                   ''hello world'')],
                              body = None\<rparr>,
               schemaOutput = [(''echo'', field TString ''The echoed message''),
                               (''ts'', field TString ''ISO-8601 timestamp of the response'')]\<rparr>
           (builder_describe
              (''Premium echo endpoint '' @ emDash @ '' returns your message (x402 protected)'')
           (builder_payTo (config.payTo cfg)
           (builder_on (config.network cfg)
           (builder_costs (amountMicroStx cfg) ''STX''
           (builder_get (policy ''/v1/premium/echo'')))))))"

definition weatherPolicy :: "config \<Rightarrow> string + RoutePolicy" where
  "weatherPolicy cfg =
     build (builder_ioSchema
              \<lparr>EndpointSchema.method = ''GET'',
               schemaInput = \<lparr>query = Some [(''city'', param TString True
                                                   ''City name to look up weather for'' ''Tokyo'')],
                              body = None\<rparr>,
               schemaOutput =
                 [(''city'', field TString ''Resolved city name''),
                  (''tempC'', field TNumber ''Temperature in Celsius''),
                  (''tempF'', field TNumber ''Temperature in Fahrenheit''),
                  (''humidity'', field TNumber ''Humidity percentage''),
                  (''conditions'', field TString
                     ''Weather conditions (sunny, cloudy, rainy, snowy, windy)''),
                  (''source'', field TString ''Data source identifier'')]\<rparr>
           (builder_describe
              (''Weather lookup '' @ emDash @ '' proxied upstream, 10 '' @ microSign @ ''STX per call'')
           (builder_payTo (config.payTo cfg)
           (builder_on (config.network cfg)
           (builder_costs ''10'' ''STX''
           (builder_get (policy ''/proxy/api/weather'')))))))"

definition summarizePolicy :: "config \<Rightarrow> string + RoutePolicy" where
  "summarizePolicy cfg =
     build (builder_ioSchema
              \<lparr>EndpointSchema.method = ''POST'',
               schemaInput = \<lparr>query = None,
                              body = Some [(''text'', param TString True ''Text content to summarize''
                                              ''MoltGate is an open-source x402 payment gateway...'')]\<rparr>,
               schemaOutput =
                 [(''summary'', field TString ''Truncated summary of the input text''),
                  (''wordCount'', field TNumber ''Number of words in the input''),
                  (''charCount'', field TNumber ''Number of characters in the input''),
                  (''source'', field TString ''Data source identifier'')]\<rparr>
           (builder_describe
              (''Text summarization '' @ emDash @ '' proxied upstream, 50 '' @ microSign @ ''STX per call'')
           (builder_payTo (config.payTo cfg)
           (builder_on (config.network cfg)
           (builder_costs ''50'' ''STX''
           (builder_post (policy ''/proxy/api/summarize'')))))))"

text \<open>
  \<open>engine.add(echo, weather, summarize)\<close>: the arguments are built first, in order, and a
  failing \<open>build\<close> aborts the module.
\<close>

definition engine :: "config \<Rightarrow> string + PolicyEngine" where
  "engine cfg =
     (case echoPolicy cfg of
        Inl err \<Rightarrow> Inl err
      | Inr p1 \<Rightarrow>
          (case weatherPolicy cfg of
             Inl err \<Rightarrow> Inl err
           | Inr p2 \<Rightarrow>
               (case summarizePolicy cfg of
                  Inl err \<Rightarrow> Inl err
                | Inr p3 \<Rightarrow> Inr (add newPolicyEngine [p1, p2, p3]))))"

definition findPolicy :: "PolicyEngine \<Rightarrow> string \<Rightarrow> string \<Rightarrow> RoutePolicy option" where
  "findPolicy eng pth m = match eng pth m"

definition isProxyRoute :: "string \<Rightarrow> bool" where
  "isProxyRoute pth = isProxy pth"

section \<open>TTL cache (utils/cache.ts)\<close>

text \<open>
  \<open>Date.now()\<close> is an argument of every operation that reads the clock. \<open>get\<close> deletes an
  expired entry lazily, so it returns the cache as well.
\<close>

record 'v CacheEntry =
  entryValue :: 'v
  expiresAt :: int

record 'v TtlCache =
  store :: "string \<rightharpoonup> 'v CacheEntry"
  defaultTtlMs :: int

definition newTtlCache :: "int \<Rightarrow> 'v TtlCache" where
  "newTtlCache ttl = \<lparr>store = Map.empty, defaultTtlMs = ttl\<rparr>"

definition cache_set :: "'v TtlCache \<Rightarrow> string \<Rightarrow> 'v \<Rightarrow> int option \<Rightarrow> int \<Rightarrow> 'v TtlCache" where
  "cache_set c key v ttlMs now =
     (let ttl = (case ttlMs of Some t \<Rightarrow> t | None \<Rightarrow> defaultTtlMs c) in
      c\<lparr>store := (store c)(key \<mapsto> \<lparr>entryValue = v, expiresAt = now + ttl\<rparr>)\<rparr>)"

definition cache_get :: "'v TtlCache \<Rightarrow> string \<Rightarrow> int \<Rightarrow> 'v option \<times> 'v TtlCache" where
  "cache_get c key now =
     (case store c key of
        None \<Rightarrow> (None, c)
      | Some entry \<Rightarrow>
          if now \<ge> expiresAt entry then (None, c\<lparr>store := (store c)(key := None)\<rparr>)
          else (Some (entryValue entry), c))"

definition cache_has :: "'v TtlCache \<Rightarrow> string \<Rightarrow> int \<Rightarrow> bool \<times> 'v TtlCache" where
  "cache_has c key now = (let (v, c') = cache_get c key now in (v \<noteq> None, c'))"

definition cache_delete :: "'v TtlCache \<Rightarrow> string \<Rightarrow> bool \<times> 'v TtlCache" where
  "cache_delete c key = (store c key \<noteq> None, c\<lparr>store := (store c)(key := None)\<rparr>)"

text \<open>\<open>sweep()\<close>, which the timer runs once a minute: every expired entry goes.\<close>

definition cache_sweep :: "'v TtlCache \<Rightarrow> int \<Rightarrow> 'v TtlCache" where
  "cache_sweep c now =
     c\<lparr>store := (\<lambda>key. case store c key of
                          None \<Rightarrow> None
                        | Some entry \<Rightarrow> if now \<ge> expiresAt entry then None else Some entry)\<rparr>"

definition cache_clear :: "'v TtlCache \<Rightarrow> 'v TtlCache" where
  "cache_clear c = c\<lparr>store := Map.empty\<rparr>"

section \<open>Requests, responses and the per-request scratch area\<close>

text \<open>
  \<open>req.headers\<close>: Node lower-cases the names; a value is a string, an array of strings or
  undefined. \<open>headerString\<close> is the read \<open>req.headers[name] as string | undefined\<close> (the
  middleware reads only headers that Node delivers as one string).
\<close>

datatype HeaderValue = Single string | Multi "string list" | Undefined

record Request =
  "method" :: string
  path :: string
  protocol :: string
  headers :: "(string \<times> HeaderValue) list"

definition headerString :: "Request \<Rightarrow> string \<Rightarrow> string option" where
  "headerString req name =
     (case map_of (Request.headers req) name of Some (Single s) \<Rightarrow> Some s | _ \<Rightarrow> None)"

text \<open>\<open>res.json(body)\<close> sends a JSON body, \<open>res.send(text)\<close> a raw one.\<close>

datatype ResponseBody = JsonBody json | TextBody string

record Response =
  status :: int
  headers :: "string \<rightharpoonup> string"
  body :: ResponseBody

text \<open>
  What \<open>JSON.parse\<close> returned for the \<open>payment-signature\<close> header, read at the field
  types \<open>PaymentPayload\<close> declares: any required field may be undefined or null (\<open>None\<close>) or
  empty. A JSON value that is no object (a number, a string, an array) has none of the fields.
\<close>

record DecodedPayload =
  x402Version :: "JsNumber option"
  scheme :: "string option"
  network :: "string option"
  asset :: "string option"
  payTo :: "string option"
  amount :: "string option"
  nonce :: "string option"
  signature :: "string option"
  resource :: "string option"
  memo :: "string option"

text \<open>
  The result of \<open>JSON.parse\<close>: the JSON value \<open>null\<close>, on which the field access
  \<open>payload[f]\<close> throws a \<open>TypeError\<close>, or any other value.
\<close>

datatype ParsedJson = ParsedNull | ParsedValue DecodedPayload

text \<open>\<open>PaymentPayload\<close> as the interface declares it: every required field is there.\<close>

record PaymentPayload =
  x402Version :: JsNumber
  scheme :: string
  network :: string
  asset :: string
  payTo :: string
  amount :: string
  nonce :: string
  signature :: string
  resource :: string
  memo :: "string option"

definition PAYMENT_PAYLOAD_REQUIRED_FIELDS :: "string list" where
  "PAYMENT_PAYLOAD_REQUIRED_FIELDS =
     [''x402Version'', ''scheme'', ''network'', ''asset'', ''payTo'', ''amount'', ''nonce'',
      ''signature'', ''resource'']"

text \<open>\<open>val === undefined || val === null || val === ""\<close> for \<open>val = payload[f]\<close>.\<close>

definition fieldMissing :: "DecodedPayload \<Rightarrow> string \<Rightarrow> bool" where
  "fieldMissing d f =
     (if f = ''x402Version'' then DecodedPayload.x402Version d = None
      else if f = ''scheme'' then falsy (DecodedPayload.scheme d)
      else if f = ''network'' then falsy (DecodedPayload.network d)
      else if f = ''asset'' then falsy (DecodedPayload.asset d)
      else if f = ''payTo'' then falsy (DecodedPayload.payTo d)
      else if f = ''amount'' then falsy (DecodedPayload.amount d)
      else if f = ''nonce'' then falsy (DecodedPayload.nonce d)
      else if f = ''signature'' then falsy (DecodedPayload.signature d)
      else if f = ''resource'' then falsy (DecodedPayload.resource d)
      else True)"

text \<open>The payload once no required field is missing (used only then).\<close>

definition asPaymentPayload :: "DecodedPayload \<Rightarrow> PaymentPayload" where
  "asPaymentPayload d =
     \<lparr>PaymentPayload.x402Version = the (DecodedPayload.x402Version d),
      PaymentPayload.scheme = the (DecodedPayload.scheme d),
      PaymentPayload.network = the (DecodedPayload.network d),
      PaymentPayload.asset = the (DecodedPayload.asset d),
      PaymentPayload.payTo = the (DecodedPayload.payTo d),
      PaymentPayload.amount = the (DecodedPayload.amount d),
      PaymentPayload.nonce = the (DecodedPayload.nonce d),
      PaymentPayload.signature = the (DecodedPayload.signature d),
      PaymentPayload.resource = the (DecodedPayload.resource d),
      PaymentPayload.memo = DecodedPayload.memo d\<rparr>"

text \<open>
  The Express \<open>res\<close> object as the middleware uses it: the status code and headers set so
  far, and \<open>res.locals\<close> (the validated payload and the receipt).
\<close>

record Res =
  statusCode :: int
  resHeaders :: "string \<rightharpoonup> string"
  paymentPayload :: "PaymentPayload option"
  receipt :: "PaymentReceipt option"

definition newRes :: Res where
  "newRes = \<lparr>statusCode = 200, resHeaders = Map.empty, paymentPayload = None, receipt = None\<rparr>"

text \<open>
  A middleware ends in one of three ways: it sends the response, it calls \<open>next()\<close> with the
  \<open>res\<close> it has written to, or it throws (Express answers 500).
\<close>

datatype Outcome = Respond Response | Next Res | Throws string

text \<open>\<open>res.status(code).json(body)\<close>.\<close>

definition sendJson :: "Res \<Rightarrow> int \<Rightarrow> json \<Rightarrow> Response" where
  "sendJson res code b = \<lparr>status = code, Response.headers = resHeaders res, body = JsonBody b\<rparr>"

definition errorJson :: "string \<Rightarrow> json" where
  "errorJson msg = JObj [(''success'', JBool False), (''error'', JStr msg)]"

definition X402_REQUIRED :: string where "X402_REQUIRED = ''payment-required''"
definition X402_SIGNATURE :: string where "X402_SIGNATURE = ''payment-signature''"
definition X402_RESPONSE :: string where "X402_RESPONSE = ''payment-response''"

subsection \<open>Wire JSON of the typed values\<close>

definition acceptJson :: "PaymentAccept \<Rightarrow> json" where
  "acceptJson a =
     JObj ([(''scheme'', JStr (PaymentAccept.scheme a)),
            (''network'', JStr (PaymentAccept.network a)),
            (''maxAmountRequired'', JStr (PaymentAccept.maxAmountRequired a)),
            (''resource'', JStr (PaymentAccept.resource a)),
            (''description'', JStr (PaymentAccept.description a)),
            (''mimeType'', JStr (PaymentAccept.mimeType a)),
            (''payTo'', JStr (PaymentAccept.payTo a)),
            (''maxTimeoutSeconds'', JNum (PaymentAccept.maxTimeoutSeconds a)),
            (''asset'', JStr (PaymentAccept.asset a))]
           @ (case PaymentAccept.extra a of None \<Rightarrow> [] | Some e \<Rightarrow> [(''extra'', JObj e)]))"

definition requirementsJson :: "PaymentRequirements \<Rightarrow> json" where
  "requirementsJson r =
     JObj [(''x402Version'', JNum (PaymentRequirements.x402Version r)),
           (''accepts'', JArr (map acceptJson (accepts r)))]"

definition receiptJson :: "PaymentReceipt \<Rightarrow> json" where
  "receiptJson r =
     JObj ((case txHash r of None \<Rightarrow> [] | Some h \<Rightarrow> [(''txHash'', JStr h)])
           @ [(''network'', JStr (PaymentReceipt.network r)),
              (''payer'', JStr (payer r)),
              (''amount'', JStr (PaymentReceipt.amount r)),
              (''timestamp'', JNum (timestamp r)),
              (''settled'', JBool (settled r))])"

section \<open>External collaborators\<close>

record FacilitatorVerifyResponse =
  valid :: bool
  payer :: string
  amount :: string
  network :: string
  txHash :: "string option"

record FacilitatorSettleResponse =
  settled :: bool
  txHash :: string
  network :: string
  timestamp :: int

text \<open>
  What the middleware gets from the platform and from the facilitator, as functions of the
  arguments it passes: \<open>toBase64\<close> is \<open>Buffer.from(JSON.stringify(obj)).toString("base64")\<close>;
  \<open>decodePayload\<close> is \<open>JSON.parse(Buffer.from(raw, "base64").toString("utf-8"))\<close>, \<open>None\<close>
  when it throws; \<open>verifyPayment\<close> and \<open>settlePayment\<close> are the two facilitator calls, \<open>Inl\<close>
  the message of the error they throw on a network failure or a non-2xx answer.
\<close>

record Platform =
  toBase64 :: "json \<Rightarrow> string"
  decodePayload :: "string \<Rightarrow> ParsedJson option"
  verifyPayment :: "string option \<Rightarrow> PaymentAccept \<Rightarrow> string + FacilitatorVerifyResponse"
  settlePayment :: "string option \<Rightarrow> PaymentAccept \<Rightarrow> string + FacilitatorSettleResponse"

text \<open>The readings of \<open>Date.now()\<close> during one request, in the order they are taken.\<close>

record Clock =
  tIdempotencyGet :: int
  tReplayHas :: int
  tReplaySet :: int
  tReceipt :: int
  tIdempotencySet :: int

section \<open>Signature validation (middleware/validateSignature.ts)\<close>

text \<open>
  \<open>buildAccept(policy, req)\<close>; \<open>req.get("host")\<close> is undefined without a Host header and
  the template literal then prints \<open>undefined\<close>.
\<close>

definition buildAccept :: "config \<Rightarrow> RoutePolicy \<Rightarrow> Request \<Rightarrow> PaymentAccept" where
  "buildAccept cfg pol req =
     (let base = (case baseUrl cfg of
                    Some b \<Rightarrow> b
                  | None \<Rightarrow> protocol req @ ''://'' @ orDefault (headerString req ''host'') ''undefined'')
      in \<lparr>PaymentAccept.scheme = RoutePolicy.scheme pol,
          PaymentAccept.network = RoutePolicy.network pol,
          PaymentAccept.maxAmountRequired = RoutePolicy.maxAmountRequired pol,
          resource = base @ RoutePolicy.path pol,
          PaymentAccept.description = RoutePolicy.description pol,
          PaymentAccept.mimeType = RoutePolicy.mimeType pol,
          PaymentAccept.payTo = RoutePolicy.payTo pol,
          PaymentAccept.maxTimeoutSeconds = RoutePolicy.maxTimeoutSeconds pol,
          PaymentAccept.asset = RoutePolicy.asset pol,
          PaymentAccept.extra = RoutePolicy.extra pol\<rparr>)"

definition buildRequirements :: "PaymentAccept \<Rightarrow> PaymentRequirements" where
  "buildRequirements accept = \<lparr>PaymentRequirements.x402Version = 2, accepts = [accept]\<rparr>"

text \<open>The four comparisons of step 4, pushed in the order of the source.\<close>

definition offerMismatches :: "PaymentPayload \<Rightarrow> PaymentAccept \<Rightarrow> string list" where
  "offerMismatches payload accept =
     (if PaymentPayload.network payload \<noteq> PaymentAccept.network accept
      then [''network: expected '' @ PaymentAccept.network accept @ '', got ''
              @ PaymentPayload.network payload] else [])
     @ (if PaymentPayload.asset payload \<noteq> PaymentAccept.asset accept
        then [''asset: expected '' @ PaymentAccept.asset accept @ '', got ''
                @ PaymentPayload.asset payload] else [])
     @ (if PaymentPayload.payTo payload \<noteq> PaymentAccept.payTo accept
        then [''payTo: expected '' @ PaymentAccept.payTo accept @ '', got ''
                @ PaymentPayload.payTo payload] else [])
     @ (if PaymentPayload.scheme payload \<noteq> PaymentAccept.scheme accept
        then [''scheme: expected '' @ PaymentAccept.scheme accept @ '', got ''
                @ PaymentPayload.scheme payload] else [])"

text \<open>
  Step 5. \<open>BigInt(accept.maxAmountRequired)\<close> stands outside the \<open>try\<close>: a policy amount that
  is no integer literal makes the middleware throw.
\<close>

definition checkAmount :: "Res \<Rightarrow> PaymentPayload \<Rightarrow> PaymentAccept \<Rightarrow> Outcome" where
  "checkAmount res payload accept =
     (case StringToBigInt (PaymentAccept.maxAmountRequired accept) of
        None \<Rightarrow> Throws ''SyntaxError''
      | Some offeredAmount \<Rightarrow>
          (case StringToBigInt (PaymentPayload.amount payload) of
             None \<Rightarrow>
               Respond (sendJson res 400
                 (errorJson ''PAYMENT-SIGNATURE amount is not a valid integer string''))
           | Some paidAmount \<Rightarrow>
               if paidAmount < offeredAmount
               then Respond (sendJson res 400
                      (errorJson (''Insufficient payment: required ''
                         @ PaymentAccept.maxAmountRequired accept @ '', got ''
                         @ PaymentPayload.amount payload)))
               else Next (res\<lparr>paymentPayload := Some payload\<rparr>)))"

definition validateSignature ::
  "Platform \<Rightarrow> PolicyEngine \<Rightarrow> config \<Rightarrow> Request \<Rightarrow> Res \<Rightarrow> Outcome" where
  "validateSignature plat eng cfg req res =
     (case headerString req X402_SIGNATURE of
        None \<Rightarrow> Next res
      | Some raw \<Rightarrow>
          if raw = [] then Next res
          else
            (case decodePayload plat raw of
               None \<Rightarrow>
                 Respond (sendJson res 400
                   (errorJson ''PAYMENT-SIGNATURE is not valid base64-encoded JSON''))
             | Some ParsedNull \<Rightarrow> Throws ''TypeError''
             | Some (ParsedValue decoded) \<Rightarrow>
                 (let missing = filter (fieldMissing decoded) PAYMENT_PAYLOAD_REQUIRED_FIELDS in
                  if missing \<noteq> []
                  then Respond (sendJson res 400
                         (errorJson (''PAYMENT-SIGNATURE missing required fields: ''
                            @ join '', '' missing)))
                  else
                    (let payload = asPaymentPayload decoded in
                     if PaymentPayload.x402Version payload \<noteq> JsNumber ''2''
                     then Respond (sendJson res 400
                            (errorJson (''Unsupported x402Version: ''
                               @ numberText (PaymentPayload.x402Version payload)
                               @ '' (expected 2)'')))
                     else
                       (case findPolicy eng (Request.path req) (Request.method req) of
                          None \<Rightarrow> Next (res\<lparr>paymentPayload := Some payload\<rparr>)
                        | Some pol \<Rightarrow>
                            (let accept = buildAccept cfg pol req;
                                 mismatches = offerMismatches payload accept in
                             if mismatches \<noteq> []
                             then Respond (sendJson res 400
                                    (errorJson (''PAYMENT-SIGNATURE does not match offer: ''
                                       @ join ''; '' mismatches)))
                             else checkAmount res payload accept))))))"

section \<open>Idempotency and replay protection (middleware/idempotency.ts)\<close>

record CachedResponse =
  status :: int
  headers :: "(string \<times> string) list"
  body :: json

text \<open>The two caches: the only state that outlives a request.\<close>

record GatewayState =
  idempotencyCache :: "CachedResponse TtlCache"
  replayNonces :: "bool TtlCache"

definition initialState :: GatewayState where
  "initialState =
     \<lparr>idempotencyCache = newTtlCache (10 * 60 * 1000), replayNonces = newTtlCache (5 * 60 * 1000)\<rparr>"

text \<open>What a request ends in: a response on the wire, or an uncaught exception.\<close>

datatype Reply = Sent Response | Failed string

definition idempotencyKey :: "string \<Rightarrow> string \<Rightarrow> string \<Rightarrow> string" where
  "idempotencyKey token m pth = ''idem:'' @ toUpperCase m @ '':'' @ pth @ '':'' @ token"

text \<open>The override of \<open>res.json\<close> installed on a miss: it runs when the response is sent.\<close>

definition captureJson :: "Clock \<Rightarrow> string \<Rightarrow> Reply \<Rightarrow> GatewayState \<Rightarrow> GatewayState" where
  "captureJson clk key reply st =
     (case reply of
        Failed err \<Rightarrow> st
      | Sent r \<Rightarrow>
          (case Response.body r of
             TextBody t \<Rightarrow> st
           | JsonBody b \<Rightarrow>
               if Response.status r \<ge> 200 \<and> Response.status r < 300
               then
                 (let headersToCache =
                        (case Response.headers r X402_RESPONSE of
                           None \<Rightarrow> []
                         | Some pr \<Rightarrow> if pr \<noteq> [] then [(X402_RESPONSE, pr)] else [])
                  in st\<lparr>idempotencyCache :=
                          cache_set (idempotencyCache st) key
                            \<lparr>CachedResponse.status = Response.status r,
                             CachedResponse.headers = headersToCache,
                             CachedResponse.body = b\<rparr>
                            None (tIdempotencySet clk)\<rparr>)
               else st))"

text \<open>
  \<open>idempotency()\<close>. The rest of the pipeline is the argument \<open>next\<close>: it is not run on a hit.
\<close>

definition idempotency ::
  "Clock \<Rightarrow> Request \<Rightarrow> GatewayState \<Rightarrow> Res \<Rightarrow> (GatewayState \<Rightarrow> Res \<Rightarrow> Reply \<times> GatewayState)
     \<Rightarrow> Reply \<times> GatewayState" where
  "idempotency clk req st res next =
     (case headerString req ''idempotency-key'' of
        None \<Rightarrow> next st res
      | Some token \<Rightarrow>
          if token = [] then next st res
          else
            (let key = idempotencyKey token (Request.method req) (Request.path req);
                 (cached, cache') = cache_get (idempotencyCache st) key (tIdempotencyGet clk);
                 st' = st\<lparr>idempotencyCache := cache'\<rparr>
             in case cached of
                  Some c \<Rightarrow>
                    (Sent \<lparr>Response.status = CachedResponse.status c,
                           Response.headers =
                             fold (\<lambda>(h, v) m. m(h \<mapsto> v)) (CachedResponse.headers c) (resHeaders res),
                           Response.body = JsonBody (CachedResponse.body c)\<rparr>,
                     st')
                | None \<Rightarrow>
                    (let (reply, st'') = next st' res in (reply, captureJson clk key reply st''))))"

text \<open>\<open>extractNonceKey\<close>: \<open>nonce\<close>, then \<open>memo\<close> when it is truthy, joined by a colon.\<close>

definition extractNonceKey :: "PaymentPayload \<Rightarrow> string" where
  "extractNonceKey payload =
     (let parts = [PaymentPayload.nonce payload]
                  @ (if \<not> falsy (PaymentPayload.memo payload)
                     then [the (PaymentPayload.memo payload)] else [])
      in ''nonce:'' @ join '':'' parts)"

definition replayProtection ::
  "Clock \<Rightarrow> Request \<Rightarrow> GatewayState \<Rightarrow> Res \<Rightarrow> Outcome \<times> GatewayState" where
  "replayProtection clk req st res =
     (case headerString req (toLowerCase X402_SIGNATURE) of
        None \<Rightarrow> (Next res, st)
      | Some raw \<Rightarrow>
          if raw = [] then (Next res, st)
          else
            (case paymentPayload res of
               None \<Rightarrow> (Next res, st)
             | Some payload \<Rightarrow>
                 (let nonceKey = extractNonceKey payload;
                      (seen, nonces') = cache_has (replayNonces st) nonceKey (tReplayHas clk)
                  in if seen
                     then (Respond (sendJson res 409
                             (errorJson ''Replay detected: payment nonce has already been used'')),
                           st\<lparr>replayNonces := nonces'\<rparr>)
                     else (Next res,
                           st\<lparr>replayNonces :=
                                cache_set nonces' nonceKey True None (tReplaySet clk)\<rparr>))))"

section \<open>Payment gate (middleware/paymentRequired.ts)\<close>

definition mockReceipt :: "config \<Rightarrow> Clock \<Rightarrow> PaymentPayload \<Rightarrow> PaymentReceipt" where
  "mockReceipt cfg clk payload =
     \<lparr>PaymentReceipt.txHash = Some (''0x'' @ replicate 64 CHR ''0''),
      PaymentReceipt.network = config.network cfg,
      PaymentReceipt.payer = ''ST1MOCK000000000000000000000000000000000'',
      PaymentReceipt.amount = PaymentPayload.amount payload,
      PaymentReceipt.timestamp = tReceipt clk,
      PaymentReceipt.settled = True\<rparr>"

text \<open>\<open>res.set(PAYMENT-RESPONSE, toBase64(receipt)); res.locals.receipt = receipt; next()\<close>.\<close>

definition attachReceipt :: "Platform \<Rightarrow> Res \<Rightarrow> PaymentReceipt \<Rightarrow> Outcome" where
  "attachReceipt plat res r =
     Next (res\<lparr>resHeaders := (resHeaders res)(X402_RESPONSE \<mapsto> toBase64 plat (receiptJson r)),
               receipt := Some r\<rparr>)"

definition paymentRequired ::
  "Platform \<Rightarrow> PolicyEngine \<Rightarrow> config \<Rightarrow> Clock \<Rightarrow> Request \<Rightarrow> Res \<Rightarrow> Outcome" where
  "paymentRequired plat eng cfg clk req res =
     (case findPolicy eng (Request.path req) (Request.method req) of
        None \<Rightarrow> Next res
      | Some pol \<Rightarrow>
          (let accept = buildAccept cfg pol req in
           case paymentPayload res of
             None \<Rightarrow>
               (let requirements = buildRequirements accept in
                Respond
                  \<lparr>Response.status = 402,
                   Response.headers =
                     (resHeaders res)(X402_REQUIRED \<mapsto> toBase64 plat (requirementsJson requirements)),
                   Response.body = JsonBody (requirementsJson requirements)\<rparr>)
           | Some payload \<Rightarrow>
               if mockPayments cfg then attachReceipt plat res (mockReceipt cfg clk payload)
               else
                 (let rawSig = headerString req X402_SIGNATURE in
                  case verifyPayment plat rawSig accept of
                    Inl message \<Rightarrow> Respond (sendJson res 502 (errorJson message))
                  | Inr verification \<Rightarrow>
                      if \<not> valid verification
                      then Respond (sendJson res 401
                             (errorJson ''Payment signature verification failed''))
                      else
                        (case settlePayment plat rawSig accept of
                           Inl message \<Rightarrow> Respond (sendJson res 502 (errorJson message))
                         | Inr settlement \<Rightarrow>
                             attachReceipt plat res
                               \<lparr>PaymentReceipt.txHash =
                                  Some (FacilitatorSettleResponse.txHash settlement),
                                PaymentReceipt.network =
                                  FacilitatorSettleResponse.network settlement,
                                PaymentReceipt.payer = FacilitatorVerifyResponse.payer verification,
                                PaymentReceipt.amount =
                                  FacilitatorVerifyResponse.amount verification,
                                PaymentReceipt.timestamp =
                                  FacilitatorSettleResponse.timestamp settlement,
                                PaymentReceipt.settled =
                                  FacilitatorSettleResponse.settled settlement\<rparr>))))"

section \<open>The pipeline (apps/gateway/src/index.ts)\<close>

text \<open>
  The pipeline sees the requests that the public routes (\<open>/health\<close>, \<open>/.well-known/x402\<close>)
  have not answered, after \<open>express.json()\<close> has read the body. Below are the stages that
  follow the idempotency stage, in the order \<open>app.use\<close> registers them, and then the route
  handler (the echo route or the proxy), which is an argument: it reads the request and \<open>res\<close>
  and sends the response.
\<close>

definition paymentStages ::
  "Platform \<Rightarrow> PolicyEngine \<Rightarrow> config \<Rightarrow> Clock \<Rightarrow> (Request \<Rightarrow> Res \<Rightarrow> Reply) \<Rightarrow> Request
     \<Rightarrow> GatewayState \<Rightarrow> Res \<Rightarrow> Reply \<times> GatewayState" where
  "paymentStages plat eng cfg clk handler req st res =
     (case validateSignature plat eng cfg req res of
        Respond r \<Rightarrow> (Sent r, st)
      | Throws err \<Rightarrow> (Failed err, st)
      | Next res1 \<Rightarrow>
          (case replayProtection clk req st res1 of
             (Respond r, st2) \<Rightarrow> (Sent r, st2)
           | (Throws err, st2) \<Rightarrow> (Failed err, st2)
           | (Next res2, st2) \<Rightarrow>
               (case paymentRequired plat eng cfg clk req res2 of
                  Respond r \<Rightarrow> (Sent r, st2)
                | Throws err \<Rightarrow> (Failed err, st2)
                | Next res3 \<Rightarrow> (handler req res3, st2))))"

definition gateway ::
  "Platform \<Rightarrow> PolicyEngine \<Rightarrow> config \<Rightarrow> Clock \<Rightarrow> (Request \<Rightarrow> Res \<Rightarrow> Reply) \<Rightarrow> Request
     \<Rightarrow> GatewayState \<Rightarrow> Reply \<times> GatewayState" where
  "gateway plat eng cfg clk handler req st =
     idempotency clk req st newRes (paymentStages plat eng cfg clk handler req)"

text \<open>
  A run of the server: what happens to the two caches, one event after the other. An event is
  a request that reaches the pipeline, with its clock readings, or a tick of the sweep timer of
  one of the caches.
\<close>

datatype Event = Incoming Clock Request | SweepIdempotency int | SweepNonces int

fun step ::
  "Platform \<Rightarrow> PolicyEngine \<Rightarrow> config \<Rightarrow> (Request \<Rightarrow> Res \<Rightarrow> Reply) \<Rightarrow> Event
     \<Rightarrow> GatewayState \<Rightarrow> GatewayState" where
  "step plat eng cfg handler (Incoming clk req) st =
     snd (gateway plat eng cfg clk handler req st)"
| "step plat eng cfg handler (SweepIdempotency now) st =
     st\<lparr>idempotencyCache := cache_sweep (idempotencyCache st) now\<rparr>"
| "step plat eng cfg handler (SweepNonces now) st =
     st\<lparr>replayNonces := cache_sweep (replayNonces st) now\<rparr>"

fun serve ::
  "Platform \<Rightarrow> PolicyEngine \<Rightarrow> config \<Rightarrow> (Request \<Rightarrow> Res \<Rightarrow> Reply) \<Rightarrow> Event list
     \<Rightarrow> GatewayState \<Rightarrow> GatewayState" where
  "serve plat eng cfg handler [] st = st"
| "serve plat eng cfg handler (ev # rest) st =
     serve plat eng cfg handler rest (step plat eng cfg handler ev st)"

section \<open>Proxy request headers (middleware/proxy.ts)\<close>






section \<open>Discovery document (packages/schema/src/generator.ts)\<close>

record X402AcceptEntry =
  network :: string
  resource :: string
  scheme :: string
  payTo :: string
  maxAmountRequired :: string
  asset :: string
  description :: string
  mimeType :: string
  maxTimeoutSeconds :: int
  outputSchema :: EndpointSchema

record X402Discovery =
  x402Version :: int
  name :: string
  description :: string
  image :: string
  url :: string
  accepts :: "X402AcceptEntry list"

record DiscoveryOptions =
  optName :: "string option"
  optDescription :: "string option"
  optImage :: "string option"
  publicBaseUrl :: string

definition fallbackSchema :: "RoutePolicy \<Rightarrow> EndpointSchema" where
  "fallbackSchema p =
     \<lparr>EndpointSchema.method = methodName (RoutePolicy.method p),
      schemaInput = \<lparr>query = None, body = None\<rparr>,
      schemaOutput = [(''data'', \<lparr>fieldType = TObject,
                                   SchemaField.description = Some ''Response payload'',
                                   required = None, example = None\<rparr>)]\<rparr>"

definition policyToAccept :: "RoutePolicy \<Rightarrow> string \<Rightarrow> X402AcceptEntry" where
  "policyToAccept p base =
     \<lparr>X402AcceptEntry.network = ''stacks'',
      X402AcceptEntry.resource = stripTrailingSlashes base @ RoutePolicy.path p,
      X402AcceptEntry.scheme = RoutePolicy.scheme p,
      X402AcceptEntry.payTo = RoutePolicy.payTo p,
      X402AcceptEntry.maxAmountRequired = RoutePolicy.maxAmountRequired p,
      X402AcceptEntry.asset = RoutePolicy.asset p,
      X402AcceptEntry.description = RoutePolicy.description p,
      X402AcceptEntry.mimeType = RoutePolicy.mimeType p,
      X402AcceptEntry.maxTimeoutSeconds = RoutePolicy.maxTimeoutSeconds p,
      X402AcceptEntry.outputSchema =
        (case RoutePolicy.outputSchema p of Some sch \<Rightarrow> sch | None \<Rightarrow> fallbackSchema p)\<rparr>"

definition generateDiscovery :: "PolicyEngine \<Rightarrow> DiscoveryOptions \<Rightarrow> X402Discovery" where
  "generateDiscovery eng opts =
     (let base = publicBaseUrl opts in
      \<lparr>X402Discovery.x402Version = 2,
       name = orDefault (optName opts) ''moltgate'',
       X402Discovery.description = orDefault (optDescription opts) ''x402 payment gateway'',
       image = orDefault (optImage opts) (stripTrailingSlashes base @ ''/logo.png''),
       url = base,
       X402Discovery.accepts = map (\<lambda>p. policyToAccept p base) (all eng)\<rparr>)"

section \<open>Predicates of the statements\<close>

text \<open>No two registered policies share path and method.\<close>

definition uniqueRoutes :: "PolicyEngine \<Rightarrow> bool" where
  "uniqueRoutes e = distinct (map (\<lambda>p. (RoutePolicy.path p, RoutePolicy.method p)) (policies e))"

text \<open>Every entry of an idempotency cache has a 2xx status.\<close>

definition only2xx :: "CachedResponse TtlCache \<Rightarrow> bool" where
  "only2xx c = (\<forall>k e. store c k = Some e \<longrightarrow>
       200 \<le> CachedResponse.status (entryValue e) \<and> CachedResponse.status (entryValue e) < 300)"

text \<open>
  What the idempotency stage finds for a request: the entry under the request's idempotency
  key, when the request carries a key and the entry has not expired.
\<close>

definition cachedReply :: "Clock \<Rightarrow> Request \<Rightarrow> GatewayState \<Rightarrow> CachedResponse option" where
  "cachedReply clk req st =
     (case headerString req ''idempotency-key'' of
        None \<Rightarrow> None
      | Some token \<Rightarrow>
          if token = [] then None
          else fst (cache_get (idempotencyCache st)
                      (idempotencyKey token (Request.method req) (Request.path req))
                      (tIdempotencyGet clk)))"

text \<open>
  The short token form of a chain identifier, as the specification uses the words: the
  namespace in front of the colon (\<open>stacks\<close> for \<open>stacks:2147483648\<close>).
\<close>

definition shortNetworkToken_spec :: "string \<Rightarrow> string" where
  "shortNetworkToken_spec chain = takeWhile (\<lambda>c. c \<noteq> CHR '':'') chain"

text \<open>The decimal numeral of a natural number.\<close>

function showNat :: "nat \<Rightarrow> string" where
  "showNat n = (if n < 10 then [''0123456789'' ! n]
                else showNat (n div 10) @ [''0123456789'' ! (n mod 10)])"
  by pat_completeness auto
termination
  by (relation "measure id") auto

declare showNat.simps [simp del]

text \<open>
  The grammar of \<open>StringToBigInt\<close> in the words of ECMAScript. White space is any sequence of
  the characters of \<open>StrWhiteSpaceChar\<close>. A \<open>StrIntegerLiteral\<close> is one or more decimal digits
  with an optional sign in front, or \<open>0x\<close>, \<open>0o\<close> or \<open>0b\<close> (in either case) and one or more
  digits of that radix. A \<open>StringIntegerLiteral\<close> is white space, a \<open>StrIntegerLiteral\<close> or
  nothing, and white space.
\<close>

definition whiteSpace :: "string \<Rightarrow> bool" where
  "whiteSpace a = (\<exists>xs. set xs \<subseteq> set StrWhiteSpaceChar \<and> a = concat xs)"

definition digitString :: "string \<Rightarrow> string \<Rightarrow> bool" where
  "digitString alphabet ds = (ds \<noteq> [] \<and> set ds \<subseteq> set alphabet)"

definition StrIntegerLiteral :: "string \<Rightarrow> bool" where
  "StrIntegerLiteral t =
     (digitString ''0123456789'' t
      \<or> (\<exists>ds. (t = ''+'' @ ds \<or> t = ''-'' @ ds) \<and> digitString ''0123456789'' ds)
      \<or> (\<exists>ds. (t = ''0x'' @ ds \<or> t = ''0X'' @ ds) \<and> digitString ''0123456789abcdefABCDEF'' ds)
      \<or> (\<exists>ds. (t = ''0o'' @ ds \<or> t = ''0O'' @ ds) \<and> digitString ''01234567'' ds)
      \<or> (\<exists>ds. (t = ''0b'' @ ds \<or> t = ''0B'' @ ds) \<and> digitString ''01'' ds))"

definition StringIntegerLiteral :: "string \<Rightarrow> bool" where
  "StringIntegerLiteral s =
     (\<exists>a t b. whiteSpace a \<and> whiteSpace b \<and> s = a @ t @ b \<and> (t = [] \<or> StrIntegerLiteral t))"

text \<open>
  The nonce cache holds \<open>key\<close> until \<open>t\<close>: the entry is there and does not expire before
  \<open>t\<close>, so every look-up at a time before \<open>t\<close> finds it.
\<close>

definition recorded :: "bool TtlCache \<Rightarrow> string \<Rightarrow> int \<Rightarrow> bool" where
  "recorded c key t = (case store c key of None \<Rightarrow> False | Some e \<Rightarrow> t \<le> expiresAt e)"

text \<open>
  An event happens before \<open>t\<close>: the replay guard of the request looks the nonce up before
  \<open>t\<close>, the sweep of the nonce cache runs before \<open>t\<close>.
\<close>

fun happensBefore :: "int \<Rightarrow> Event \<Rightarrow> bool" where
  "happensBefore t (Incoming clk req) = (tReplayHas clk < t)"
| "happensBefore t (SweepIdempotency now) = True"
| "happensBefore t (SweepNonces now) = (now < t)"

section \<open>Sample values\<close>

text \<open>A gateway in mock mode with a base URL, its registry, and requests to it.\<close>

definition examplePolicy :: RoutePolicy where
  "examplePolicy =
     \<lparr>RoutePolicy.path = ''/v1/report'', RoutePolicy.method = GET, RoutePolicy.scheme = ''exact'',
      RoutePolicy.network = ''eip155:1'', RoutePolicy.asset = ''STX'',
      RoutePolicy.maxAmountRequired = ''18446744073709551616'',
      RoutePolicy.payTo = ''ST1PQHQKV0RJXZFY1DGX8MNSNYVE3VGZJSRTPGZGM'',
      RoutePolicy.description = ''Report'', RoutePolicy.mimeType = ''application/json'',
      RoutePolicy.maxTimeoutSeconds = 60, RoutePolicy.extra = None,
      RoutePolicy.outputSchema = None\<rparr>"

definition samplePayload :: PaymentPayload where
  "samplePayload =
     \<lparr>PaymentPayload.x402Version = JsNumber ''2'', PaymentPayload.scheme = ''exact'',
      PaymentPayload.network = ''stacks:2147483648'', PaymentPayload.asset = ''STX'',
      PaymentPayload.payTo = ''ST1PQHQKV0RJXZFY1DGX8MNSNYVE3VGZJSRTPGZGM'',
      PaymentPayload.amount = ''10'', PaymentPayload.nonce = ''abc'',
      PaymentPayload.signature = ''sig'',
      PaymentPayload.resource = ''https://gateway.example.com/proxy/api/weather'',
      PaymentPayload.memo = None\<rparr>"

definition sampleConfig :: config where
  "sampleConfig =
     \<lparr>config.network = ''stacks:2147483648'',
      facilitatorUrl = ''https://facilitator.stacksx402.com'',
      config.payTo = ''ST1PQHQKV0RJXZFY1DGX8MNSNYVE3VGZJSRTPGZGM'',
      amountMicroStx = ''18446744073709551616'',
      mockPayments = True,
      upstreamUrl = ''http://localhost:4000'',
      baseUrl = Some ''https://gateway.example.com''\<rparr>"

definition sampleEngine :: PolicyEngine where
  "sampleEngine = (case engine sampleConfig of Inr e \<Rightarrow> e | Inl err \<Rightarrow> newPolicyEngine)"

definition sampleDecoded :: "string \<Rightarrow> string \<Rightarrow> DecodedPayload" where
  "sampleDecoded amt non =
     \<lparr>DecodedPayload.x402Version = Some (JsNumber ''2''), DecodedPayload.scheme = Some ''exact'',
      DecodedPayload.network = Some ''stacks:2147483648'', DecodedPayload.asset = Some ''STX'',
      DecodedPayload.payTo = Some ''ST1PQHQKV0RJXZFY1DGX8MNSNYVE3VGZJSRTPGZGM'',
      DecodedPayload.amount = Some amt, DecodedPayload.nonce = Some non,
      DecodedPayload.signature = Some ''sig'',
      DecodedPayload.resource = Some ''https://gateway.example.com/'',
      DecodedPayload.memo = None\<rparr>"

definition samplePlatform :: Platform where
  "samplePlatform =
     \<lparr>toBase64 = (\<lambda>j. case j of JObj fs \<Rightarrow> concat (map fst fs) | _ \<Rightarrow> ''''),
      decodePayload =
        (\<lambda>raw. if raw = ''pay-10'' then Some (ParsedValue (sampleDecoded ''10'' ''abc''))
               else if raw = ''pay-big'' then Some (ParsedValue (sampleDecoded ''18446744073709551615'' ''def''))
               else None),
      verifyPayment = (\<lambda>sig accept. Inl ''Facilitator /verify failed (503): down''),
      settlePayment = (\<lambda>sig accept. Inl ''Facilitator /settle failed (503): down'')\<rparr>"

definition sampleClock :: "int \<Rightarrow> Clock" where
  "sampleClock t =
     \<lparr>tIdempotencyGet = t, tReplayHas = t + 1, tReplaySet = t + 2, tReceipt = t + 3,
      tIdempotencySet = t + 4\<rparr>"

definition sampleHandler :: "Request \<Rightarrow> Res \<Rightarrow> Reply" where
  "sampleHandler req res =
     Sent \<lparr>Response.status = statusCode res, Response.headers = resHeaders res,
           Response.body = JsonBody (JObj [(''success'', JBool True)])\<rparr>"

definition sampleRequest :: "string \<Rightarrow> string \<Rightarrow> (string \<times> HeaderValue) list \<Rightarrow> Request" where
  "sampleRequest m pth hs =
     \<lparr>Request.method = m, Request.path = pth, protocol = ''http'',
      Request.headers = (''host'', Single ''gateway.example.com'') # hs\<rparr>"

definition samplePaidRequest :: Request where
  "samplePaidRequest =
     sampleRequest ''GET'' ''/proxy/api/weather''
       [(''payment-signature'', Single ''pay-10''), (''idempotency-key'', Single ''k1'')]"

definition sampleCached :: CachedResponse where
  "sampleCached =
     \<lparr>CachedResponse.status = 200,
      CachedResponse.headers =
        [(''payment-response'', ''txHashnetworkpayeramounttimestampsettled'')],
      CachedResponse.body = JObj [(''success'', JBool True)]\<rparr>"

definition sampleHitState :: GatewayState where
  "sampleHitState =
     serve samplePlatform sampleEngine sampleConfig sampleHandler
       [Incoming (sampleClock 0) samplePaidRequest] initialState"

text \<open>
  The gateway started with \<open>AMOUNT_MICROSTX=0\<close>, whose echo route costs nothing, and a
  client whose payload gives one space as the amount.
\<close>

definition zeroEnv :: "string \<rightharpoonup> string" where
  "zeroEnv = Map.empty(''AMOUNT_MICROSTX'' \<mapsto> ''0'', ''BASE_URL'' \<mapsto> ''https://gateway.example.com'')"

definition zeroConfig :: config where
  "zeroConfig = sampleConfig\<lparr>amountMicroStx := ''0''\<rparr>"

definition zeroEngine :: PolicyEngine where
  "zeroEngine = (case engine zeroConfig of Inr e \<Rightarrow> e | Inl err \<Rightarrow> newPolicyEngine)"

definition blankPlatform :: Platform where
  "blankPlatform =
     samplePlatform\<lparr>decodePayload :=
       (\<lambda>raw. if raw = ''pay-blank'' then Some (ParsedValue (sampleDecoded '' '' ''abc''))
              else None)\<rparr>"

text \<open>A platform on which the header \<open>bnVsbA==\<close>, the base64 of \<open>null\<close>, decodes to \<open>null\<close>.\<close>

definition nullPlatform :: Platform where
  "nullPlatform =
     samplePlatform\<lparr>decodePayload :=
       (\<lambda>raw. if raw = ''bnVsbA=='' then Some ParsedNull else decodePayload samplePlatform raw)\<rparr>"

definition sampleOptions :: DiscoveryOptions where
  "sampleOptions =
     \<lparr>optName = None, optDescription = None, optImage = None,
      publicBaseUrl = ''https://api.example.com//''\<rparr>"

section \<open>Verification\<close>

subsection \<open>The policy registry\<close>

lemma toUpperCase_methodName: "toUpperCase (methodName m) = methodName m"
  by (cases m) (simp_all add: toUpperCase_def)

lemma methodName_inj: "methodName a = methodName b \<longleftrightarrow> a = b"
  by (cases a; cases b) simp_all

lemma find_unique:
  "distinct (map f ps) \<Longrightarrow> p \<in> set ps \<Longrightarrow> find (\<lambda>q. f q = f p) ps = Some p"
  by (induction ps) (auto simp: image_iff)

lemma match_registered:
  assumes "uniqueRoutes e" "p \<in> set (policies e)"
  shows "match e (RoutePolicy.path p) (methodName (RoutePolicy.method p)) = Some p"
proof -
  have "find (\<lambda>q. (RoutePolicy.path q, RoutePolicy.method q) = (RoutePolicy.path p, RoutePolicy.method p)) (policies e) = Some p"
    using assms unfolding uniqueRoutes_def by (rule find_unique)
  then show ?thesis
    by (simp add: match_def toUpperCase_methodName methodName_inj)
qed

lemma build_path:
  "build b = Inr p \<Longrightarrow> RoutePolicy.path p = PolicyBuilder.path b"
  by (auto simp: build_def split: option.splits if_splits)

lemma engine_policies:
  assumes "engine cfg = Inr e"
  shows "map RoutePolicy.path (policies e) = [''/v1/premium/echo'', ''/proxy/api/weather'', ''/proxy/api/summarize'']"
  using assms
  by (auto simp: engine_def echoPolicy_def weatherPolicy_def summarizePolicy_def add_def newPolicyEngine_def
      policy_def builder_get_def builder_post_def builder_costs_def builder_on_def builder_payTo_def
      builder_describe_def builder_ioSchema_def
      split: sum.splits dest!: build_path)

lemma distinct_pair_fst:
  "distinct (map f ps) \<Longrightarrow> distinct (map (\<lambda>p. (f p, g p)) ps)"
  by (induction ps) (auto simp: image_iff)

lemma engine_uniqueRoutes:
  assumes "engine cfg = Inr e"
  shows "uniqueRoutes e"
proof -
  have "distinct (map RoutePolicy.path (policies e))"
    by (simp add: engine_policies[OF assms])
  then show ?thesis unfolding uniqueRoutes_def by (rule distinct_pair_fst)
qed

lemma find_app:
  "find P (xs @ ys) = (case find P xs of Some x \<Rightarrow> Some x | None \<Rightarrow> find P ys)"
  by (induction xs) auto

lemma match_add:
  "match (add e items) pth m =
     (case match e pth m of Some p \<Rightarrow> Some p | None \<Rightarrow> match (add newPolicyEngine items) pth m)"
  by (simp add: match_def add_def newPolicyEngine_def find_app Let_def split: option.splits)

lemma match_sound:
  "match e pth m = Some p \<Longrightarrow>
     p \<in> set (policies e) \<and> RoutePolicy.path p = pth \<and> methodName (RoutePolicy.method p) = toUpperCase m"
  by (auto simp: match_def find_Some_iff)

lemma all_policies: "all e = policies e" by (simp add: all_def)

text \<open>
  Claim C9 as stated fails: \<open>add\<close> checks nothing, and adding a policy twice leaves two
  policies with the same path and method in the registry.
\<close>

theorem add_duplicate_counterexample:
  "\<not> uniqueRoutes (add (add newPolicyEngine [examplePolicy]) [examplePolicy])"
  by (simp add: uniqueRoutes_def add_def newPolicyEngine_def)

text \<open>
  Claim C9, amended. The registry keeps the policies in registration order and does not
  enforce uniqueness. \<open>match(path, method)\<close> is unambiguous all the same: what it returns is
  a registered policy with that path and the upper-cased method, and it is the first one, so
  adding policies never changes an answer already given. When no two registered policies share
  path and method, every registered policy is the one \<open>match\<close> returns for its own path and
  method; this is the case for the registry the gateway builds.
\<close>

theorem match_first_registered:
  "(\<forall>p. match e pth m = Some p \<longrightarrow>
        p \<in> set (policies e) \<and> RoutePolicy.path p = pth
        \<and> methodName (RoutePolicy.method p) = toUpperCase m)
   \<and> match (add e items) pth m =
       (case match e pth m of Some p \<Rightarrow> Some p | None \<Rightarrow> match (add newPolicyEngine items) pth m)
   \<and> (uniqueRoutes e \<longrightarrow>
        (\<forall>p \<in> set (policies e).
           match e (RoutePolicy.path p) (methodName (RoutePolicy.method p)) = Some p))
   \<and> (\<forall>cfg eng. engine cfg = Inr eng \<longrightarrow> uniqueRoutes eng)"
  using match_sound[of e pth m] match_add[of e items pth m] match_registered[of e]
    engine_uniqueRoutes
  by blast

lemmas sample_defs = sampleConfig_def sampleDecoded_def samplePlatform_def sampleClock_def
  sampleHandler_def sampleRequest_def

lemmas engine_defs = engine_def echoPolicy_def weatherPolicy_def summarizePolicy_def build_def
  policy_def builder_get_def builder_post_def builder_costs_def builder_on_def builder_payTo_def
  builder_describe_def builder_ioSchema_def falsy_def add_def newPolicyEngine_def

lemma sampleEngine_built: "engine sampleConfig = Inr sampleEngine"
  by (simp add: sampleEngine_def sampleConfig_def engine_defs)

lemma sampleEngine_paths:
  "map RoutePolicy.path (policies sampleEngine) = [''/v1/premium/echo'', ''/proxy/api/weather'', ''/proxy/api/summarize'']"
  by (rule engine_policies[OF sampleEngine_built])

lemma sampleEngine_policies_eval:
  "policies sampleEngine =
     [case echoPolicy sampleConfig of Inr p \<Rightarrow> p,
      case weatherPolicy sampleConfig of Inr p \<Rightarrow> p,
      case summarizePolicy sampleConfig of Inr p \<Rightarrow> p]"
  by (simp add: sampleEngine_def sampleConfig_def engine_defs)

lemma sample_free_route:
  "findPolicy sampleEngine ''/proxy/api/free'' ''GET'' = None"
  by (simp add: findPolicy_def match_def sampleEngine_policies_eval sampleConfig_def
      echoPolicy_def weatherPolicy_def summarizePolicy_def build_def
      policy_def builder_get_def builder_post_def builder_costs_def builder_on_def builder_payTo_def
      builder_describe_def builder_ioSchema_def falsy_def)

lemma sample_echo_route:
  "findPolicy sampleEngine ''/v1/premium/echo'' ''GET'' = Some (hd (policies sampleEngine))"
  by (simp add: findPolicy_def match_def sampleEngine_policies_eval sampleConfig_def
      echoPolicy_def weatherPolicy_def summarizePolicy_def build_def toUpperCase_def
      policy_def builder_get_def builder_post_def builder_costs_def builder_on_def builder_payTo_def
      builder_describe_def builder_ioSchema_def falsy_def)

lemma sample_weather_route:
  "findPolicy sampleEngine ''/proxy/api/weather'' ''GET'' = Some (policies sampleEngine ! Suc 0)"
  by (simp add: findPolicy_def match_def sampleEngine_policies_eval sampleConfig_def
      echoPolicy_def weatherPolicy_def summarizePolicy_def build_def toUpperCase_def
      policy_def builder_get_def builder_post_def builder_costs_def builder_on_def builder_payTo_def
      builder_describe_def builder_ioSchema_def falsy_def)

lemma sample_echo_fields:
  "RoutePolicy.network (hd (policies sampleEngine)) = ''stacks:2147483648''"
  "RoutePolicy.asset (hd (policies sampleEngine)) = ''STX''"
  "RoutePolicy.payTo (hd (policies sampleEngine)) = ''ST1PQHQKV0RJXZFY1DGX8MNSNYVE3VGZJSRTPGZGM''"
  "RoutePolicy.scheme (hd (policies sampleEngine)) = ''exact''"
  "RoutePolicy.maxAmountRequired (hd (policies sampleEngine)) = ''18446744073709551616''"
  by (simp_all add: sampleEngine_policies_eval sampleConfig_def echoPolicy_def build_def
      policy_def builder_get_def builder_costs_def builder_on_def builder_payTo_def
      builder_describe_def builder_ioSchema_def falsy_def)

lemma sample_weather_fields:
  "RoutePolicy.network (policies sampleEngine ! Suc 0) = ''stacks:2147483648''"
  "RoutePolicy.asset (policies sampleEngine ! Suc 0) = ''STX''"
  "RoutePolicy.payTo (policies sampleEngine ! Suc 0) = ''ST1PQHQKV0RJXZFY1DGX8MNSNYVE3VGZJSRTPGZGM''"
  "RoutePolicy.scheme (policies sampleEngine ! Suc 0) = ''exact''"
  "RoutePolicy.maxAmountRequired (policies sampleEngine ! Suc 0) = ''10''"
  by (simp_all add: sampleEngine_policies_eval sampleConfig_def weatherPolicy_def build_def
      policy_def builder_get_def builder_costs_def builder_on_def builder_payTo_def
      builder_describe_def builder_ioSchema_def falsy_def)

text \<open>
  The sample gateway's registry: its routes are unique and \<open>match\<close> finds the summarize policy.
\<close>

theorem match_first_registered_witness:
  "uniqueRoutes sampleEngine
   \<and> match sampleEngine ''/proxy/api/summarize'' ''POST'' = Some (policies sampleEngine ! 2)"
proof -
  let ?p = "policies sampleEngine ! 2"
  note main = match_first_registered[of sampleEngine "''/proxy/api/summarize''" "''POST''" "[]"]
  have u: "uniqueRoutes sampleEngine"
    using main[THEN conjunct2, THEN conjunct2, THEN conjunct2, rule_format, OF sampleEngine_built] .
  have mem: "?p \<in> set (policies sampleEngine)"
    by (simp add: sampleEngine_policies_eval)
  have f: "RoutePolicy.path ?p = ''/proxy/api/summarize''" "methodName (RoutePolicy.method ?p) = ''POST''"
    by (simp_all add: sampleEngine_policies_eval sampleConfig_def summarizePolicy_def build_def
      policy_def builder_post_def builder_costs_def builder_on_def builder_payTo_def
      builder_describe_def builder_ioSchema_def falsy_def)
  have "match sampleEngine (RoutePolicy.path ?p) (methodName (RoutePolicy.method ?p)) = Some ?p"
    using main[THEN conjunct2, THEN conjunct2, THEN conjunct1, rule_format, OF u mem] .
  then show ?thesis using u by (simp add: f)
qed

subsection \<open>Exact integer parsing\<close>

text \<open>
  \<open>dropPrefixes\<close> removes exactly a sequence of members of the list, when no member is the
  beginning of another (as it is for the UTF-8 encodings of distinct characters); so
  \<open>trimString\<close> removes the white space around a string, and nothing else.
\<close>

lemma dropPrefixes_none:
  "\<forall>w\<in>set ws. w \<noteq> [] \<longrightarrow> \<not> startsWith s w \<Longrightarrow> dropPrefixes ws s = s"
proof -
  assume a: "\<forall>w\<in>set ws. w \<noteq> [] \<longrightarrow> \<not> startsWith s w"
  then have "find (\<lambda>w. w \<noteq> [] \<and> startsWith s w) ws = None"
    by (auto simp: find_None_iff)
  then show ?thesis by (subst dropPrefixes.simps) simp
qed

lemma startsWith_hd: "w \<noteq> [] \<Longrightarrow> startsWith s w \<Longrightarrow> s \<noteq> [] \<and> hd s = hd w"
  by (cases w; cases s) (auto simp: startsWith_def)

lemma dropPrefixes_hd:
  "s \<noteq> [] \<Longrightarrow> hd s \<notin> hd ` set ws \<Longrightarrow> dropPrefixes ws s = s"
  by (rule dropPrefixes_none) (auto dest: startsWith_hd)

lemma dropPrefixes_Nil: "dropPrefixes ws [] = []"
  by (rule dropPrefixes_none) (auto simp: startsWith_def)

lemma dropPrefixes_split:
  "\<exists>xs. set xs \<subseteq> set ws \<and> s = concat xs @ dropPrefixes ws s"
proof (induction ws s rule: dropPrefixes.induct)
  case (1 ws s)
  show ?case
  proof (cases "find (\<lambda>w. w \<noteq> [] \<and> startsWith s w) ws")
    case None
    then have "dropPrefixes ws s = s" by (subst dropPrefixes.simps) simp
    then show ?thesis by (intro exI[of _ "[]"]) simp
  next
    case (Some w)
    then have w: "w \<in> set ws" "take (length w) s = w"
      by (auto simp: find_Some_iff startsWith_def in_set_conv_nth)
    from "1.IH"[OF Some] obtain xs where
      xs: "set xs \<subseteq> set ws" "drop (length w) s = concat xs @ dropPrefixes ws (drop (length w) s)"
      by blast
    have d: "dropPrefixes ws s = dropPrefixes ws (drop (length w) s)"
      using Some by (subst dropPrefixes.simps) simp
    have "s = w @ drop (length w) s" using w(2) by (metis append_take_drop_id)
    then have "s = concat (w # xs) @ dropPrefixes ws s"
      using xs(2) d by simp
    moreover have "set (w # xs) \<subseteq> set ws" using w(1) xs(1) by simp
    ultimately show ?thesis by blast
  qed
qed

lemma dropPrefixes_step:
  assumes pf: "\<forall>w\<in>set ws. \<forall>w'\<in>set ws. startsWith w' w \<longrightarrow> w = w'" and w: "w \<in> set ws" "w \<noteq> []"
  shows "dropPrefixes ws (w @ r) = dropPrefixes ws r"
proof -
  have "\<exists>x. find (\<lambda>w'. w' \<noteq> [] \<and> startsWith (w @ r) w') ws = Some x"
    using w by (cases "find (\<lambda>w'. w' \<noteq> [] \<and> startsWith (w @ r) w') ws")
      (auto simp: find_None_iff startsWith_def)
  then obtain x where x: "find (\<lambda>w'. w' \<noteq> [] \<and> startsWith (w @ r) w') ws = Some x" by blast
  then have xs: "x \<in> set ws" "x \<noteq> []" "take (length x) (w @ r) = x"
    by (auto simp: find_Some_iff startsWith_def in_set_conv_nth)
  have "x = w"
  proof (cases "length x \<le> length w")
    case True
    with xs(3) have "take (length x) w = x" by simp
    then have "startsWith w x" by (simp add: startsWith_def)
    with pf xs(1) w(1) show ?thesis by auto
  next
    case False
    then have "take (length w) x = w" using xs(3)
      by (metis append_eq_conv_conj nat_le_linear take_all_iff take_take min.absorb1 append_take_drop_id)
    then have "startsWith x w" by (simp add: startsWith_def)
    with pf xs(1) w(1) show ?thesis by auto
  qed
  with x show ?thesis by (subst dropPrefixes.simps) simp
qed

lemma dropPrefixes_concat:
  assumes "\<forall>w\<in>set ws. \<forall>w'\<in>set ws. startsWith w' w \<longrightarrow> w = w'" "[] \<notin> set ws" "set xs \<subseteq> set ws"
  shows "dropPrefixes ws (concat xs @ t) = dropPrefixes ws t"
  using assms(3)
proof (induction xs)
  case Nil
  then show ?case by simp
next
  case (Cons x xs)
  then have "x \<in> set ws" "x \<noteq> []" using assms(2) by auto
  then show ?case using Cons dropPrefixes_step[OF assms(1), of x "concat xs @ t"] by simp
qed

lemma prefixFree_ws:
  "\<forall>w\<in>set StrWhiteSpaceChar. \<forall>w'\<in>set StrWhiteSpaceChar. startsWith w' w \<longrightarrow> w = w'"
  unfolding StrWhiteSpaceChar_def startsWith_def by simp

lemma prefixFree_ws_rev:
  "\<forall>w\<in>set (map rev StrWhiteSpaceChar). \<forall>w'\<in>set (map rev StrWhiteSpaceChar).
      startsWith w' w \<longrightarrow> w = w'"
  unfolding StrWhiteSpaceChar_def startsWith_def by simp

lemma ws_nonempty: "[] \<notin> set StrWhiteSpaceChar" "[] \<notin> set (map rev StrWhiteSpaceChar)"
  by (simp_all add: StrWhiteSpaceChar_def)


lemma whiteSpace_Nil: "whiteSpace []"
  unfolding whiteSpace_def by (intro exI[of _ "[]"]) simp

lemma whiteSpace_rev:
  assumes "set ys \<subseteq> set (map rev StrWhiteSpaceChar)"
  shows "whiteSpace (rev (concat ys))"
proof -
  have "set (map rev (rev ys)) \<subseteq> set StrWhiteSpaceChar"
    using assms by (auto simp: rev_swap)
  moreover have "rev (concat ys) = concat (map rev (rev ys))" by (rule rev_concat)
  ultimately show ?thesis unfolding whiteSpace_def by blast
qed

lemma trimString_split:
  "\<exists>a b. whiteSpace a \<and> whiteSpace b \<and> s = a @ trimString s @ b"
proof -
  obtain xs where xs: "set xs \<subseteq> set StrWhiteSpaceChar"
      "s = concat xs @ dropPrefixes StrWhiteSpaceChar s"
    using dropPrefixes_split by blast
  let ?s1 = "dropPrefixes StrWhiteSpaceChar s"
  obtain ys where ys: "set ys \<subseteq> set (map rev StrWhiteSpaceChar)"
      "rev ?s1 = concat ys @ dropPrefixes (map rev StrWhiteSpaceChar) (rev ?s1)"
    using dropPrefixes_split by blast
  have "?s1 = rev (rev ?s1)" by simp
  also have "\<dots> = trimString s @ rev (concat ys)"
    by (subst ys(2)) (simp add: trimString_def)
  finally have "s = concat xs @ trimString s @ rev (concat ys)" using xs(2) by simp
  moreover have "whiteSpace (concat xs)" using xs(1) unfolding whiteSpace_def by blast
  moreover have "whiteSpace (rev (concat ys))" using ys(1) by (rule whiteSpace_rev)
  ultimately show ?thesis by blast
qed

lemma trimString_padded:
  assumes a: "whiteSpace a" and b: "whiteSpace b"
    and t: "t \<noteq> []" "hd t \<notin> set (map hd StrWhiteSpaceChar)" "last t \<notin> set (map last StrWhiteSpaceChar)"
  shows "trimString (a @ t @ b) = t"
proof -
  obtain xs where xs: "set xs \<subseteq> set StrWhiteSpaceChar" "a = concat xs"
    using a unfolding whiteSpace_def by blast
  obtain ys where ys: "set ys \<subseteq> set StrWhiteSpaceChar" "b = concat ys"
    using b unfolding whiteSpace_def by blast
  have "dropPrefixes StrWhiteSpaceChar (a @ t @ b) = dropPrefixes StrWhiteSpaceChar (t @ b)"
    unfolding xs(2) by (rule dropPrefixes_concat[OF prefixFree_ws ws_nonempty(1) xs(1)])
  also have "\<dots> = t @ b"
    using t(1,2) by (intro dropPrefixes_hd) auto
  finally have 1: "dropPrefixes StrWhiteSpaceChar (a @ t @ b) = t @ b" .
  have rb: "rev b = concat (map rev (rev ys))" unfolding ys(2) by (rule rev_concat)
  have sub: "set (map rev (rev ys)) \<subseteq> set (map rev StrWhiteSpaceChar)"
    using ys(1) by auto
  have "dropPrefixes (map rev StrWhiteSpaceChar) (rev (t @ b))
          = dropPrefixes (map rev StrWhiteSpaceChar) (rev t)"
    unfolding rev_append rb
    by (rule dropPrefixes_concat[OF prefixFree_ws_rev ws_nonempty(2) sub])
  also have "\<dots> = rev t"
  proof (rule dropPrefixes_hd)
    show "rev t \<noteq> []" using t(1) by simp
    have "hd ` set (map rev StrWhiteSpaceChar) = set (map last StrWhiteSpaceChar)"
      using ws_nonempty(1) by (auto simp: hd_rev image_iff)
    then show "hd (rev t) \<notin> hd ` set (map rev StrWhiteSpaceChar)"
      using t(1,3) by (simp add: hd_rev)
  qed
  finally show ?thesis by (simp add: trimString_def 1)
qed

lemma trimString_blank:
  assumes a: "whiteSpace a"
  shows "trimString a = []"
proof -
  obtain xs where xs: "set xs \<subseteq> set StrWhiteSpaceChar" "a = concat xs"
    using a unfolding whiteSpace_def by blast
  have "dropPrefixes StrWhiteSpaceChar (concat xs @ []) = dropPrefixes StrWhiteSpaceChar []"
    by (rule dropPrefixes_concat[OF prefixFree_ws ws_nonempty(1) xs(1)])
  then show ?thesis by (simp add: trimString_def xs(2) dropPrefixes_Nil)
qed

lemma whiteSpace_append: "whiteSpace a \<Longrightarrow> whiteSpace b \<Longrightarrow> whiteSpace (a @ b)"
  unfolding whiteSpace_def
proof -
  assume "\<exists>xs. set xs \<subseteq> set StrWhiteSpaceChar \<and> a = concat xs"
    "\<exists>xs. set xs \<subseteq> set StrWhiteSpaceChar \<and> b = concat xs"
  then obtain xs ys where "set xs \<subseteq> set StrWhiteSpaceChar" "a = concat xs"
    "set ys \<subseteq> set StrWhiteSpaceChar" "b = concat ys" by blast
  then have "set (xs @ ys) \<subseteq> set StrWhiteSpaceChar \<and> a @ b = concat (xs @ ys)" by simp
  then show "\<exists>xs. set xs \<subseteq> set StrWhiteSpaceChar \<and> a @ b = concat xs" by blast
qed

lemma digitsValue_Some_iff:
  "(\<exists>v. digitsValue r acc ds = Some v) = (\<forall>c\<in>set ds. \<exists>d. digitValue c = Some d \<and> d < r)"
  by (induction ds arbitrary: acc) (auto split: option.splits)

lemma map_of_filter:
  assumes "distinct (map fst ps)"
  shows "(\<exists>d. map_of ps c = Some d \<and> P d) = (c \<in> set (map fst (filter (\<lambda>p. P (snd p)) ps)))"
  using assms by (simp add: image_iff)

lemma digit_pairs_distinct:
  "distinct (map fst (zip ''0123456789abcdefABCDEF''
     [0::nat, 1, 2, 3, 4, 5, 6, 7, 8, 9, 10, 11, 12, 13, 14, 15, 10, 11, 12, 13, 14, 15]))"
  by simp

lemma digit_alphabet:
  "(\<exists>d. digitValue c = Some d \<and> d < 10) = (c \<in> set ''0123456789'')"
  "(\<exists>d. digitValue c = Some d \<and> d < 16) = (c \<in> set ''0123456789abcdefABCDEF'')"
  "(\<exists>d. digitValue c = Some d \<and> d < 8) = (c \<in> set ''01234567'')"
  "(\<exists>d. digitValue c = Some d \<and> d < 2) = (c \<in> set ''01'')"
  unfolding digitValue_def map_of_filter[OF digit_pairs_distinct] by simp_all

lemma parseDigits_Some_iff:
  "(\<exists>v. parseDigits 10 ds = Some v) = digitString ''0123456789'' ds"
  "(\<exists>v. parseDigits 16 ds = Some v) = digitString ''0123456789abcdefABCDEF'' ds"
  "(\<exists>v. parseDigits 8 ds = Some v) = digitString ''01234567'' ds"
  "(\<exists>v. parseDigits 2 ds = Some v) = digitString ''01'' ds"
proof -
  have p: "(\<exists>v. parseDigits r ds = Some v) = (ds \<noteq> [] \<and> (\<exists>v. digitsValue r 0 ds = Some v))" for r
    by (auto simp: parseDigits_def)
  show "(\<exists>v. parseDigits 10 ds = Some v) = digitString ''0123456789'' ds"
    unfolding p digitsValue_Some_iff digit_alphabet(1) digitString_def by blast
  show "(\<exists>v. parseDigits 16 ds = Some v) = digitString ''0123456789abcdefABCDEF'' ds"
    unfolding p digitsValue_Some_iff digit_alphabet(2) digitString_def by blast
  show "(\<exists>v. parseDigits 8 ds = Some v) = digitString ''01234567'' ds"
    unfolding p digitsValue_Some_iff digit_alphabet(3) digitString_def by blast
  show "(\<exists>v. parseDigits 2 ds = Some v) = digitString ''01'' ds"
    unfolding p digitsValue_Some_iff digit_alphabet(4) digitString_def by blast
qed

lemma StringToBigInt_trimmed:
  "trimString s = t \<Longrightarrow> trimString t = t \<Longrightarrow> StringToBigInt s = StringToBigInt t"
  by (simp add: StringToBigInt_def)

lemma literal_ends:
  assumes "StrIntegerLiteral t"
  shows "t \<noteq> []" "hd t \<in> set ''0123456789+-''" "last t \<in> set ''0123456789abcdefABCDEF''"
proof -
  have d: "ds \<noteq> [] \<and> hd ds \<in> set al \<and> last ds \<in> set al" if "digitString al ds" for al ds
    using that by (auto simp: digitString_def)
  from assms show "t \<noteq> []" by (auto simp: StrIntegerLiteral_def digitString_def)
  from assms show "hd t \<in> set ''0123456789+-''"
    unfolding StrIntegerLiteral_def
    by (elim disjE exE conjE) (use d in \<open>force+\<close>)
  from assms show "last t \<in> set ''0123456789abcdefABCDEF''"
    unfolding StrIntegerLiteral_def
  proof (elim disjE exE conjE)
    assume "digitString ''0123456789'' t"
    from d[OF this] show ?thesis by auto
  next
    fix ds assume "t = ''+'' @ ds" "digitString ''0123456789'' ds"
    with d[OF this(2)] show ?thesis by auto
  next
    fix ds assume "t = ''-'' @ ds" "digitString ''0123456789'' ds"
    with d[OF this(2)] show ?thesis by auto
  next
    fix ds assume "t = ''0x'' @ ds" "digitString ''0123456789abcdefABCDEF'' ds"
    with d[OF this(2)] show ?thesis by auto
  next
    fix ds assume "t = ''0X'' @ ds" "digitString ''0123456789abcdefABCDEF'' ds"
    with d[OF this(2)] show ?thesis by auto
  next
    fix ds assume "t = ''0o'' @ ds" "digitString ''01234567'' ds"
    with d[OF this(2)] show ?thesis by auto
  next
    fix ds assume "t = ''0O'' @ ds" "digitString ''01234567'' ds"
    with d[OF this(2)] show ?thesis by auto
  next
    fix ds assume "t = ''0b'' @ ds" "digitString ''01'' ds"
    with d[OF this(2)] show ?thesis by auto
  next
    fix ds assume "t = ''0B'' @ ds" "digitString ''01'' ds"
    with d[OF this(2)] show ?thesis by auto
  qed
qed

lemma not_ws_first: "c \<in> set ''0123456789+-'' \<Longrightarrow> c \<notin> set (map hd StrWhiteSpaceChar)"
  by (auto simp: StrWhiteSpaceChar_def)

lemma not_ws_last: "c \<in> set ''0123456789abcdefABCDEF'' \<Longrightarrow> c \<notin> set (map last StrWhiteSpaceChar)"
  by (auto simp: StrWhiteSpaceChar_def)

lemma trimString_literal:
  "whiteSpace a \<Longrightarrow> whiteSpace b \<Longrightarrow> StrIntegerLiteral t \<Longrightarrow> trimString (a @ t @ b) = t"
  using literal_ends[of t] not_ws_first[of "hd t"] not_ws_last[of "last t"]
  by (intro trimString_padded) blast+

lemma decimal_parse:
  assumes "digitString ''0123456789'' t" "trimString t = t"
  shows "StringToBigInt t = parseDigits 10 t"
proof -
  from assms(1) have ne: "t \<noteq> []" and sub: "set t \<subseteq> set ''0123456789''"
    by (auto simp: digitString_def)
  have np: "\<not> startsWith t [CHR ''0'', c]"
    if "c \<in> {CHR ''x'', CHR ''X'', CHR ''o'', CHR ''O'', CHR ''b'', CHR ''B''}" for c
  proof
    assume "startsWith t [CHR ''0'', c]"
    then have "take 2 t = [CHR ''0'', c]" by (simp add: startsWith_def numeral_2_eq_2)
    then have "c \<in> set (take 2 t)" by simp
    then have "c \<in> set t" by (rule in_set_takeD)
    with sub that show False by auto
  qed
  have "hd t \<in> set t" using ne by simp
  with sub have sign: "hd t \<noteq> CHR ''+''" "hd t \<noteq> CHR ''-''" by auto
  show ?thesis
    using ne sign np by (simp add: StringToBigInt_def assms(2))
qed

lemma literal_parses:
  assumes "StrIntegerLiteral t" "trimString t = t"
  shows "\<exists>v. StringToBigInt t = Some v"
  using assms(1) unfolding StrIntegerLiteral_def
proof (elim disjE exE conjE)
  assume d: "digitString ''0123456789'' t"
  show ?thesis using parseDigits_Some_iff(1)[of t] d by (simp add: decimal_parse[OF d assms(2)])
next
  fix ds assume t: "t = ''+'' @ ds" and d: "digitString ''0123456789'' ds"
  show ?thesis unfolding StringToBigInt_def assms(2) Let_def using parseDigits_Some_iff(1)[of ds] d
    by (simp add: t startsWith_def)
next
  fix ds assume t: "t = ''-'' @ ds" and d: "digitString ''0123456789'' ds"
  from parseDigits_Some_iff(1)[of ds] d obtain v where "parseDigits 10 ds = Some v" by blast
  then show ?thesis unfolding StringToBigInt_def assms(2) Let_def
    by (simp add: t startsWith_def)
next
  fix ds assume t: "t = ''0x'' @ ds" and d: "digitString ''0123456789abcdefABCDEF'' ds"
  show ?thesis unfolding StringToBigInt_def assms(2) Let_def using parseDigits_Some_iff(2)[of ds] d
    by (simp add: t startsWith_def)
next
  fix ds assume t: "t = ''0X'' @ ds" and d: "digitString ''0123456789abcdefABCDEF'' ds"
  show ?thesis unfolding StringToBigInt_def assms(2) Let_def using parseDigits_Some_iff(2)[of ds] d
    by (simp add: t startsWith_def)
next
  fix ds assume t: "t = ''0o'' @ ds" and d: "digitString ''01234567'' ds"
  show ?thesis unfolding StringToBigInt_def assms(2) Let_def using parseDigits_Some_iff(3)[of ds] d
    by (simp add: t startsWith_def)
next
  fix ds assume t: "t = ''0O'' @ ds" and d: "digitString ''01234567'' ds"
  show ?thesis unfolding StringToBigInt_def assms(2) Let_def using parseDigits_Some_iff(3)[of ds] d
    by (simp add: t startsWith_def)
next
  fix ds assume t: "t = ''0b'' @ ds" and d: "digitString ''01'' ds"
  show ?thesis unfolding StringToBigInt_def assms(2) Let_def using parseDigits_Some_iff(4)[of ds] d
    by (simp add: t startsWith_def)
next
  fix ds assume t: "t = ''0B'' @ ds" and d: "digitString ''01'' ds"
  show ?thesis unfolding StringToBigInt_def assms(2) Let_def using parseDigits_Some_iff(4)[of ds] d
    by (simp add: t startsWith_def)
qed

lemma take2_split: "startsWith t p \<Longrightarrow> length p = 2 \<Longrightarrow> t = p @ drop 2 t"
  by (metis append_take_drop_id startsWith_def)

lemma parsed_literal:
  assumes "StringToBigInt s = Some v" "trimString s = t" "t \<noteq> []"
  shows "StrIntegerLiteral t"
proof -
  have P: "\<exists>v. parseDigits r ds = Some v" if "parseDigits r ds = Some v" for r ds v
    using that by blast
  have M: "\<exists>v. parseDigits r ds = Some v" if "map_option uminus (parseDigits r ds) = Some v" for r ds v
    using that by auto
  consider
      (hex) "startsWith t ''0x'' \<or> startsWith t ''0X''"
    | (oct) "\<not> (startsWith t ''0x'' \<or> startsWith t ''0X'')" "startsWith t ''0o'' \<or> startsWith t ''0O''"
    | (bin) "\<not> (startsWith t ''0x'' \<or> startsWith t ''0X'')" "\<not> (startsWith t ''0o'' \<or> startsWith t ''0O'')"
            "startsWith t ''0b'' \<or> startsWith t ''0B''"
    | (plus) "\<not> (startsWith t ''0x'' \<or> startsWith t ''0X'')" "\<not> (startsWith t ''0o'' \<or> startsWith t ''0O'')"
            "\<not> (startsWith t ''0b'' \<or> startsWith t ''0B'')" "hd t = CHR ''+''"
    | (minus) "\<not> (startsWith t ''0x'' \<or> startsWith t ''0X'')" "\<not> (startsWith t ''0o'' \<or> startsWith t ''0O'')"
            "\<not> (startsWith t ''0b'' \<or> startsWith t ''0B'')" "hd t \<noteq> CHR ''+''" "hd t = CHR ''-''"
    | (dec) "\<not> (startsWith t ''0x'' \<or> startsWith t ''0X'')" "\<not> (startsWith t ''0o'' \<or> startsWith t ''0O'')"
            "\<not> (startsWith t ''0b'' \<or> startsWith t ''0B'')" "hd t \<noteq> CHR ''+''" "hd t \<noteq> CHR ''-''"
    by blast
  then show ?thesis
  proof cases
    case hex
    with assms have "parseDigits 16 (drop 2 t) = Some v"
      by (simp add: StringToBigInt_def)
    then have "digitString ''0123456789abcdefABCDEF'' (drop 2 t)"
      using parseDigits_Some_iff(2)[of "drop 2 t"] by blast
    moreover from hex have "t = ''0x'' @ drop 2 t \<or> t = ''0X'' @ drop 2 t"
      using take2_split[of t "''0x''"] take2_split[of t "''0X''"] by auto
    ultimately show ?thesis unfolding StrIntegerLiteral_def by blast
  next
    case oct
    with assms have "parseDigits 8 (drop 2 t) = Some v"
      by (simp add: StringToBigInt_def)
    then have "digitString ''01234567'' (drop 2 t)"
      using parseDigits_Some_iff(3)[of "drop 2 t"] by blast
    moreover from oct have "t = ''0o'' @ drop 2 t \<or> t = ''0O'' @ drop 2 t"
      using take2_split[of t "''0o''"] take2_split[of t "''0O''"] by auto
    ultimately show ?thesis unfolding StrIntegerLiteral_def by blast
  next
    case bin
    with assms have "parseDigits 2 (drop 2 t) = Some v"
      by (simp add: StringToBigInt_def)
    then have "digitString ''01'' (drop 2 t)"
      using parseDigits_Some_iff(4)[of "drop 2 t"] by blast
    moreover from bin have "t = ''0b'' @ drop 2 t \<or> t = ''0B'' @ drop 2 t"
      using take2_split[of t "''0b''"] take2_split[of t "''0B''"] by auto
    ultimately show ?thesis unfolding StrIntegerLiteral_def by blast
  next
    case plus
    with assms have "parseDigits 10 (tl t) = Some v"
      by (simp add: StringToBigInt_def)
    then have "digitString ''0123456789'' (tl t)"
      using parseDigits_Some_iff(1)[of "tl t"] by blast
    moreover from plus(4) assms(3) have "t = ''+'' @ tl t" by (cases t) auto
    ultimately show ?thesis unfolding StrIntegerLiteral_def by blast
  next
    case minus
    with assms have "map_option uminus (parseDigits 10 (tl t)) = Some v"
      by (simp add: StringToBigInt_def)
    then have "digitString ''0123456789'' (tl t)"
      using parseDigits_Some_iff(1)[of "tl t"] M by blast
    moreover from minus(5) assms(3) have "t = ''-'' @ tl t" by (cases t) auto
    ultimately show ?thesis unfolding StrIntegerLiteral_def by blast
  next
    case dec
    with assms have "parseDigits 10 t = Some v"
      by (simp add: StringToBigInt_def)
    then have "digitString ''0123456789'' t"
      using parseDigits_Some_iff(1)[of t] by blast
    then show ?thesis unfolding StrIntegerLiteral_def by blast
  qed
qed

lemma digit_cases: "k < (10::nat) \<Longrightarrow> k \<in> {0, 1, 2, 3, 4, 5, 6, 7, 8, 9}"
  by auto

lemma digitValue_digit: "k < 10 \<Longrightarrow> digitValue (''0123456789'' ! k) = Some k"
  by (drule digit_cases) (auto simp: digitValue_def)

lemma digitsValue_append:
  "digitsValue r acc (xs @ ys) =
     (case digitsValue r acc xs of None \<Rightarrow> None | Some a \<Rightarrow> digitsValue r a ys)"
  by (induction xs arbitrary: acc) (auto split: option.splits)

lemma showNat_nonempty: "showNat n \<noteq> []"
  by (subst showNat.simps) simp

lemma showNat_digits: "c \<in> set (showNat n) \<Longrightarrow> \<exists>k<10. c = ''0123456789'' ! k"
proof (induction n arbitrary: c rule: showNat.induct)
  case (1 n)
  show ?case
  proof (cases "n < 10")
    case True
    with "1.prems" show ?thesis by (subst (asm) showNat.simps) auto
  next
    case False
    from "1.prems" have "c \<in> set (showNat (n div 10)) \<or> c = ''0123456789'' ! (n mod 10)"
      using False by (subst (asm) showNat.simps) auto
    then show ?thesis
    proof
      assume "c \<in> set (showNat (n div 10))"
      with "1.IH" False show ?thesis by blast
    next
      assume "c = ''0123456789'' ! (n mod 10)"
      moreover have "n mod 10 < 10" by simp
      ultimately show ?thesis by blast
    qed
  qed
qed

lemma showNat_value: "digitsValue 10 acc (showNat n) = Some (acc * 10 ^ length (showNat n) + n)"
proof (induction n arbitrary: acc rule: showNat.induct)
  case (1 n)
  show ?case
  proof (cases "n < 10")
    case True
    then show ?thesis
      by (subst (1 2) showNat.simps) (simp add: digitValue_digit)
  next
    case False
    have m: "n mod 10 < 10" by simp
    have "digitsValue 10 acc (showNat (n div 10) @ [''0123456789'' ! (n mod 10)])
          = Some ((acc * 10 ^ length (showNat (n div 10)) + n div 10) * 10 + n mod 10)"
      using "1.IH"[OF False] by (simp add: digitsValue_append digitValue_digit[OF m])
    also have "(acc * 10 ^ length (showNat (n div 10)) + n div 10) * 10 + n mod 10
               = acc * 10 ^ (length (showNat (n div 10)) + 1) + n"
      by (simp add: algebra_simps)
    finally show ?thesis
      using False by (subst (1 2) showNat.simps) simp
  qed
qed

lemma digit_in_alphabet: "k < 10 \<Longrightarrow> ''0123456789'' ! k \<in> set ''0123456789''"
  by (drule digit_cases) auto

lemma showNat_digitString: "digitString ''0123456789'' (showNat n)"
proof -
  have "c \<in> set ''0123456789''" if "c \<in> set (showNat n)" for c
    using showNat_digits[OF that] digit_in_alphabet by blast
  then show ?thesis
    unfolding digitString_def using showNat_nonempty[of n] by blast
qed

lemma showNat_literal:
  "StrIntegerLiteral (showNat n)" "StrIntegerLiteral (''-'' @ showNat n)"
  "StrIntegerLiteral (''+'' @ showNat n)"
  unfolding StrIntegerLiteral_def using showNat_digitString[of n] by blast+

lemma parseDigits_showNat: "parseDigits 10 (showNat n) = Some (int n)"
  by (simp add: parseDigits_def showNat_nonempty showNat_value)

text \<open>\<open>StringToBigInt\<close> reads exactly the strings of the grammar.\<close>

lemma StringToBigInt_iff: "(\<exists>v. StringToBigInt s = Some v) = StringIntegerLiteral s"
proof
  assume "\<exists>v. StringToBigInt s = Some v"
  then obtain v where v: "StringToBigInt s = Some v" by blast
  obtain a b where ab: "whiteSpace a" "whiteSpace b" "s = a @ trimString s @ b"
    using trimString_split by blast
  have "trimString s = [] \<or> StrIntegerLiteral (trimString s)"
    using parsed_literal[OF v refl] by blast
  with ab show "StringIntegerLiteral s" unfolding StringIntegerLiteral_def by blast
next
  assume "StringIntegerLiteral s"
  then obtain a t b where ab: "whiteSpace a" "whiteSpace b" "s = a @ t @ b"
    and t: "t = [] \<or> StrIntegerLiteral t"
    unfolding StringIntegerLiteral_def by blast
  from t show "\<exists>v. StringToBigInt s = Some v"
  proof
    assume "t = []"
    then have "trimString s = []"
      using trimString_blank[OF whiteSpace_append[OF ab(1,2)]] ab(3) by simp
    then show ?thesis by (simp add: StringToBigInt_def)
  next
    assume l: "StrIntegerLiteral t"
    have 1: "trimString s = t" unfolding ab(3) by (rule trimString_literal[OF ab(1,2) l])
    have 2: "trimString t = t"
      using trimString_literal[OF whiteSpace_Nil whiteSpace_Nil l] by simp
    show ?thesis
      unfolding StringToBigInt_trimmed[OF 1 2] by (rule literal_parses[OF l 2])
  qed
qed

lemma StringToBigInt_blank: "whiteSpace a \<Longrightarrow> StringToBigInt a = Some 0"
  by (simp add: StringToBigInt_def trimString_blank)

lemma StringToBigInt_padded:
  assumes "whiteSpace a" "whiteSpace b" "StrIntegerLiteral t"
  shows "StringToBigInt (a @ t @ b) = StringToBigInt t"
proof -
  have 1: "trimString (a @ t @ b) = t" by (rule trimString_literal[OF assms])
  have 2: "trimString t = t"
    using trimString_literal[OF whiteSpace_Nil whiteSpace_Nil assms(3)] by simp
  show ?thesis by (rule StringToBigInt_trimmed[OF 1 2])
qed

lemma StringToBigInt_showNat: "StringToBigInt (showNat n) = Some (int n)"
proof -
  have 2: "trimString (showNat n) = showNat n"
    using trimString_literal[OF whiteSpace_Nil whiteSpace_Nil showNat_literal(1), of n] by simp
  show ?thesis
    by (simp add: decimal_parse[OF showNat_digitString 2] parseDigits_showNat)
qed

lemma StringToBigInt_negative: "StringToBigInt (CHR ''-'' # showNat n) = Some (- int n)"
proof -
  have 2: "trimString (CHR ''-'' # showNat n) = CHR ''-'' # showNat n"
    using trimString_literal[OF whiteSpace_Nil whiteSpace_Nil showNat_literal(2), of n] by simp
  show ?thesis
    unfolding StringToBigInt_def 2 Let_def
    by (simp add: startsWith_def parseDigits_showNat)
qed

lemma StringToBigInt_decimal:
  assumes "whiteSpace a" "whiteSpace b"
  shows "StringToBigInt (a @ showNat n @ b) = Some (int n)"
    and "StringToBigInt (a @ ''-'' @ showNat n @ b) = Some (- int n)"
  using StringToBigInt_padded[OF assms showNat_literal(1), of n]
    StringToBigInt_padded[OF assms showNat_literal(2), of n]
  by (simp_all add: StringToBigInt_showNat StringToBigInt_negative)

lemma whiteSpace_one: "w \<in> set StrWhiteSpaceChar \<Longrightarrow> whiteSpace w"
  unfolding whiteSpace_def by (intro exI[of _ "[w]"]) simp

lemma decimal_literal_value:
  assumes "digitString ''0123456789'' t"
  shows "StringToBigInt t = parseDigits 10 t"
proof -
  have "StrIntegerLiteral t" using assms unfolding StrIntegerLiteral_def by blast
  then have "trimString t = t"
    using trimString_literal[OF whiteSpace_Nil whiteSpace_Nil, of t] by simp
  then show ?thesis by (rule decimal_parse[OF assms])
qed

lemma bigint_2_64: "StringToBigInt ''18446744073709551616'' = Some 18446744073709551616"
  by (subst decimal_literal_value) (simp_all add: digitString_def parseDigits_def digitValue_def)

lemma bigint_2_64_less: "StringToBigInt ''18446744073709551615'' = Some 18446744073709551615"
  by (subst decimal_literal_value) (simp_all add: digitString_def parseDigits_def digitValue_def)

lemma bigint_10: "StringToBigInt ''10'' = Some 10"
  by (subst decimal_literal_value) (simp_all add: digitString_def parseDigits_def digitValue_def)

lemma bigint_0: "StringToBigInt ''0'' = Some 0"
  by (subst decimal_literal_value) (simp_all add: digitString_def parseDigits_def digitValue_def)

lemma bigint_blank: "StringToBigInt '' '' = Some 0"
  by (rule StringToBigInt_blank) (simp add: whiteSpace_one StrWhiteSpaceChar_def)

text \<open>
  White space beyond ASCII is skipped as well: a no-break space and a byte order mark around
  \<open>10\<close>.
\<close>

lemma bigint_nbsp:
  "StringToBigInt ([CHR 0xC2, CHR 0xA0] @ ''10'' @ [CHR 0xEF, CHR 0xBB, CHR 0xBF]) = Some 10"
proof -
  have "whiteSpace [CHR 0xC2, CHR 0xA0]" "whiteSpace [CHR 0xEF, CHR 0xBB, CHR 0xBF]"
    by (rule whiteSpace_one, simp add: StrWhiteSpaceChar_def)+
  from StringToBigInt_padded[OF this, of "''10''"] show ?thesis
    by (simp add: StrIntegerLiteral_def digitString_def bigint_10)
qed

lemma bigint_hex: "StringToBigInt ''0x3E8'' = Some 1000"
proof -
  have "(''0x3E8'' = ''0x'' @ ''3E8'' \<or> ''0x3E8'' = ''0X'' @ ''3E8'')
        \<and> digitString ''0123456789abcdefABCDEF'' ''3E8''"
    by (simp add: digitString_def)
  then have l: "StrIntegerLiteral ''0x3E8''"
    unfolding StrIntegerLiteral_def by blast
  have "trimString ''0x3E8'' = ''0x3E8''"
    using trimString_literal[OF whiteSpace_Nil whiteSpace_Nil l] by simp
  then show ?thesis
    by (simp add: StringToBigInt_def startsWith_def parseDigits_def digitValue_def)
qed

subsection \<open>Signature validation\<close>

lemma validateSignature_no_header:
  "map_of (Request.headers req) X402_SIGNATURE = None \<Longrightarrow>
     validateSignature plat eng cfg req res = Next res"
  by (simp add: validateSignature_def headerString_def)

lemma toLowerCase_signature: "toLowerCase X402_SIGNATURE = X402_SIGNATURE"
  by (simp add: toLowerCase_def X402_SIGNATURE_def)

lemma validateSignature_decoded:
  assumes "headerString req X402_SIGNATURE = Some raw" "raw \<noteq> []"
    and "decodePayload plat raw = Some (ParsedValue d)"
    and "filter (fieldMissing d) PAYMENT_PAYLOAD_REQUIRED_FIELDS = []"
    and "DecodedPayload.x402Version d = Some (JsNumber ''2'')"
  shows "validateSignature plat eng cfg req res =
     (case findPolicy eng (Request.path req) (Request.method req) of
        None \<Rightarrow> Next (res\<lparr>paymentPayload := Some (asPaymentPayload d)\<rparr>)
      | Some pol \<Rightarrow>
          if offerMismatches (asPaymentPayload d) (buildAccept cfg pol req) \<noteq> []
          then Respond (sendJson res 400
                 (errorJson (''PAYMENT-SIGNATURE does not match offer: ''
                    @ join ''; '' (offerMismatches (asPaymentPayload d) (buildAccept cfg pol req)))))
          else checkAmount res (asPaymentPayload d) (buildAccept cfg pol req))"
  using assms
  by (simp add: validateSignature_def Let_def asPaymentPayload_def split: option.splits)

lemma validateSignature_Next_header:
  assumes "validateSignature plat eng cfg req newRes = Next res" "paymentPayload res = Some p"
  shows "\<exists>raw. headerString req X402_SIGNATURE = Some raw \<and> raw \<noteq> []"
proof (cases "headerString req X402_SIGNATURE")
  case None
  with assms show ?thesis by (auto simp: validateSignature_def newRes_def)
next
  case (Some raw)
  with assms show ?thesis by (cases "raw = []") (auto simp: validateSignature_def newRes_def)
qed

lemma offerMismatches_none:
  "PaymentPayload.network p = PaymentAccept.network a \<Longrightarrow>
   PaymentPayload.asset p = PaymentAccept.asset a \<Longrightarrow>
   PaymentPayload.payTo p = PaymentAccept.payTo a \<Longrightarrow>
   PaymentPayload.scheme p = PaymentAccept.scheme a \<Longrightarrow> offerMismatches p a = []"
  by (simp add: offerMismatches_def)

lemma sample_complete:
  "\<forall>f \<in> set PAYMENT_PAYLOAD_REQUIRED_FIELDS. \<not> fieldMissing (sampleDecoded amt non) f"
  if "amt \<noteq> []" "non \<noteq> []"
  using that
  by (simp add: PAYMENT_PAYLOAD_REQUIRED_FIELDS_def fieldMissing_def sampleDecoded_def falsy_def)

lemma sample_paid_weather:
  "validateSignature samplePlatform sampleEngine sampleConfig
      (sampleRequest ''GET'' ''/proxy/api/weather'' ((''payment-signature'', Single ''pay-10'') # hs)) newRes
     = Next (newRes\<lparr>paymentPayload := Some (asPaymentPayload (sampleDecoded ''10'' ''abc''))\<rparr>)"
proof -
  let ?req = "sampleRequest ''GET'' ''/proxy/api/weather'' ((''payment-signature'', Single ''pay-10'') # hs)"
  let ?d = "sampleDecoded ''10'' ''abc''"
  have hdr: "headerString ?req X402_SIGNATURE = Some ''pay-10''"
    by (simp add: headerString_def sampleRequest_def X402_SIGNATURE_def)
  have ne: "''pay-10'' \<noteq> []" by simp
  have dec: "decodePayload samplePlatform ''pay-10'' = Some (ParsedValue ?d)"
    by (simp add: samplePlatform_def)
  have complete: "filter (fieldMissing ?d) PAYMENT_PAYLOAD_REQUIRED_FIELDS = []"
    using sample_complete[of "''10''" "''abc''"] by (simp only: filter_empty_conv) simp
  have version: "DecodedPayload.x402Version ?d = Some (JsNumber ''2'')" by (simp add: sampleDecoded_def)
  have route: "findPolicy sampleEngine (Request.path ?req) (Request.method ?req)
                 = Some (policies sampleEngine ! Suc 0)"
    by (simp add: sampleRequest_def sample_weather_route)
  have mm: "offerMismatches (asPaymentPayload ?d)
              (buildAccept sampleConfig (policies sampleEngine ! Suc 0) ?req) = []"
    by (simp add: offerMismatches_def asPaymentPayload_def buildAccept_def Let_def
        sample_weather_fields sampleDecoded_def)
  have "validateSignature samplePlatform sampleEngine sampleConfig ?req newRes =
          checkAmount newRes (asPaymentPayload ?d)
            (buildAccept sampleConfig (policies sampleEngine ! Suc 0) ?req)"
    using validateSignature_decoded[OF hdr ne dec complete version, of sampleEngine sampleConfig newRes]
      route mm by simp
  also have "\<dots> = Next (newRes\<lparr>paymentPayload := Some (asPaymentPayload ?d)\<rparr>)"
    by (simp add: checkAmount_def buildAccept_def Let_def sample_weather_fields bigint_10
        asPaymentPayload_def sampleDecoded_def)
  finally show ?thesis .
qed

lemma zeroEngine_built: "engine zeroConfig = Inr zeroEngine"
  by (simp add: zeroEngine_def zeroConfig_def sampleConfig_def engine_defs)

lemma zero_echo_route:
  "findPolicy zeroEngine ''/v1/premium/echo'' ''GET'' = Some (hd (policies zeroEngine))"
  by (simp add: findPolicy_def match_def zeroEngine_def zeroConfig_def sampleConfig_def
      toUpperCase_def engine_defs)

lemma zero_echo_fields:
  "RoutePolicy.network (hd (policies zeroEngine)) = ''stacks:2147483648''"
  "RoutePolicy.asset (hd (policies zeroEngine)) = ''STX''"
  "RoutePolicy.payTo (hd (policies zeroEngine)) = ''ST1PQHQKV0RJXZFY1DGX8MNSNYVE3VGZJSRTPGZGM''"
  "RoutePolicy.scheme (hd (policies zeroEngine)) = ''exact''"
  "RoutePolicy.maxAmountRequired (hd (policies zeroEngine)) = ''0''"
  by (simp_all add: zeroEngine_def zeroConfig_def sampleConfig_def engine_defs)

text \<open>
  Claim C5 as stated fails: input that is no number is not always rejected. \<open>BigInt\<close> reads
  a string of white space as \<open>0\<close>, so on a route whose minimum is \<open>0\<close> (the echo route of the
  gateway started with \<open>AMOUNT_MICROSTX=0\<close>) a payment whose amount is one space passes
  signature validation.
\<close>

theorem blank_amount_accepted:
  "loadConfig zeroEnv = Inr zeroConfig
   \<and> engine zeroConfig = Inr zeroEngine
   \<and> RoutePolicy.maxAmountRequired (hd (policies zeroEngine)) = ''0''
   \<and> findPolicy zeroEngine ''/v1/premium/echo'' ''GET'' = Some (hd (policies zeroEngine))
   \<and> PaymentPayload.amount (asPaymentPayload (sampleDecoded '' '' ''abc'')) = '' ''
   \<and> validateSignature blankPlatform zeroEngine zeroConfig
        (sampleRequest ''GET'' ''/v1/premium/echo'' [(''payment-signature'', Single ''pay-blank'')])
        newRes
       = Next (newRes\<lparr>paymentPayload := Some (asPaymentPayload (sampleDecoded '' '' ''abc''))\<rparr>)"
proof -
  let ?req = "sampleRequest ''GET'' ''/v1/premium/echo'' [(''payment-signature'', Single ''pay-blank'')]"
  let ?d = "sampleDecoded '' '' ''abc''"
  let ?pol = "hd (policies zeroEngine)"
  have cfg: "loadConfig zeroEnv = Inr zeroConfig"
    by (simp add: loadConfig_def zeroEnv_def zeroConfig_def sampleConfig_def required_var_def
        bool_var_def orDefault_def falsy_def Let_def)
  have hdr: "headerString ?req X402_SIGNATURE = Some ''pay-blank''"
    by (simp add: headerString_def sampleRequest_def X402_SIGNATURE_def)
  have ne: "''pay-blank'' \<noteq> []" by simp
  have dec: "decodePayload blankPlatform ''pay-blank'' = Some (ParsedValue ?d)"
    by (simp add: blankPlatform_def)
  have complete: "filter (fieldMissing ?d) PAYMENT_PAYLOAD_REQUIRED_FIELDS = []"
    using sample_complete[of "'' ''" "''abc''"] by (simp only: filter_empty_conv) simp
  have version: "DecodedPayload.x402Version ?d = Some (JsNumber ''2'')"
    by (simp add: sampleDecoded_def)
  have route: "findPolicy zeroEngine (Request.path ?req) (Request.method ?req) = Some ?pol"
    by (simp add: sampleRequest_def zero_echo_route)
  have mm: "offerMismatches (asPaymentPayload ?d) (buildAccept zeroConfig ?pol ?req) = []"
    by (simp add: offerMismatches_def asPaymentPayload_def buildAccept_def Let_def
        zero_echo_fields sampleDecoded_def)
  have "validateSignature blankPlatform zeroEngine zeroConfig ?req newRes =
          checkAmount newRes (asPaymentPayload ?d) (buildAccept zeroConfig ?pol ?req)"
    using validateSignature_decoded[OF hdr ne dec complete version, of zeroEngine zeroConfig newRes]
      route mm by simp
  also have "\<dots> = Next (newRes\<lparr>paymentPayload := Some (asPaymentPayload ?d)\<rparr>)"
    by (simp add: checkAmount_def buildAccept_def Let_def zero_echo_fields bigint_0 bigint_blank
        asPaymentPayload_def sampleDecoded_def)
  finally have v: "validateSignature blankPlatform zeroEngine zeroConfig ?req newRes
                     = Next (newRes\<lparr>paymentPayload := Some (asPaymentPayload ?d)\<rparr>)" .
  have a: "PaymentPayload.amount (asPaymentPayload ?d) = '' ''"
    by (simp add: asPaymentPayload_def sampleDecoded_def)
  show ?thesis
    using cfg zeroEngine_built zero_echo_fields(5) zero_echo_route a v by simp
qed

text \<open>
  Claim C5, amended. When the route has a policy whose minimum is an integer literal, and the
  payload has passed the earlier checks (decoded, complete, version 2, matching the offer),
  signature validation reads the amount string as \<open>BigInt\<close> does. White space around the
  amount is ignored. What is left must be nothing (read as \<open>0\<close>), decimal digits with an
  optional sign, or hexadecimal, octal or binary digits after \<open>0x\<close>, \<open>0o\<close> or \<open>0b\<close>: every
  other amount is answered 400 with the error that the amount is not a valid integer string.
  An amount that reads as less than the minimum is answered 400 with the insufficient-payment
  error that names the required and the provided amount; an amount that reads as the minimum
  or more is accepted and the payload is attached as it was decoded. The comparison is on
  unbounded integers and reading is exact at every magnitude: the decimal numeral of any
  natural number, with or without a minus sign and white space around it, reads as that
  number.
\<close>

theorem amount_check:
  assumes hdr: "headerString req X402_SIGNATURE = Some raw" "raw \<noteq> []"
    and dec: "decodePayload plat raw = Some (ParsedValue d)"
    and complete: "\<forall>f \<in> set PAYMENT_PAYLOAD_REQUIRED_FIELDS. \<not> fieldMissing d f"
    and version: "DecodedPayload.x402Version d = Some (JsNumber ''2'')"
    and route: "findPolicy eng (Request.path req) (Request.method req) = Some pol"
    and offer: "DecodedPayload.network d = Some (RoutePolicy.network pol)"
               "DecodedPayload.asset d = Some (RoutePolicy.asset pol)"
               "DecodedPayload.payTo d = Some (RoutePolicy.payTo pol)"
               "DecodedPayload.scheme d = Some (RoutePolicy.scheme pol)"
    and amt: "DecodedPayload.amount d = Some amt"
    and minimum: "StringToBigInt (RoutePolicy.maxAmountRequired pol) = Some minimum"
  shows "(\<not> StringIntegerLiteral amt \<longrightarrow>
            validateSignature plat eng cfg req res =
              Respond \<lparr>Response.status = 400, Response.headers = resHeaders res,
                       Response.body = JsonBody (JObj
                         [(''success'', JBool False),
                          (''error'', JStr ''PAYMENT-SIGNATURE amount is not a valid integer string'')])\<rparr>)
       \<and> (StringIntegerLiteral amt \<longrightarrow>
            (\<exists>paid. StringToBigInt amt = Some paid
               \<and> validateSignature plat eng cfg req res =
                   (if paid < minimum
                    then Respond \<lparr>Response.status = 400, Response.headers = resHeaders res,
                           Response.body = JsonBody (JObj
                             [(''success'', JBool False),
                              (''error'', JStr (''Insufficient payment: required ''
                                 @ RoutePolicy.maxAmountRequired pol @ '', got '' @ amt))])\<rparr>
                    else Next (res\<lparr>paymentPayload := Some
                       \<lparr>PaymentPayload.x402Version = JsNumber ''2'',
                        PaymentPayload.scheme = RoutePolicy.scheme pol,
                        PaymentPayload.network = RoutePolicy.network pol,
                        PaymentPayload.asset = RoutePolicy.asset pol,
                        PaymentPayload.payTo = RoutePolicy.payTo pol,
                        PaymentPayload.amount = amt,
                        PaymentPayload.nonce = the (DecodedPayload.nonce d),
                        PaymentPayload.signature = the (DecodedPayload.signature d),
                        PaymentPayload.resource = the (DecodedPayload.resource d),
                        PaymentPayload.memo = DecodedPayload.memo d\<rparr>\<rparr>))))
       \<and> (\<forall>a b n. whiteSpace a \<and> whiteSpace b \<longrightarrow>
              StringToBigInt (a @ showNat n @ b) = Some (int n)
              \<and> StringToBigInt (a @ ''-'' @ showNat n @ b) = Some (- int n))
       \<and> (\<forall>a. whiteSpace a \<longrightarrow> StringToBigInt a = Some 0)"
proof -
  have m: "filter (fieldMissing d) PAYMENT_PAYLOAD_REQUIRED_FIELDS = []"
    using complete by (simp only: filter_empty_conv) 
  have mm: "offerMismatches (asPaymentPayload d) (buildAccept cfg pol req) = []"
    using offer by (intro offerMismatches_none) (simp_all add: asPaymentPayload_def buildAccept_def Let_def)
  have v: "validateSignature plat eng cfg req res =
             checkAmount res (asPaymentPayload d) (buildAccept cfg pol req)"
    using validateSignature_decoded[OF hdr dec m version, of eng cfg res] route mm by simp
  have acc: "PaymentAccept.maxAmountRequired (buildAccept cfg pol req) = RoutePolicy.maxAmountRequired pol"
    by (simp add: buildAccept_def Let_def)
  have pay: "PaymentPayload.amount (asPaymentPayload d) = amt"
    using amt by (simp add: asPaymentPayload_def)
  have payload: "asPaymentPayload d =
                       \<lparr>PaymentPayload.x402Version = JsNumber ''2'',
                        PaymentPayload.scheme = RoutePolicy.scheme pol,
                        PaymentPayload.network = RoutePolicy.network pol,
                        PaymentPayload.asset = RoutePolicy.asset pol,
                        PaymentPayload.payTo = RoutePolicy.payTo pol,
                        PaymentPayload.amount = amt,
                        PaymentPayload.nonce = the (DecodedPayload.nonce d),
                        PaymentPayload.signature = the (DecodedPayload.signature d),
                        PaymentPayload.resource = the (DecodedPayload.resource d),
                        PaymentPayload.memo = DecodedPayload.memo d\<rparr>"
    using version offer amt by (simp add: asPaymentPayload_def)
  have c: "validateSignature plat eng cfg req res =
      (case StringToBigInt amt of
         None \<Rightarrow> Respond \<lparr>Response.status = 400, Response.headers = resHeaders res,
                       Response.body = JsonBody (JObj
                         [(''success'', JBool False),
                          (''error'', JStr ''PAYMENT-SIGNATURE amount is not a valid integer string'')])\<rparr>
       | Some paid \<Rightarrow>
           if paid < minimum
           then Respond \<lparr>Response.status = 400, Response.headers = resHeaders res,
                           Response.body = JsonBody (JObj
                             [(''success'', JBool False),
                              (''error'', JStr (''Insufficient payment: required ''
                                 @ RoutePolicy.maxAmountRequired pol @ '', got '' @ amt))])\<rparr>
           else Next (res\<lparr>paymentPayload := Some
                       \<lparr>PaymentPayload.x402Version = JsNumber ''2'',
                        PaymentPayload.scheme = RoutePolicy.scheme pol,
                        PaymentPayload.network = RoutePolicy.network pol,
                        PaymentPayload.asset = RoutePolicy.asset pol,
                        PaymentPayload.payTo = RoutePolicy.payTo pol,
                        PaymentPayload.amount = amt,
                        PaymentPayload.nonce = the (DecodedPayload.nonce d),
                        PaymentPayload.signature = the (DecodedPayload.signature d),
                        PaymentPayload.resource = the (DecodedPayload.resource d),
                        PaymentPayload.memo = DecodedPayload.memo d\<rparr>\<rparr>))"
    unfolding v checkAmount_def acc pay minimum payload[symmetric]
    by (simp add: sendJson_def errorJson_def split: option.splits)
  have reject: "validateSignature plat eng cfg req res =
              Respond \<lparr>Response.status = 400, Response.headers = resHeaders res,
                       Response.body = JsonBody (JObj
                         [(''success'', JBool False),
                          (''error'', JStr ''PAYMENT-SIGNATURE amount is not a valid integer string'')])\<rparr>"
    if "\<not> StringIntegerLiteral amt"
  proof -
    from that have "StringToBigInt amt = None"
      using StringToBigInt_iff[of amt] by (cases "StringToBigInt amt") auto
    then show ?thesis unfolding c by simp
  qed
  have accept: "\<exists>paid. StringToBigInt amt = Some paid
               \<and> validateSignature plat eng cfg req res =
                   (if paid < minimum
                    then Respond \<lparr>Response.status = 400, Response.headers = resHeaders res,
                           Response.body = JsonBody (JObj
                             [(''success'', JBool False),
                              (''error'', JStr (''Insufficient payment: required ''
                                 @ RoutePolicy.maxAmountRequired pol @ '', got '' @ amt))])\<rparr>
                    else Next (res\<lparr>paymentPayload := Some
                       \<lparr>PaymentPayload.x402Version = JsNumber ''2'',
                        PaymentPayload.scheme = RoutePolicy.scheme pol,
                        PaymentPayload.network = RoutePolicy.network pol,
                        PaymentPayload.asset = RoutePolicy.asset pol,
                        PaymentPayload.payTo = RoutePolicy.payTo pol,
                        PaymentPayload.amount = amt,
                        PaymentPayload.nonce = the (DecodedPayload.nonce d),
                        PaymentPayload.signature = the (DecodedPayload.signature d),
                        PaymentPayload.resource = the (DecodedPayload.resource d),
                        PaymentPayload.memo = DecodedPayload.memo d\<rparr>\<rparr>))"
    if "StringIntegerLiteral amt"
  proof -
    from that obtain paid where paid: "StringToBigInt amt = Some paid"
      using StringToBigInt_iff[of amt] by blast
    show ?thesis unfolding c paid by simp
  qed
  have decimal: "StringToBigInt (a @ showNat n @ b) = Some (int n)
              \<and> StringToBigInt (a @ ''-'' @ showNat n @ b) = Some (- int n)"
    if "whiteSpace a \<and> whiteSpace b" for a b n
    using that StringToBigInt_decimal[of a b n] by simp
  have blank: "StringToBigInt a = Some 0" if "whiteSpace a" for a
    using that by (rule StringToBigInt_blank)
  show ?thesis
    using reject accept decimal blank by (intro conjI allI impI) blast+
qed

text \<open>
  One unit below a minimum of \<open>2^64\<close>: the two amounts differ, and the payment is refused.
\<close>

theorem amount_check_witness:
  "validateSignature samplePlatform sampleEngine sampleConfig
      (sampleRequest ''GET'' ''/v1/premium/echo'' [(''payment-signature'', Single ''pay-big'')]) newRes
     = Respond \<lparr>Response.status = 400, Response.headers = Map.empty,
                Response.body = JsonBody (JObj
                  [(''success'', JBool False),
                   (''error'', JStr ''Insufficient payment: required 18446744073709551616, got 18446744073709551615'')])\<rparr>"
proof -
  let ?req = "sampleRequest ''GET'' ''/v1/premium/echo'' [(''payment-signature'', Single ''pay-big'')]"
  let ?d = "sampleDecoded ''18446744073709551615'' ''def''"
  let ?pol = "hd (policies sampleEngine)"
  have hdr: "headerString ?req X402_SIGNATURE = Some ''pay-big''"
    by (simp add: headerString_def sampleRequest_def X402_SIGNATURE_def)
  have ne: "''pay-big'' \<noteq> []" by simp
  have dec: "decodePayload samplePlatform ''pay-big'' = Some (ParsedValue ?d)"
    by (simp add: samplePlatform_def)
  have complete: "\<forall>f \<in> set PAYMENT_PAYLOAD_REQUIRED_FIELDS. \<not> fieldMissing ?d f"
    by (rule sample_complete) simp_all
  have version: "DecodedPayload.x402Version ?d = Some (JsNumber ''2'')" by (simp add: sampleDecoded_def)
  have route: "findPolicy sampleEngine (Request.path ?req) (Request.method ?req) = Some ?pol"
    by (simp add: sampleRequest_def sample_echo_route)
  have offer: "DecodedPayload.network ?d = Some (RoutePolicy.network ?pol)"
    "DecodedPayload.asset ?d = Some (RoutePolicy.asset ?pol)"
    "DecodedPayload.payTo ?d = Some (RoutePolicy.payTo ?pol)"
    "DecodedPayload.scheme ?d = Some (RoutePolicy.scheme ?pol)"
    by (simp_all add: sample_echo_fields sampleDecoded_def)
  have amt: "DecodedPayload.amount ?d = Some ''18446744073709551615''"
    by (simp add: sampleDecoded_def)
  have minimum: "StringToBigInt (RoutePolicy.maxAmountRequired ?pol) = Some 18446744073709551616"
    by (simp add: sample_echo_fields bigint_2_64)
  have lit: "StringIntegerLiteral ''18446744073709551615''"
    using StringToBigInt_iff[of "''18446744073709551615''"] bigint_2_64_less by simp
  note main = amount_check[OF hdr ne dec complete version route offer amt minimum,
      of sampleConfig newRes]
  from main[THEN conjunct2, THEN conjunct1, rule_format, OF lit]
  obtain paid where paid: "StringToBigInt ''18446744073709551615'' = Some paid"
    and r: "validateSignature samplePlatform sampleEngine sampleConfig ?req newRes =
        (if paid < 18446744073709551616
         then Respond \<lparr>Response.status = 400, Response.headers = resHeaders newRes,
                Response.body = JsonBody (JObj
                  [(''success'', JBool False),
                   (''error'', JStr (''Insufficient payment: required ''
                      @ RoutePolicy.maxAmountRequired ?pol @ '', got '' @ ''18446744073709551615''))])\<rparr>
         else Next (newRes\<lparr>paymentPayload := Some
                \<lparr>PaymentPayload.x402Version = JsNumber ''2'',
                 PaymentPayload.scheme = RoutePolicy.scheme ?pol,
                 PaymentPayload.network = RoutePolicy.network ?pol,
                 PaymentPayload.asset = RoutePolicy.asset ?pol,
                 PaymentPayload.payTo = RoutePolicy.payTo ?pol,
                 PaymentPayload.amount = ''18446744073709551615'',
                 PaymentPayload.nonce = the (DecodedPayload.nonce ?d),
                 PaymentPayload.signature = the (DecodedPayload.signature ?d),
                 PaymentPayload.resource = the (DecodedPayload.resource ?d),
                 PaymentPayload.memo = DecodedPayload.memo ?d\<rparr>\<rparr>))"
    by blast
  from paid have "paid = 18446744073709551615" by (simp add: bigint_2_64_less)
  with r show ?thesis by (simp add: sample_echo_fields newRes_def)
qed

subsection \<open>The nonce cache and the replay guard\<close>

lemma cache_get_hit_unchanged:
  "fst (cache_get c key now) = Some v \<Longrightarrow> snd (cache_get c key now) = c"
  by (auto simp: cache_get_def split: option.splits if_splits)

lemma cache_has_seen_unchanged:
  "fst (cache_has c key now) \<Longrightarrow> snd (cache_has c key now) = c"
  by (auto simp: cache_has_def cache_get_def split: option.splits if_splits)

lemma replayProtection_no_header:
  "map_of (Request.headers req) X402_SIGNATURE = None \<Longrightarrow>
     replayProtection clk req st res = (Next res, st)"
  by (simp add: replayProtection_def headerString_def toLowerCase_signature)

lemma replayProtection_payload:
  assumes "headerString req X402_SIGNATURE = Some raw" "raw \<noteq> []" "paymentPayload res = Some p"
  shows "replayProtection clk req st res =
     (if fst (cache_has (replayNonces st) (extractNonceKey p) (tReplayHas clk))
      then (Respond (sendJson res 409
                (errorJson ''Replay detected: payment nonce has already been used'')),
            st\<lparr>replayNonces := snd (cache_has (replayNonces st) (extractNonceKey p) (tReplayHas clk))\<rparr>)
      else (Next res,
            st\<lparr>replayNonces :=
                 cache_set (snd (cache_has (replayNonces st) (extractNonceKey p) (tReplayHas clk)))
                   (extractNonceKey p) True None (tReplaySet clk)\<rparr>))"
  using assms
  by (simp add: replayProtection_def toLowerCase_signature Let_def split: prod.splits)

lemma extractNonceKey_cong:
  "PaymentPayload.nonce p2 = PaymentPayload.nonce p1 \<Longrightarrow>
   PaymentPayload.memo p2 = PaymentPayload.memo p1 \<Longrightarrow> extractNonceKey p2 = extractNonceKey p1"
  by (simp add: extractNonceKey_def)

lemma validateSignature_Next_res:
  "validateSignature plat eng cfg req res = Next res' \<Longrightarrow>
     resHeaders res' = resHeaders res \<and> statusCode res' = statusCode res"
  by (auto simp: validateSignature_def checkAmount_def Let_def
      split: option.splits if_splits ParsedJson.splits)

lemma recorded_has: "recorded c key t \<Longrightarrow> now < t \<Longrightarrow> cache_has c key now = (True, c)"
  by (auto simp: recorded_def cache_has_def cache_get_def split: option.splits)

lemma recorded_has_other:
  "recorded c key t \<Longrightarrow> key' \<noteq> key \<Longrightarrow> recorded (snd (cache_has c key' now)) key t"
  by (auto simp: recorded_def cache_has_def cache_get_def split: option.splits)

lemma recorded_set_other:
  "recorded c key t \<Longrightarrow> key' \<noteq> key \<Longrightarrow> recorded (cache_set c key' v ttl now) key t"
  by (auto simp: recorded_def cache_set_def Let_def split: option.splits)

lemma recorded_sweep: "recorded c key t \<Longrightarrow> now < t \<Longrightarrow> recorded (cache_sweep c now) key t"
  by (auto simp: recorded_def cache_sweep_def split: option.splits)

lemma recorded_after_set: "recorded (cache_set c key v None now) key (now + defaultTtlMs c)"
  by (simp add: recorded_def cache_set_def)

lemma cache_set_after_has:
  "cache_set (snd (cache_has c key now)) key v ttl now' = cache_set c key v ttl now'"
  by (auto simp: cache_set_def cache_has_def cache_get_def Let_def split: option.splits)

lemma replayProtection_recorded:
  assumes "recorded (replayNonces st) key t" "tReplayHas clk < t"
  shows "recorded (replayNonces (snd (replayProtection clk req st res))) key t"
proof (cases "headerString req (toLowerCase X402_SIGNATURE)")
  case None
  then show ?thesis using assms(1) by (simp add: replayProtection_def)
next
  case (Some raw)
  show ?thesis
  proof (cases "raw = [] \<or> paymentPayload res = None")
    case True
    then show ?thesis using Some assms(1) by (auto simp: replayProtection_def)
  next
    case False
    then obtain p where p: "paymentPayload res = Some p" and raw: "raw \<noteq> []" by auto
    show ?thesis
    proof (cases "extractNonceKey p = key")
      case True
      have "cache_has (replayNonces st) key (tReplayHas clk) = (True, replayNonces st)"
        using assms by (rule recorded_has)
      then show ?thesis
        using Some raw p True assms(1) by (simp add: replayProtection_def)
    next
      case False
      have 1: "recorded (snd (cache_has (replayNonces st) (extractNonceKey p) (tReplayHas clk))) key t"
        using assms(1) False by (rule recorded_has_other)
      have 2: "recorded (cache_set (snd (cache_has (replayNonces st) (extractNonceKey p)
                    (tReplayHas clk))) (extractNonceKey p) True None (tReplaySet clk)) key t"
        using 1 False by (rule recorded_set_other)
      show ?thesis
        using Some raw p 1 2 by (simp add: replayProtection_def Let_def case_prod_beta)
    qed
  qed
qed

lemma paymentStages_recorded:
  assumes "recorded (replayNonces st) key t" "tReplayHas clk < t"
  shows "recorded (replayNonces (snd (paymentStages plat eng cfg clk handler req st res))) key t"
proof (cases "validateSignature plat eng cfg req res")
  case (Next res1)
  have "snd (paymentStages plat eng cfg clk handler req st res) = snd (replayProtection clk req st res1)"
    by (simp add: paymentStages_def Next split: prod.splits Outcome.splits)
  then show ?thesis using replayProtection_recorded[OF assms] by simp
qed (use assms(1) in \<open>simp_all add: paymentStages_def\<close>)

lemma captureJson_replayNonces: "replayNonces (captureJson clk key reply st) = replayNonces st"
  by (simp add: captureJson_def Let_def split: Reply.splits ResponseBody.splits)

lemma idempotency_token:
  assumes "headerString req ''idempotency-key'' = Some token" "token \<noteq> []"
  shows "idempotency clk req st res next =
     (case fst (cache_get (idempotencyCache st)
                 (idempotencyKey token (Request.method req) (Request.path req))
                 (tIdempotencyGet clk)) of
        Some c \<Rightarrow>
          (Sent \<lparr>Response.status = CachedResponse.status c,
                 Response.headers =
                   fold (\<lambda>(h, v) m. m(h \<mapsto> v)) (CachedResponse.headers c) (resHeaders res),
                 Response.body = JsonBody (CachedResponse.body c)\<rparr>,
           st\<lparr>idempotencyCache :=
                snd (cache_get (idempotencyCache st)
                      (idempotencyKey token (Request.method req) (Request.path req))
                      (tIdempotencyGet clk))\<rparr>)
      | None \<Rightarrow>
          (fst (next (st\<lparr>idempotencyCache :=
                snd (cache_get (idempotencyCache st)
                      (idempotencyKey token (Request.method req) (Request.path req))
                      (tIdempotencyGet clk))\<rparr>) res),
           captureJson clk (idempotencyKey token (Request.method req) (Request.path req))
             (fst (next (st\<lparr>idempotencyCache :=
                snd (cache_get (idempotencyCache st)
                      (idempotencyKey token (Request.method req) (Request.path req))
                      (tIdempotencyGet clk))\<rparr>) res))
             (snd (next (st\<lparr>idempotencyCache :=
                snd (cache_get (idempotencyCache st)
                      (idempotencyKey token (Request.method req) (Request.path req))
                      (tIdempotencyGet clk))\<rparr>) res))))"
  using assms
  by (simp add: idempotency_def Let_def case_prod_beta split: option.splits)

text \<open>
  The idempotency stage does not touch the nonce cache: it answers from its own cache, or the
  nonce cache is as the rest of the pipeline leaves it.
\<close>

lemma gateway_hit:
  assumes "cachedReply clk req st = Some c"
  shows "gateway plat eng cfg clk handler req st =
     (Sent \<lparr>Response.status = CachedResponse.status c,
            Response.headers = fold (\<lambda>(h, v) m. m(h \<mapsto> v)) (CachedResponse.headers c) Map.empty,
            Response.body = JsonBody (CachedResponse.body c)\<rparr>, st)"
proof -
  from assms obtain token where t: "headerString req ''idempotency-key'' = Some token" "token \<noteq> []"
    and g: "fst (cache_get (idempotencyCache st)
                 (idempotencyKey token (Request.method req) (Request.path req))
                 (tIdempotencyGet clk)) = Some c"
    by (auto simp: cachedReply_def split: option.splits if_splits)
  show ?thesis
    using g cache_get_hit_unchanged[OF g]
    by (simp add: gateway_def idempotency_token[OF t] newRes_def)
qed

lemma gateway_miss:
  assumes "cachedReply clk req st = None"
  shows "\<exists>s. replayNonces s = replayNonces st
           \<and> fst (gateway plat eng cfg clk handler req st)
               = fst (paymentStages plat eng cfg clk handler req s newRes)
           \<and> replayNonces (snd (gateway plat eng cfg clk handler req st))
               = replayNonces (snd (paymentStages plat eng cfg clk handler req s newRes))"
proof (cases "headerString req ''idempotency-key''")
  case None
  then show ?thesis by (intro exI[of _ st]) (simp add: gateway_def idempotency_def)
next
  case (Some token)
  show ?thesis
  proof (cases "token = []")
    case True
    then show ?thesis using Some by (intro exI[of _ st]) (simp add: gateway_def idempotency_def)
  next
    case False
    let ?s = "st\<lparr>idempotencyCache :=
                snd (cache_get (idempotencyCache st)
                      (idempotencyKey token (Request.method req) (Request.path req))
                      (tIdempotencyGet clk))\<rparr>"
    from assms Some False have "fst (cache_get (idempotencyCache st)
                 (idempotencyKey token (Request.method req) (Request.path req))
                 (tIdempotencyGet clk)) = None"
      by (simp add: cachedReply_def)
    then show ?thesis
      by (intro exI[of _ ?s])
        (simp add: gateway_def idempotency_token[OF Some False] captureJson_replayNonces)
  qed
qed

lemma gateway_recorded:
  assumes "recorded (replayNonces st) key t" "tReplayHas clk < t"
  shows "recorded (replayNonces (snd (gateway plat eng cfg clk handler req st))) key t"
proof (cases "cachedReply clk req st")
  case None
  from gateway_miss[OF None, of plat eng cfg handler] obtain s where
    s: "replayNonces s = replayNonces st"
       "replayNonces (snd (gateway plat eng cfg clk handler req st))
               = replayNonces (snd (paymentStages plat eng cfg clk handler req s newRes))"
    by blast
  have "recorded (replayNonces s) key t" using assms(1) s(1) by simp
  from paymentStages_recorded[OF this assms(2)] show ?thesis by (simp add: s(2))
next
  case (Some c)
  then show ?thesis using assms(1) by (simp add: gateway_hit)
qed

lemma step_recorded:
  "recorded (replayNonces st) key t \<Longrightarrow> happensBefore t ev \<Longrightarrow>
     recorded (replayNonces (step plat eng cfg handler ev st)) key t"
  by (cases ev) (simp_all add: gateway_recorded recorded_sweep)

lemma serve_recorded:
  "recorded (replayNonces st) key t \<Longrightarrow> list_all (happensBefore t) evs \<Longrightarrow>
     recorded (replayNonces (serve plat eng cfg handler evs st)) key t"
  by (induction evs arbitrary: st) (simp_all add: step_recorded)

lemma replay_409:
  assumes r: "recorded (replayNonces s) (extractNonceKey p) t" and w: "tReplayHas clk < t"
    and v: "validateSignature plat eng cfg req newRes = Next res"
    and p: "paymentPayload res = Some p"
  shows "paymentStages plat eng cfg clk handler req s newRes =
     (Sent \<lparr>Response.status = 409, Response.headers = Map.empty,
                 Response.body = JsonBody (JObj
                   [(''success'', JBool False),
                    (''error'', JStr ''Replay detected: payment nonce has already been used'')])\<rparr>, s)"
proof -
  obtain raw where raw: "headerString req X402_SIGNATURE = Some raw" "raw \<noteq> []"
    using validateSignature_Next_header[OF v p] by blast
  have h: "resHeaders res = Map.empty"
    using validateSignature_Next_res[OF v] by (simp add: newRes_def)
  have "cache_has (replayNonces s) (extractNonceKey p) (tReplayHas clk) = (True, replayNonces s)"
    using r w by (rule recorded_has)
  then show ?thesis
    by (simp add: paymentStages_def v replayProtection_payload[OF raw p] sendJson_def errorJson_def h)
qed

text \<open>
  Claim C3. Take a request whose payload signature validation has accepted (so it carries a
  \<open>payment-signature\<close> header), and a nonce cache with the gateway's TTL of five minutes. If
  the payload's nonce key is in the nonce cache, the request is answered 409 with the replay
  error and nothing further runs: neither the payment gate nor the handler, and the state is
  as it was. Otherwise the replay guard records the key and passes control on: the state the
  request leaves behind holds the key whatever the payment gate and the facilitator do. From
  then on, whatever requests and cache sweeps the server handles before the entry expires, a
  request that reaches the replay guard before the expiry with a payload of the same nonce and
  memo is answered 409; so is the request as a whole, unless the idempotency stage answers it
  from its cache.
\<close>

theorem replay_rejected:
  assumes v1: "validateSignature plat eng cfg req1 newRes = Next res1"
    and p1: "paymentPayload res1 = Some p1"
    and ttl: "defaultTtlMs (replayNonces st) = 5 * 60 * 1000"
  shows "(fst (cache_has (replayNonces st) (extractNonceKey p1) (tReplayHas clk1)) \<longrightarrow>
            paymentStages plat eng cfg clk1 handler req1 st newRes =
              (Sent \<lparr>Response.status = 409, Response.headers = Map.empty,
                 Response.body = JsonBody (JObj
                   [(''success'', JBool False),
                    (''error'', JStr ''Replay detected: payment nonce has already been used'')])\<rparr>, st))
       \<and> (\<not> fst (cache_has (replayNonces st) (extractNonceKey p1) (tReplayHas clk1)) \<longrightarrow>
            (let st1 = st\<lparr>replayNonces :=
                          cache_set (replayNonces st) (extractNonceKey p1) True None (tReplaySet clk1)\<rparr>
             in replayProtection clk1 req1 st res1 = (Next res1, st1)
                \<and> snd (paymentStages plat eng cfg clk1 handler req1 st newRes) = st1
                \<and> (cachedReply clk1 req1 st = None \<longrightarrow>
                     replayNonces (snd (gateway plat eng cfg clk1 handler req1 st)) = replayNonces st1)
                \<and> (\<forall>s1 evs clk2 handler2 req2 res2 p2.
                      replayNonces s1 = replayNonces st1
                      \<and> list_all (happensBefore (tReplaySet clk1 + 300000)) evs
                      \<and> validateSignature plat eng cfg req2 newRes = Next res2
                      \<and> paymentPayload res2 = Some p2
                      \<and> PaymentPayload.nonce p2 = PaymentPayload.nonce p1
                      \<and> PaymentPayload.memo p2 = PaymentPayload.memo p1
                      \<and> tReplayHas clk2 < tReplaySet clk1 + 300000 \<longrightarrow>
                      (let st2 = serve plat eng cfg handler evs s1
                       in paymentStages plat eng cfg clk2 handler2 req2 st2 newRes =
                            (Sent \<lparr>Response.status = 409, Response.headers = Map.empty,
                 Response.body = JsonBody (JObj
                   [(''success'', JBool False),
                    (''error'', JStr ''Replay detected: payment nonce has already been used'')])\<rparr>, st2)
                          \<and> (cachedReply clk2 req2 st2 = None \<longrightarrow>
                               fst (gateway plat eng cfg clk2 handler2 req2 st2) =
                                 Sent \<lparr>Response.status = 409, Response.headers = Map.empty,
                 Response.body = JsonBody (JObj
                   [(''success'', JBool False),
                    (''error'', JStr ''Replay detected: payment nonce has already been used'')])\<rparr>)))))"
proof -
  obtain raw where raw: "headerString req1 X402_SIGNATURE = Some raw" "raw \<noteq> []"
    using validateSignature_Next_header[OF v1 p1] by blast
  let ?key = "extractNonceKey p1"
  let ?seen = "\<lambda>s. fst (cache_has (replayNonces s) ?key (tReplayHas clk1))"
  let ?t = "tReplaySet clk1 + 300000"
  let ?st1 = "st\<lparr>replayNonces := cache_set (replayNonces st) ?key True None (tReplaySet clk1)\<rparr>"
  let ?r409 = "\<lparr>Response.status = 409, Response.headers = Map.empty,
                 Response.body = JsonBody (JObj
                   [(''success'', JBool False),
                    (''error'', JStr ''Replay detected: payment nonce has already been used'')])\<rparr>"
  have h: "resHeaders res1 = Map.empty"
    using validateSignature_Next_res[OF v1] by (simp add: newRes_def)
  have rp: "replayProtection clk1 req1 s res1 =
     (if ?seen s
      then (Respond ?r409,
            s\<lparr>replayNonces := snd (cache_has (replayNonces s) ?key (tReplayHas clk1))\<rparr>)
      else (Next res1,
            s\<lparr>replayNonces := cache_set (replayNonces s) ?key True None (tReplaySet clk1)\<rparr>))" for s
    by (simp add: replayProtection_payload[OF raw p1] cache_set_after_has sendJson_def errorJson_def h)
  have A: "paymentStages plat eng cfg clk1 handler req1 st newRes = (Sent ?r409, st)"
    if "?seen st"
    using that by (simp add: paymentStages_def v1 rp cache_has_seen_unchanged)
  have B1: "replayProtection clk1 req1 st res1 = (Next res1, ?st1)" if "\<not> ?seen st"
    using that by (simp add: rp)
  have B2: "snd (paymentStages plat eng cfg clk1 handler req1 s newRes)
              = s\<lparr>replayNonces := cache_set (replayNonces s) ?key True None (tReplaySet clk1)\<rparr>"
    if "\<not> ?seen s" for s
    using that by (simp add: paymentStages_def v1 rp split: Outcome.splits)
  have B3: "replayNonces (snd (gateway plat eng cfg clk1 handler req1 st)) = replayNonces ?st1"
    if ns: "\<not> ?seen st" and miss: "cachedReply clk1 req1 st = None"
  proof -
    from gateway_miss[OF miss, of plat eng cfg handler] obtain s where
      s: "replayNonces s = replayNonces st"
         "replayNonces (snd (gateway plat eng cfg clk1 handler req1 st))
               = replayNonces (snd (paymentStages plat eng cfg clk1 handler req1 s newRes))"
      by blast
    have "\<not> ?seen s" using ns s(1) by simp
    from B2[OF this] show ?thesis by (simp add: s)
  qed
  have rec: "recorded (replayNonces ?st1) ?key ?t"
    using recorded_after_set[of "replayNonces st" ?key True "tReplaySet clk1"] by (simp add: ttl)
  have B4: "paymentStages plat eng cfg clk2 handler2 req2 (serve plat eng cfg handler evs s1) newRes =
              (Sent ?r409, serve plat eng cfg handler evs s1)
            \<and> (cachedReply clk2 req2 (serve plat eng cfg handler evs s1) = None \<longrightarrow>
                 fst (gateway plat eng cfg clk2 handler2 req2 (serve plat eng cfg handler evs s1)) =
                   Sent ?r409)"
    if s1: "replayNonces s1 = replayNonces ?st1"
      and evs: "list_all (happensBefore ?t) evs"
      and v2: "validateSignature plat eng cfg req2 newRes = Next res2"
      and p2: "paymentPayload res2 = Some p2"
      and same: "PaymentPayload.nonce p2 = PaymentPayload.nonce p1"
                "PaymentPayload.memo p2 = PaymentPayload.memo p1"
      and within: "tReplayHas clk2 < ?t"
    for s1 evs clk2 handler2 req2 res2 p2
  proof -
    let ?st2 = "serve plat eng cfg handler evs s1"
    have key: "extractNonceKey p2 = ?key" using same by (rule extractNonceKey_cong)
    have "recorded (replayNonces s1) ?key ?t" using rec s1 by simp
    then have r2: "recorded (replayNonces ?st2) (extractNonceKey p2) ?t"
      unfolding key using evs by (rule serve_recorded)
    have a: "paymentStages plat eng cfg clk2 handler2 req2 ?st2 newRes = (Sent ?r409, ?st2)"
      by (rule replay_409[OF r2 within v2 p2])
    have b: "fst (gateway plat eng cfg clk2 handler2 req2 ?st2) = Sent ?r409"
      if miss: "cachedReply clk2 req2 ?st2 = None"
    proof -
      from gateway_miss[OF miss, of plat eng cfg handler2] obtain s where
        s: "replayNonces s = replayNonces ?st2"
           "fst (gateway plat eng cfg clk2 handler2 req2 ?st2)
               = fst (paymentStages plat eng cfg clk2 handler2 req2 s newRes)"
        by blast
      have "recorded (replayNonces s) (extractNonceKey p2) ?t" using r2 s(1) by simp
      from replay_409[OF this within v2 p2, of handler2] show ?thesis by (simp add: s(2))
    qed
    from a b show ?thesis by blast
  qed
  show ?thesis
    unfolding Let_def
    using A B1 B2[of st] B3 B4 by (intro conjI impI allI) blast+
qed

text \<open>
  Two paid requests with the same nonce on the sample gateway, one minute apart, with a sweep
  of the nonce cache and an unpaid request in between: the second one is the replay.
\<close>

theorem replay_rejected_witness:
  "fst (gateway samplePlatform sampleEngine sampleConfig (sampleClock 60000) sampleHandler
          (sampleRequest ''GET'' ''/proxy/api/weather'' [(''payment-signature'', Single ''pay-10'')])
          (serve samplePlatform sampleEngine sampleConfig sampleHandler
             [Incoming (sampleClock 0)
                (sampleRequest ''GET'' ''/proxy/api/weather'' [(''payment-signature'', Single ''pay-10'')]),
              SweepNonces 30000,
              Incoming (sampleClock 40000) (sampleRequest ''GET'' ''/proxy/api/weather'' [])]
             initialState))
     = Sent \<lparr>Response.status = 409, Response.headers = Map.empty,
        Response.body = JsonBody (JObj
          [(''success'', JBool False),
           (''error'', JStr ''Replay detected: payment nonce has already been used'')])\<rparr>"
proof -
  let ?req = "sampleRequest ''GET'' ''/proxy/api/weather'' [(''payment-signature'', Single ''pay-10'')]"
  let ?other = "sampleRequest ''GET'' ''/proxy/api/weather'' []"
  let ?p = "asPaymentPayload (sampleDecoded ''10'' ''abc'')"
  let ?res = "newRes\<lparr>paymentPayload := Some ?p\<rparr>"
  let ?evs = "[SweepNonces 30000, Incoming (sampleClock 40000) ?other]"
  let ?s1 = "snd (gateway samplePlatform sampleEngine sampleConfig (sampleClock 0) sampleHandler
                ?req initialState)"
  let ?st2 = "serve samplePlatform sampleEngine sampleConfig sampleHandler ?evs ?s1"
  have v: "validateSignature samplePlatform sampleEngine sampleConfig ?req newRes = Next ?res"
    by (rule sample_paid_weather)
  have p: "paymentPayload ?res = Some ?p" by simp
  have ttl: "defaultTtlMs (replayNonces initialState) = 5 * 60 * 1000"
    by (simp add: initialState_def newTtlCache_def)
  have fresh: "\<not> fst (cache_has (replayNonces initialState) (extractNonceKey ?p)
                        (tReplayHas (sampleClock 0)))"
    by (simp add: cache_has_def cache_get_def initialState_def newTtlCache_def)
  have miss: "cachedReply clk ?req s = None" for clk s
    by (simp add: cachedReply_def headerString_def sampleRequest_def)
  have evs: "list_all (happensBefore (tReplaySet (sampleClock 0) + 300000)) ?evs"
    by (simp add: sampleClock_def)
  have within: "tReplayHas (sampleClock 60000) < tReplaySet (sampleClock 0) + 300000"
    by (simp add: sampleClock_def)
  note main = replay_rejected[OF v p ttl, of "sampleClock 0" sampleHandler, THEN conjunct2,
      rule_format, OF fresh, unfolded Let_def]
  have s1: "replayNonces ?s1 =
      replayNonces (initialState\<lparr>replayNonces :=
         cache_set (replayNonces initialState) (extractNonceKey ?p) True None
           (tReplaySet (sampleClock 0))\<rparr>)"
    using main[THEN conjunct2, THEN conjunct2, THEN conjunct1, rule_format, OF miss] .
  have "fst (gateway samplePlatform sampleEngine sampleConfig (sampleClock 60000) sampleHandler
          ?req ?st2) = Sent \<lparr>Response.status = 409, Response.headers = Map.empty,
                 Response.body = JsonBody (JObj
                   [(''success'', JBool False),
                    (''error'', JStr ''Replay detected: payment nonce has already been used'')])\<rparr>"
    using main[THEN conjunct2, THEN conjunct2, THEN conjunct2, rule_format,
        OF conjI[OF s1 conjI[OF evs conjI[OF v conjI[OF p conjI[OF refl conjI[OF refl within]]]]]],
        THEN conjunct2, rule_format, OF miss] .
  then show ?thesis by simp
qed

text \<open>
  Claim C6 fails on the code. The nonce key joins nonce and memo with a colon and escapes
  nothing: the payload with nonce \<open>a:b\<close> and no memo and the payload with nonce \<open>a\<close> and memo
  \<open>b\<close> have the same key, so the second of them is answered 409 although its nonce was never
  used.
\<close>

theorem extractNonceKey_collision:
  "extractNonceKey (samplePayload\<lparr>PaymentPayload.nonce := ''a:b'', PaymentPayload.memo := None\<rparr>)
     = extractNonceKey (samplePayload\<lparr>PaymentPayload.nonce := ''a'', PaymentPayload.memo := Some ''b''\<rparr>)
   \<and> extractNonceKey (samplePayload\<lparr>PaymentPayload.nonce := ''a'', PaymentPayload.memo := Some ''b''\<rparr>)
     = ''nonce:a:b''"
  by (simp add: extractNonceKey_def falsy_def)

subsection \<open>The idempotency cache\<close>

lemma paymentStages_idempotencyCache:
  "idempotencyCache (snd (paymentStages plat eng cfg clk handler req st res)) = idempotencyCache st"
  by (auto simp: paymentStages_def replayProtection_def Let_def
      split: Outcome.splits option.splits prod.splits if_splits)

lemma only2xx_get: "only2xx c \<Longrightarrow> only2xx (snd (cache_get c key now))"
  by (auto simp: only2xx_def cache_get_def split: option.splits if_splits)

lemma only2xx_capture:
  "only2xx (idempotencyCache st) \<Longrightarrow> only2xx (idempotencyCache (captureJson clk key reply st))"
  by (auto simp: only2xx_def captureJson_def cache_set_def Let_def
      split: Reply.splits ResponseBody.splits option.splits if_splits)

lemma only2xx_idempotency:
  assumes "only2xx (idempotencyCache st)"
    and "\<And>s r. idempotencyCache (snd (next s r)) = idempotencyCache s"
  shows "only2xx (idempotencyCache (snd (idempotency clk req st res next)))"
proof (cases "headerString req ''idempotency-key''")
  case None
  then show ?thesis using assms by (simp add: idempotency_def)
next
  case (Some token)
  show ?thesis
  proof (cases "token = []")
    case True
    then show ?thesis using Some assms by (simp add: idempotency_def)
  next
    case False
    let ?key = "idempotencyKey token (Request.method req) (Request.path req)"
    let ?g = "cache_get (idempotencyCache st) ?key (tIdempotencyGet clk)"
    have ev: "only2xx (snd ?g)" using assms(1) by (rule only2xx_get)
    show ?thesis
    proof (cases "fst ?g")
      case None
      have "only2xx (idempotencyCache (snd (next (st\<lparr>idempotencyCache := snd ?g\<rparr>) res)))"
        using ev by (simp add: assms(2))
      then show ?thesis
        using None
        by (simp add: idempotency_token[OF Some False] only2xx_capture)
    next
      case (Some c)
      then show ?thesis
        using ev
        by (simp add: idempotency_token[OF \<open>headerString req ''idempotency-key'' = Some token\<close> False])
    qed
  qed
qed

lemma only2xx_gateway:
  "only2xx (idempotencyCache st) \<Longrightarrow>
     only2xx (idempotencyCache (snd (gateway plat eng cfg clk handler req st)))"
  unfolding gateway_def
  by (rule only2xx_idempotency) (simp_all add: paymentStages_idempotencyCache)

lemma only2xx_sweep: "only2xx c \<Longrightarrow> only2xx (cache_sweep c now)"
  by (auto simp: only2xx_def cache_sweep_def split: option.splits if_splits)

lemma only2xx_step:
  "only2xx (idempotencyCache st) \<Longrightarrow> only2xx (idempotencyCache (step plat eng cfg handler ev st))"
  by (cases ev) (simp_all add: only2xx_gateway only2xx_sweep)

lemma only2xx_serve:
  "only2xx (idempotencyCache st) \<Longrightarrow> only2xx (idempotencyCache (serve plat eng cfg handler evs st))"
  by (induction evs arbitrary: st) (simp_all add: only2xx_step)

lemma only2xx_initial: "only2xx (idempotencyCache initialState)"
  by (simp add: only2xx_def initialState_def newTtlCache_def)

text \<open>
  The sample gateway serves one paid request that carries an idempotency key: the 200 response
  and its \<open>payment-response\<close> header are stored under the key, and the nonce is recorded.
\<close>

lemma sample_first_paid:
  "gateway samplePlatform sampleEngine sampleConfig (sampleClock 0) sampleHandler
      samplePaidRequest initialState
   = (Sent \<lparr>Response.status = 200,
             Response.headers =
               Map.empty(''payment-response'' \<mapsto> ''txHashnetworkpayeramounttimestampsettled''),
             Response.body = JsonBody (JObj [(''success'', JBool True)])\<rparr>,
      \<lparr>idempotencyCache =
         cache_set (idempotencyCache initialState) ''idem:GET:/proxy/api/weather:k1''
           \<lparr>CachedResponse.status = 200,
            CachedResponse.headers =
              [(''payment-response'', ''txHashnetworkpayeramounttimestampsettled'')],
            CachedResponse.body = JObj [(''success'', JBool True)]\<rparr> None 4,
       replayNonces = cache_set (replayNonces initialState) ''nonce:abc'' True None 2\<rparr>)"
proof -
  let ?req = "sampleRequest ''GET'' ''/proxy/api/weather''
         [(''payment-signature'', Single ''pay-10''), (''idempotency-key'', Single ''k1'')]"
  have req: "samplePaidRequest = ?req" by (simp add: samplePaidRequest_def)
  let ?p = "asPaymentPayload (sampleDecoded ''10'' ''abc'')"
  let ?res = "newRes\<lparr>paymentPayload := Some ?p\<rparr>"
  have hk: "headerString ?req ''idempotency-key'' = Some ''k1''"
    by (simp add: headerString_def sampleRequest_def)
  have hs: "headerString ?req X402_SIGNATURE = Some ''pay-10''"
    by (simp add: headerString_def sampleRequest_def X402_SIGNATURE_def)
  have key: "idempotencyKey ''k1'' (Request.method ?req) (Request.path ?req)
               = ''idem:GET:/proxy/api/weather:k1''"
    by (simp add: idempotencyKey_def sampleRequest_def toUpperCase_def)
  have nk: "extractNonceKey ?p = ''nonce:abc''"
    by (simp add: extractNonceKey_def asPaymentPayload_def sampleDecoded_def falsy_def)
  have get0: "\<And>t. cache_get (idempotencyCache initialState) ''idem:GET:/proxy/api/weather:k1''
                t = (None, idempotencyCache initialState)"
    by (simp add: cache_get_def initialState_def newTtlCache_def)
  have same: "initialState\<lparr>idempotencyCache := idempotencyCache initialState\<rparr> = initialState"
    by simp
  have v: "validateSignature samplePlatform sampleEngine sampleConfig ?req newRes = Next ?res"
    by (rule sample_paid_weather)
  have has0: "\<And>t. cache_has (replayNonces initialState) ''nonce:abc'' t
                = (False, replayNonces initialState)"
    by (simp add: cache_has_def cache_get_def initialState_def newTtlCache_def)
  have r: "replayProtection (sampleClock 0) ?req initialState ?res =
             (Next ?res, initialState\<lparr>replayNonces :=
                 cache_set (replayNonces initialState) ''nonce:abc'' True None 2\<rparr>)"
    using replayProtection_payload[OF hs, of ?res ?p "sampleClock 0" initialState]
    by (simp add: nk has0 sampleClock_def)
  have route: "findPolicy sampleEngine (Request.path ?req) (Request.method ?req)
                 = Some (policies sampleEngine ! Suc 0)"
    by (simp add: sampleRequest_def sample_weather_route)
  have g: "paymentRequired samplePlatform sampleEngine sampleConfig (sampleClock 0) ?req ?res =
             Next (?res\<lparr>resHeaders := Map.empty(''payment-response'' \<mapsto>
                              ''txHashnetworkpayeramounttimestampsettled''),
                         receipt := Some (mockReceipt sampleConfig (sampleClock 0) ?p)\<rparr>)"
    by (simp add: paymentRequired_def route Let_def sampleConfig_def attachReceipt_def
        samplePlatform_def receiptJson_def mockReceipt_def X402_RESPONSE_def newRes_def)
  have stages: "paymentStages samplePlatform sampleEngine sampleConfig (sampleClock 0) sampleHandler
         ?req initialState newRes =
      (Sent \<lparr>Response.status = 200,
             Response.headers =
               Map.empty(''payment-response'' \<mapsto> ''txHashnetworkpayeramounttimestampsettled''),
             Response.body = JsonBody (JObj [(''success'', JBool True)])\<rparr>,
       initialState\<lparr>replayNonces :=
                 cache_set (replayNonces initialState) ''nonce:abc'' True None 2\<rparr>)"
    unfolding paymentStages_def v
    by (simp add: r g sampleHandler_def sendJson_def) (simp add: newRes_def)
  show ?thesis
    unfolding req gateway_def idempotency_token[OF hk, simplified] key get0
    apply (simp only: prod.case fst_conv snd_conv same stages option.case)
    apply (simp add: captureJson_def X402_RESPONSE_def Let_def)
    apply (simp add: sampleClock_def initialState_def)
    done
qed

text \<open>
  Claim C2. On a hit for the request's idempotency key the idempotency stage answers with the
  stored status, the stored headers (the \<open>payment-response\<close> header, when one was stored) and
  the stored body, whatever the rest of the pipeline is: \<open>next\<close> is not run and the state is
  unchanged. On a miss the only write to the idempotency cache is \<open>captureJson\<close>, which
  leaves the state alone for a response whose status is not 2xx; without a key the stage does
  nothing. Hence, in every state the server reaches from start-up, each entry of the
  idempotency cache has a 2xx status: a 402 is never stored.
\<close>

theorem idempotency_cache:
  "(\<forall>token c next.
        headerString req ''idempotency-key'' = Some token \<and> token \<noteq> []
        \<and> fst (cache_get (idempotencyCache st)
                 (idempotencyKey token (Request.method req) (Request.path req))
                 (tIdempotencyGet clk)) = Some c \<longrightarrow>
        idempotency clk req st newRes next =
          (Sent \<lparr>Response.status = CachedResponse.status c,
                 Response.headers =
                   fold (\<lambda>(h, v) m. m(h \<mapsto> v)) (CachedResponse.headers c) Map.empty,
                 Response.body = JsonBody (CachedResponse.body c)\<rparr>, st))
   \<and> (\<forall>token next.
        headerString req ''idempotency-key'' = Some token \<and> token \<noteq> []
        \<and> fst (cache_get (idempotencyCache st)
                 (idempotencyKey token (Request.method req) (Request.path req))
                 (tIdempotencyGet clk)) = None \<longrightarrow>
        (\<exists>reply st2. idempotency clk req st newRes next =
             (reply, captureJson clk (idempotencyKey token (Request.method req) (Request.path req))
                       reply st2)))
   \<and> (\<forall>next.
        headerString req ''idempotency-key'' = None
        \<or> headerString req ''idempotency-key'' = Some [] \<longrightarrow>
        idempotency clk req st newRes next = next st newRes)
   \<and> (\<forall>key r st2. \<not> (200 \<le> Response.status r \<and> Response.status r < 300) \<longrightarrow>
        captureJson clk key (Sent r) st2 = st2)
   \<and> only2xx (idempotencyCache (serve plat eng cfg handler evs initialState))"
proof -
  have hit: "idempotency clk req st newRes next =
          (Sent \<lparr>Response.status = CachedResponse.status c,
                 Response.headers =
                   fold (\<lambda>(h, v) m. m(h \<mapsto> v)) (CachedResponse.headers c) Map.empty,
                 Response.body = JsonBody (CachedResponse.body c)\<rparr>, st)"
    if "headerString req ''idempotency-key'' = Some token" "token \<noteq> []"
      and c: "fst (cache_get (idempotencyCache st)
                 (idempotencyKey token (Request.method req) (Request.path req))
                 (tIdempotencyGet clk)) = Some c"
    for token c "next"
    using c cache_get_hit_unchanged[OF c]
    by (simp add: idempotency_token[OF that(1,2)] newRes_def)
  have miss: "\<exists>reply st2. idempotency clk req st newRes next =
             (reply, captureJson clk (idempotencyKey token (Request.method req) (Request.path req))
                       reply st2)"
    if "headerString req ''idempotency-key'' = Some token" "token \<noteq> []"
      and "fst (cache_get (idempotencyCache st)
                 (idempotencyKey token (Request.method req) (Request.path req))
                 (tIdempotencyGet clk)) = None"
    for token "next"
    using that(3) by (simp add: idempotency_token[OF that(1,2)]) blast
  have nokey: "idempotency clk req st newRes next = next st newRes"
    if "headerString req ''idempotency-key'' = None
        \<or> headerString req ''idempotency-key'' = Some []" for "next"
    using that by (auto simp: idempotency_def)
  have cap: "captureJson clk key (Sent r) st2 = st2"
    if "\<not> (200 \<le> Response.status r \<and> Response.status r < 300)" for key r st2
    using that by (auto simp: captureJson_def split: ResponseBody.splits)
  have inv: "only2xx (idempotencyCache (serve plat eng cfg handler evs initialState))"
    using only2xx_initial by (rule only2xx_serve)
  show ?thesis
    using hit miss nokey cap inv by (intro conjI allI impI) blast+
qed

text \<open>
  A replay on the sample gateway: after the paid request above, a request with the same method,
  path and key, and no payment signature at all, is answered with the stored response, and the
  state is left as it was. A 402 is not stored.
\<close>

theorem idempotency_cache_witness:
  "gateway samplePlatform sampleEngine sampleConfig (sampleClock 1000) sampleHandler
      (sampleRequest ''GET'' ''/proxy/api/weather'' [(''idempotency-key'', Single ''k1'')])
      sampleHitState
     = (Sent \<lparr>Response.status = 200,
              Response.headers =
                Map.empty(''payment-response'' \<mapsto> ''txHashnetworkpayeramounttimestampsettled''),
              Response.body = JsonBody (JObj [(''success'', JBool True)])\<rparr>,
        sampleHitState)
   \<and> captureJson (sampleClock 1000) ''idem:GET:/proxy/api/weather:k2''
        (Sent \<lparr>Response.status = 402, Response.headers = Map.empty,
               Response.body = JsonBody JNull\<rparr>) sampleHitState
     = sampleHitState"
proof -
  let ?req = "sampleRequest ''GET'' ''/proxy/api/weather'' [(''idempotency-key'', Single ''k1'')]"
  have h1: "headerString ?req ''idempotency-key'' = Some ''k1''"
    by (simp add: headerString_def sampleRequest_def)
  have key: "idempotencyKey ''k1'' (Request.method ?req) (Request.path ?req)
               = ''idem:GET:/proxy/api/weather:k1''"
    by (simp add: idempotencyKey_def sampleRequest_def toUpperCase_def)
  have hit: "idempotencyCache sampleHitState =
               cache_set (idempotencyCache initialState) ''idem:GET:/proxy/api/weather:k1''
                 sampleCached None 4"
    by (simp add: sampleHitState_def sample_first_paid sampleCached_def)
  have h3: "fst (cache_get (idempotencyCache sampleHitState)
                  (idempotencyKey ''k1'' (Request.method ?req) (Request.path ?req))
                  (tIdempotencyGet (sampleClock 1000))) = Some sampleCached"
    unfolding key hit
    by (simp add: cache_get_def cache_set_def initialState_def newTtlCache_def sampleClock_def)
  note main = idempotency_cache[of ?req sampleHitState "sampleClock 1000" samplePlatform
      sampleEngine sampleConfig sampleHandler "[]"]
  have ne: "''k1'' \<noteq> []" by simp
  have "idempotency (sampleClock 1000) ?req sampleHitState newRes
          (paymentStages samplePlatform sampleEngine sampleConfig (sampleClock 1000) sampleHandler ?req)
        = (Sent \<lparr>Response.status = CachedResponse.status sampleCached,
                 Response.headers =
                   fold (\<lambda>(h, v) m. m(h \<mapsto> v)) (CachedResponse.headers sampleCached) Map.empty,
                 Response.body = JsonBody (CachedResponse.body sampleCached)\<rparr>, sampleHitState)"
    using main[THEN conjunct1, rule_format, OF conjI[OF h1 conjI[OF ne h3]]] .
  then have a: "gateway samplePlatform sampleEngine sampleConfig (sampleClock 1000) sampleHandler
      ?req sampleHitState
     = (Sent \<lparr>Response.status = 200,
              Response.headers =
                Map.empty(''payment-response'' \<mapsto> ''txHashnetworkpayeramounttimestampsettled''),
              Response.body = JsonBody (JObj [(''success'', JBool True)])\<rparr>,
        sampleHitState)"
    by (simp add: gateway_def sampleCached_def)
  have b: "captureJson (sampleClock 1000) ''idem:GET:/proxy/api/weather:k2''
        (Sent \<lparr>Response.status = 402, Response.headers = Map.empty,
               Response.body = JsonBody JNull\<rparr>) sampleHitState
     = sampleHitState"
    by (rule main[THEN conjunct2, THEN conjunct2, THEN conjunct2, THEN conjunct1, rule_format]) simp
  from a b show ?thesis by simp
qed

subsection \<open>The payment gate\<close>

text \<open>
  Claim C1 as stated fails: the idempotency stage stands in front of the payment stages and
  does not look at the \<open>payment-signature\<close> header. After the sample gateway has served a
  paid \<open>GET /proxy/api/weather\<close> under the idempotency key \<open>k1\<close>, a request to the same
  route with that key and no \<open>payment-signature\<close> header is answered 200 with the stored
  response, not 402.
\<close>

theorem unsigned_request_replayed:
  "engine sampleConfig = Inr sampleEngine
   \<and> policies sampleEngine ! Suc 0 \<in> set (all sampleEngine)
   \<and> Request.path (sampleRequest ''GET'' ''/proxy/api/weather'' [(''idempotency-key'', Single ''k1'')])
       = RoutePolicy.path (policies sampleEngine ! Suc 0)
   \<and> Request.method (sampleRequest ''GET'' ''/proxy/api/weather'' [(''idempotency-key'', Single ''k1'')])
       = methodName (RoutePolicy.method (policies sampleEngine ! Suc 0))
   \<and> map_of (Request.headers
         (sampleRequest ''GET'' ''/proxy/api/weather'' [(''idempotency-key'', Single ''k1'')]))
       ''payment-signature'' = None
   \<and> sampleHitState =
       serve samplePlatform sampleEngine sampleConfig sampleHandler
         [Incoming (sampleClock 0) samplePaidRequest] initialState
   \<and> fst (gateway samplePlatform sampleEngine sampleConfig (sampleClock 1000) sampleHandler
         (sampleRequest ''GET'' ''/proxy/api/weather'' [(''idempotency-key'', Single ''k1'')])
         sampleHitState)
       = Sent \<lparr>Response.status = 200,
               Response.headers =
                 Map.empty(''payment-response'' \<mapsto> ''txHashnetworkpayeramounttimestampsettled''),
               Response.body = JsonBody (JObj [(''success'', JBool True)])\<rparr>"
proof -
  let ?pol = "policies sampleEngine ! Suc 0"
  let ?req = "sampleRequest ''GET'' ''/proxy/api/weather'' [(''idempotency-key'', Single ''k1'')]"
  have eng: "policies sampleEngine ! Suc 0 = (case weatherPolicy sampleConfig of Inr p \<Rightarrow> p)"
    by (simp add: sampleEngine_def sampleConfig_def engine_defs)
  have h2: "?pol \<in> set (all sampleEngine)"
    using sampleEngine_paths by (auto simp: all_def dest!: arg_cong[where f=length])
  have h3: "Request.path ?req = RoutePolicy.path ?pol"
    by (simp add: eng sampleRequest_def sampleConfig_def engine_defs)
  have h4: "Request.method ?req = methodName (RoutePolicy.method ?pol)"
    by (simp add: eng sampleRequest_def sampleConfig_def engine_defs)
  have h5: "map_of (Request.headers ?req) ''payment-signature'' = None"
    by (simp add: sampleRequest_def)
  have hit: "idempotencyCache sampleHitState =
               cache_set (idempotencyCache initialState) ''idem:GET:/proxy/api/weather:k1''
                 sampleCached None 4"
    by (simp add: sampleHitState_def sample_first_paid sampleCached_def)
  have c: "cachedReply (sampleClock 1000) ?req sampleHitState = Some sampleCached"
    unfolding cachedReply_def hit
    by (simp add: headerString_def sampleRequest_def idempotencyKey_def toUpperCase_def
        cache_get_def cache_set_def initialState_def newTtlCache_def sampleClock_def)
  have r: "fst (gateway samplePlatform sampleEngine sampleConfig (sampleClock 1000) sampleHandler
         ?req sampleHitState) = Sent \<lparr>Response.status = 200,
               Response.headers =
                 Map.empty(''payment-response'' \<mapsto> ''txHashnetworkpayeramounttimestampsettled''),
               Response.body = JsonBody (JObj [(''success'', JBool True)])\<rparr>"
    unfolding gateway_hit[OF c] by (simp add: sampleCached_def)
  show ?thesis
    using sampleEngine_built h2 h3 h4 h5 r by (simp add: sampleHitState_def)
qed

text \<open>
  Claim C1, amended. For every policy the gateway registers, a request to the policy's path
  with the policy's method and without a \<open>payment-signature\<close> header is answered 402 by the
  payment stages: signature validation and the replay guard pass it on, the payment gate
  answers, and neither cache is touched. The \<open>payment-required\<close> header is \<open>toBase64\<close> of the
  \<open>PaymentRequirements\<close> value \<open>{ x402Version: 2, accepts: [accept] }\<close>, the JSON body is that
  same value, and the single accept entry carries the policy's scheme, network,
  maxAmountRequired, resource (the base URL followed by the path), description, mimeType,
  payTo, maxTimeoutSeconds and asset (and its \<open>extra\<close>, when it has one). This is the answer of
  the gateway unless the request carries an idempotency key under which a response is stored
  and has not expired; then the gateway answers with the stored response instead.
\<close>

theorem unpaid_request_402:
  assumes "engine cfg = Inr eng"
    and "pol \<in> set (all eng)"
    and "Request.path req = RoutePolicy.path pol"
    and "Request.method req = methodName (RoutePolicy.method pol)"
    and "map_of (Request.headers req) ''payment-signature'' = None"
  shows "(let accept =
                JObj ([(''scheme'', JStr (RoutePolicy.scheme pol)),
                       (''network'', JStr (RoutePolicy.network pol)),
                       (''maxAmountRequired'', JStr (RoutePolicy.maxAmountRequired pol)),
                       (''resource'', JStr
                          ((case baseUrl cfg of
                              Some b \<Rightarrow> b
                            | None \<Rightarrow> protocol req @ ''://''
                                       @ orDefault (headerString req ''host'') ''undefined'')
                           @ RoutePolicy.path pol)),
                       (''description'', JStr (RoutePolicy.description pol)),
                       (''mimeType'', JStr (RoutePolicy.mimeType pol)),
                       (''payTo'', JStr (RoutePolicy.payTo pol)),
                       (''maxTimeoutSeconds'', JNum (RoutePolicy.maxTimeoutSeconds pol)),
                       (''asset'', JStr (RoutePolicy.asset pol))]
                      @ (case RoutePolicy.extra pol of
                           None \<Rightarrow> []
                         | Some e \<Rightarrow> [(''extra'', JObj e)]));
              requirements = JObj [(''x402Version'', JNum 2), (''accepts'', JArr [accept])];
              answer = \<lparr>Response.status = 402,
                        Response.headers =
                          Map.empty(''payment-required'' \<mapsto> toBase64 plat requirements),
                        Response.body = JsonBody requirements\<rparr>
          in paymentStages plat eng cfg clk handler req st newRes = (Sent answer, st)
             \<and> (cachedReply clk req st = None \<longrightarrow>
                  fst (gateway plat eng cfg clk handler req st) = Sent answer)
             \<and> (\<forall>c. cachedReply clk req st = Some c \<longrightarrow>
                  gateway plat eng cfg clk handler req st =
                    (Sent \<lparr>Response.status = CachedResponse.status c,
                           Response.headers =
                             fold (\<lambda>(h, v) m. m(h \<mapsto> v)) (CachedResponse.headers c) Map.empty,
                           Response.body = JsonBody (CachedResponse.body c)\<rparr>, st)))"
proof -
  let ?requirements = "JObj [(''x402Version'', JNum 2), (''accepts'', JArr [
                JObj ([(''scheme'', JStr (RoutePolicy.scheme pol)),
                       (''network'', JStr (RoutePolicy.network pol)),
                       (''maxAmountRequired'', JStr (RoutePolicy.maxAmountRequired pol)),
                       (''resource'', JStr
                          ((case baseUrl cfg of
                              Some b \<Rightarrow> b
                            | None \<Rightarrow> protocol req @ ''://''
                                       @ orDefault (headerString req ''host'') ''undefined'')
                           @ RoutePolicy.path pol)),
                       (''description'', JStr (RoutePolicy.description pol)),
                       (''mimeType'', JStr (RoutePolicy.mimeType pol)),
                       (''payTo'', JStr (RoutePolicy.payTo pol)),
                       (''maxTimeoutSeconds'', JNum (RoutePolicy.maxTimeoutSeconds pol)),
                       (''asset'', JStr (RoutePolicy.asset pol))]
                      @ (case RoutePolicy.extra pol of
                           None \<Rightarrow> []
                         | Some e \<Rightarrow> [(''extra'', JObj e)]))])]"
  let ?answer = "\<lparr>Response.status = 402,
                 Response.headers =
                   Map.empty(''payment-required'' \<mapsto> toBase64 plat ?requirements),
                 Response.body = JsonBody ?requirements\<rparr>"
  have found: "findPolicy eng (Request.path req) (Request.method req) = Some pol"
    using match_registered[OF engine_uniqueRoutes[OF assms(1)], of pol] assms(2-4)
    by (simp add: findPolicy_def all_policies)
  have json: "requirementsJson (buildRequirements (buildAccept cfg pol req)) = ?requirements"
    by (simp add: requirementsJson_def buildRequirements_def buildAccept_def acceptJson_def Let_def)
  have gate: "paymentRequired plat eng cfg clk req newRes = Respond ?answer"
    unfolding json[symmetric]
    by (simp add: paymentRequired_def found newRes_def Let_def X402_REQUIRED_def)
  have nosig: "map_of (Request.headers req) X402_SIGNATURE = None"
    using assms(5) by (simp add: X402_SIGNATURE_def)
  have stages: "paymentStages plat eng cfg clk handler req s newRes = (Sent ?answer, s)" for s
    by (simp only: paymentStages_def validateSignature_no_header[OF nosig]
        replayProtection_no_header[OF nosig] gate Outcome.case prod.case)
  have whole: "fst (gateway plat eng cfg clk handler req st) = Sent ?answer"
    if miss: "cachedReply clk req st = None"
  proof -
    from gateway_miss[OF miss, of plat eng cfg handler] obtain s where
      "fst (gateway plat eng cfg clk handler req st)
         = fst (paymentStages plat eng cfg clk handler req s newRes)"
      by blast
    then show ?thesis by (simp only: stages fst_conv)
  qed
  have stored: "gateway plat eng cfg clk handler req st =
                    (Sent \<lparr>Response.status = CachedResponse.status c,
                           Response.headers =
                             fold (\<lambda>(h, v) m. m(h \<mapsto> v)) (CachedResponse.headers c) Map.empty,
                           Response.body = JsonBody (CachedResponse.body c)\<rparr>, st)"
    if "cachedReply clk req st = Some c" for c
    using that by (rule gateway_hit)
  show ?thesis
    unfolding Let_def using stages[of st] whole stored by (intro conjI impI allI) blast+
qed

text \<open>
  The 402 for \<open>GET /proxy/api/weather\<close> on the sample gateway, through the theorem.
\<close>

theorem unpaid_request_402_witness:
  "fst (paymentStages samplePlatform sampleEngine sampleConfig (sampleClock 0) sampleHandler
         (sampleRequest ''GET'' ''/proxy/api/weather'' []) initialState newRes)
     = Sent \<lparr>Response.status = 402,
             Response.headers = Map.empty(''payment-required'' \<mapsto> ''x402Versionaccepts''),
             Response.body =
               JsonBody (JObj [(''x402Version'', JNum 2),
                 (''accepts'', JArr [JObj
                    [(''scheme'', JStr ''exact''),
                     (''network'', JStr ''stacks:2147483648''),
                     (''maxAmountRequired'', JStr ''10''),
                     (''resource'', JStr ''https://gateway.example.com/proxy/api/weather''),
                     (''description'', JStr (''Weather lookup '' @ emDash
                         @ '' proxied upstream, 10 '' @ microSign @ ''STX per call'')),
                     (''mimeType'', JStr ''application/json''),
                     (''payTo'', JStr ''ST1PQHQKV0RJXZFY1DGX8MNSNYVE3VGZJSRTPGZGM''),
                     (''maxTimeoutSeconds'', JNum 60),
                     (''asset'', JStr ''STX'')]])])\<rparr>
   \<and> fst (gateway samplePlatform sampleEngine sampleConfig (sampleClock 0) sampleHandler
         (sampleRequest ''GET'' ''/proxy/api/weather'' []) initialState)
     = Sent \<lparr>Response.status = 402,
             Response.headers = Map.empty(''payment-required'' \<mapsto> ''x402Versionaccepts''),
             Response.body =
               JsonBody (JObj [(''x402Version'', JNum 2),
                 (''accepts'', JArr [JObj
                    [(''scheme'', JStr ''exact''),
                     (''network'', JStr ''stacks:2147483648''),
                     (''maxAmountRequired'', JStr ''10''),
                     (''resource'', JStr ''https://gateway.example.com/proxy/api/weather''),
                     (''description'', JStr (''Weather lookup '' @ emDash
                         @ '' proxied upstream, 10 '' @ microSign @ ''STX per call'')),
                     (''mimeType'', JStr ''application/json''),
                     (''payTo'', JStr ''ST1PQHQKV0RJXZFY1DGX8MNSNYVE3VGZJSRTPGZGM''),
                     (''maxTimeoutSeconds'', JNum 60),
                     (''asset'', JStr ''STX'')]])])\<rparr>"
proof -
  let ?pol = "policies sampleEngine ! Suc 0"
  let ?req = "sampleRequest ''GET'' ''/proxy/api/weather'' []"
  have eng: "policies sampleEngine ! Suc 0 = (case weatherPolicy sampleConfig of Inr p \<Rightarrow> p)"
    by (simp add: sampleEngine_def sampleConfig_def engine_defs)
  have h2: "?pol \<in> set (all sampleEngine)"
    using sampleEngine_paths by (auto simp: all_def dest!: arg_cong[where f=length])
  have h3: "Request.path ?req = RoutePolicy.path ?pol"
    by (simp add: eng sampleRequest_def sampleConfig_def engine_defs)
  have h4: "Request.method ?req = methodName (RoutePolicy.method ?pol)"
    by (simp add: eng sampleRequest_def sampleConfig_def engine_defs)
  have h5: "map_of (Request.headers ?req) ''payment-signature'' = None"
    by (simp add: sampleRequest_def)
  have f: "RoutePolicy.scheme ?pol = ''exact''"
    "RoutePolicy.network ?pol = ''stacks:2147483648''"
    "RoutePolicy.maxAmountRequired ?pol = ''10''"
    "RoutePolicy.path ?pol = ''/proxy/api/weather''"
    "RoutePolicy.description ?pol = ''Weather lookup '' @ emDash
                         @ '' proxied upstream, 10 '' @ microSign @ ''STX per call''"
    "RoutePolicy.mimeType ?pol = ''application/json''"
    "RoutePolicy.payTo ?pol = ''ST1PQHQKV0RJXZFY1DGX8MNSNYVE3VGZJSRTPGZGM''"
    "RoutePolicy.maxTimeoutSeconds ?pol = 60"
    "RoutePolicy.asset ?pol = ''STX''"
    "RoutePolicy.extra ?pol = None"
    by (simp_all add: eng sampleConfig_def engine_defs)
  have b: "baseUrl sampleConfig = Some ''https://gateway.example.com''"
    by (simp add: sampleConfig_def)
  have miss: "cachedReply (sampleClock 0) ?req initialState = None"
    by (simp add: cachedReply_def headerString_def sampleRequest_def)
  note main = unpaid_request_402[OF sampleEngine_built h2 h3 h4 h5, of samplePlatform "sampleClock 0"
        sampleHandler initialState, unfolded Let_def]
  have a: "fst (paymentStages samplePlatform sampleEngine sampleConfig (sampleClock 0) sampleHandler
         ?req initialState newRes)
     = Sent \<lparr>Response.status = 402,
             Response.headers = Map.empty(''payment-required'' \<mapsto> ''x402Versionaccepts''),
             Response.body =
               JsonBody (JObj [(''x402Version'', JNum 2),
                 (''accepts'', JArr [JObj
                    [(''scheme'', JStr ''exact''),
                     (''network'', JStr ''stacks:2147483648''),
                     (''maxAmountRequired'', JStr ''10''),
                     (''resource'', JStr ''https://gateway.example.com/proxy/api/weather''),
                     (''description'', JStr (''Weather lookup '' @ emDash
                         @ '' proxied upstream, 10 '' @ microSign @ ''STX per call'')),
                     (''mimeType'', JStr ''application/json''),
                     (''payTo'', JStr ''ST1PQHQKV0RJXZFY1DGX8MNSNYVE3VGZJSRTPGZGM''),
                     (''maxTimeoutSeconds'', JNum 60),
                     (''asset'', JStr ''STX'')]])])\<rparr>"
    using main[THEN conjunct1]
    by (simp add: f b samplePlatform_def)
  have c: "fst (gateway samplePlatform sampleEngine sampleConfig (sampleClock 0) sampleHandler
         ?req initialState)
     = Sent \<lparr>Response.status = 402,
             Response.headers = Map.empty(''payment-required'' \<mapsto> ''x402Versionaccepts''),
             Response.body =
               JsonBody (JObj [(''x402Version'', JNum 2),
                 (''accepts'', JArr [JObj
                    [(''scheme'', JStr ''exact''),
                     (''network'', JStr ''stacks:2147483648''),
                     (''maxAmountRequired'', JStr ''10''),
                     (''resource'', JStr ''https://gateway.example.com/proxy/api/weather''),
                     (''description'', JStr (''Weather lookup '' @ emDash
                         @ '' proxied upstream, 10 '' @ microSign @ ''STX per call'')),
                     (''mimeType'', JStr ''application/json''),
                     (''payTo'', JStr ''ST1PQHQKV0RJXZFY1DGX8MNSNYVE3VGZJSRTPGZGM''),
                     (''maxTimeoutSeconds'', JNum 60),
                     (''asset'', JStr ''STX'')]])])\<rparr>"
    using main[THEN conjunct2, THEN conjunct1, rule_format, OF miss]
    by (simp add: f b samplePlatform_def)
  from a c show ?thesis by (rule conjI)
qed

lemma unpriced_route_validated:
  assumes "findPolicy eng (Request.path req) (Request.method req) = None"
    and "headerString req X402_SIGNATURE = Some raw" and "raw \<noteq> []"
  shows "(decodePayload plat raw = None \<longrightarrow>
            validateSignature plat eng cfg req res =
              Respond \<lparr>Response.status = 400, Response.headers = resHeaders res,
                Response.body = JsonBody (JObj
                  [(''success'', JBool False),
                   (''error'', JStr ''PAYMENT-SIGNATURE is not valid base64-encoded JSON'')])\<rparr>)
       \<and> (\<forall>d. decodePayload plat raw = Some (ParsedValue d)
               \<and> (\<exists>f \<in> set PAYMENT_PAYLOAD_REQUIRED_FIELDS. fieldMissing d f) \<longrightarrow>
            validateSignature plat eng cfg req res =
              Respond \<lparr>Response.status = 400, Response.headers = resHeaders res,
                Response.body = JsonBody (JObj
                  [(''success'', JBool False),
                   (''error'', JStr (''PAYMENT-SIGNATURE missing required fields: ''
                      @ join '', '' (filter (fieldMissing d) PAYMENT_PAYLOAD_REQUIRED_FIELDS)))])\<rparr>)
       \<and> (\<forall>d. decodePayload plat raw = Some (ParsedValue d)
               \<and> (\<forall>f \<in> set PAYMENT_PAYLOAD_REQUIRED_FIELDS. \<not> fieldMissing d f)
               \<and> DecodedPayload.x402Version d \<noteq> Some (JsNumber ''2'') \<longrightarrow>
            validateSignature plat eng cfg req res =
              Respond \<lparr>Response.status = 400, Response.headers = resHeaders res,
                Response.body = JsonBody (JObj
                  [(''success'', JBool False),
                   (''error'', JStr (''Unsupported x402Version: ''
                      @ numberText (the (DecodedPayload.x402Version d)) @ '' (expected 2)''))])\<rparr>)
       \<and> (\<forall>d. decodePayload plat raw = Some (ParsedValue d)
               \<and> (\<forall>f \<in> set PAYMENT_PAYLOAD_REQUIRED_FIELDS. \<not> fieldMissing d f)
               \<and> DecodedPayload.x402Version d = Some (JsNumber ''2'') \<longrightarrow>
            validateSignature plat eng cfg req res =
              Next (res\<lparr>paymentPayload := Some (asPaymentPayload d)\<rparr>))
       \<and> (\<forall>res'. paymentRequired plat eng cfg clk req res' = Next res')
       \<and> (\<forall>d. decodePayload plat raw = Some (ParsedValue d)
               \<and> (\<forall>f \<in> set PAYMENT_PAYLOAD_REQUIRED_FIELDS. \<not> fieldMissing d f)
               \<and> DecodedPayload.x402Version d = Some (JsNumber ''2'')
               \<and> \<not> fst (cache_has (replayNonces st) (extractNonceKey (asPaymentPayload d))
                          (tReplayHas clk)) \<longrightarrow>
            fst (paymentStages plat eng cfg clk handler req st newRes) =
              handler req (newRes\<lparr>paymentPayload := Some (asPaymentPayload d)\<rparr>))"
proof -
  have filt: "\<And>d. (filter (fieldMissing d) PAYMENT_PAYLOAD_REQUIRED_FIELDS = []) =
                 (\<forall>f \<in> set PAYMENT_PAYLOAD_REQUIRED_FIELDS. \<not> fieldMissing d f)"
    by (simp only: filter_empty_conv)
  have a: "decodePayload plat raw = None \<longrightarrow>
            validateSignature plat eng cfg req res =
              Respond \<lparr>Response.status = 400, Response.headers = resHeaders res,
                Response.body = JsonBody (JObj
                  [(''success'', JBool False),
                   (''error'', JStr ''PAYMENT-SIGNATURE is not valid base64-encoded JSON'')])\<rparr>"
    using assms(2,3) by (simp add: validateSignature_def sendJson_def errorJson_def)
  have b: "validateSignature plat eng cfg req res =
              Respond \<lparr>Response.status = 400, Response.headers = resHeaders res,
                Response.body = JsonBody (JObj
                  [(''success'', JBool False),
                   (''error'', JStr (''PAYMENT-SIGNATURE missing required fields: ''
                      @ join '', '' (filter (fieldMissing d) PAYMENT_PAYLOAD_REQUIRED_FIELDS)))])\<rparr>"
    if "decodePayload plat raw = Some (ParsedValue d)"
      and "\<exists>f \<in> set PAYMENT_PAYLOAD_REQUIRED_FIELDS. fieldMissing d f" for d
  proof -
    from that(2) have "filter (fieldMissing d) PAYMENT_PAYLOAD_REQUIRED_FIELDS \<noteq> []"
      by (simp only: filt) blast
    then show ?thesis
      using assms(2,3) that(1) by (simp add: validateSignature_def Let_def sendJson_def errorJson_def)
  qed
  have c: "validateSignature plat eng cfg req res =
              Respond \<lparr>Response.status = 400, Response.headers = resHeaders res,
                Response.body = JsonBody (JObj
                  [(''success'', JBool False),
                   (''error'', JStr (''Unsupported x402Version: ''
                      @ numberText (the (DecodedPayload.x402Version d)) @ '' (expected 2)''))])\<rparr>"
    if d: "decodePayload plat raw = Some (ParsedValue d)"
      and m: "\<forall>f \<in> set PAYMENT_PAYLOAD_REQUIRED_FIELDS. \<not> fieldMissing d f"
      and v: "DecodedPayload.x402Version d \<noteq> Some (JsNumber ''2'')" for d
  proof -
    from m have "\<not> fieldMissing d ''x402Version''"
      by (simp add: PAYMENT_PAYLOAD_REQUIRED_FIELDS_def)
    then obtain n where n: "DecodedPayload.x402Version d = Some n"
      by (auto simp: fieldMissing_def)
    with v have "n \<noteq> JsNumber ''2''" by simp
    moreover from m have "filter (fieldMissing d) PAYMENT_PAYLOAD_REQUIRED_FIELDS = []"
      by (simp only: filt)
    ultimately show ?thesis
      using assms(2,3) d n
      by (simp add: validateSignature_def Let_def asPaymentPayload_def sendJson_def errorJson_def)
  qed
  have e: "validateSignature plat eng cfg req r =
              Next (r\<lparr>paymentPayload := Some (asPaymentPayload d)\<rparr>)"
    if "decodePayload plat raw = Some (ParsedValue d)"
      and m: "\<forall>f \<in> set PAYMENT_PAYLOAD_REQUIRED_FIELDS. \<not> fieldMissing d f"
      and "DecodedPayload.x402Version d = Some (JsNumber ''2'')" for d r
  proof -
    from m have "filter (fieldMissing d) PAYMENT_PAYLOAD_REQUIRED_FIELDS = []"
      by (simp only: filt)
    then show ?thesis
      using assms that(1,3) by (simp add: validateSignature_decoded)
  qed
  have g: "\<And>res'. paymentRequired plat eng cfg clk req res' = Next res'"
    using assms(1) by (simp add: paymentRequired_def)
  have h: "fst (paymentStages plat eng cfg clk handler req st newRes) =
              handler req (newRes\<lparr>paymentPayload := Some (asPaymentPayload d)\<rparr>)"
    if d: "decodePayload plat raw = Some (ParsedValue d)"
      and m: "\<forall>f \<in> set PAYMENT_PAYLOAD_REQUIRED_FIELDS. \<not> fieldMissing d f"
      and v: "DecodedPayload.x402Version d = Some (JsNumber ''2'')"
      and fresh: "\<not> fst (cache_has (replayNonces st) (extractNonceKey (asPaymentPayload d))
                          (tReplayHas clk))" for d
  proof -
    let ?res = "newRes\<lparr>paymentPayload := Some (asPaymentPayload d)\<rparr>"
    have p: "paymentPayload ?res = Some (asPaymentPayload d)" by simp
    show ?thesis
      using fresh
      by (simp add: paymentStages_def e[OF d m v] replayProtection_payload[OF assms(2,3) p] g)
  qed
  show ?thesis
    using a b c e[of _ res] g h by blast
qed

text \<open>
  Claim C10 fails on the code. A \<open>payment-signature\<close> header that is the base64 of the JSON
  value \<open>null\<close> decodes without an error, so the \<open>try\<close> around the decoding catches nothing;
  the look-up of the first required field in \<open>null\<close> then throws a \<open>TypeError\<close>. The request
  is not answered 400: the exception leaves the middleware, on a route without a policy as on
  any other, and no later stage runs. (Every other header is treated as the claim says:
  \<open>unpriced_route_validated\<close>.)
\<close>

theorem null_signature_throws:
  assumes "headerString req X402_SIGNATURE = Some raw" and "raw \<noteq> []"
    and "decodePayload plat raw = Some ParsedNull"
  shows "validateSignature plat eng cfg req res = Throws ''TypeError''
       \<and> paymentStages plat eng cfg clk handler req st newRes = (Failed ''TypeError'', st)
       \<and> (cachedReply clk req st = None \<longrightarrow>
            fst (gateway plat eng cfg clk handler req st) = Failed ''TypeError'')"
proof -
  have v: "validateSignature plat eng cfg req r = Throws ''TypeError''" for r
    using assms by (simp add: validateSignature_def)
  have stages: "paymentStages plat eng cfg clk handler req s newRes = (Failed ''TypeError'', s)" for s
    by (simp add: paymentStages_def v)
  have whole: "fst (gateway plat eng cfg clk handler req st) = Failed ''TypeError''"
    if miss: "cachedReply clk req st = None"
  proof -
    from gateway_miss[OF miss, of plat eng cfg handler] obtain s where
      "fst (gateway plat eng cfg clk handler req st)
         = fst (paymentStages plat eng cfg clk handler req s newRes)"
      by blast
    then show ?thesis by (simp add: stages)
  qed
  show ?thesis using v stages whole by blast
qed

text \<open>
  The header \<open>bnVsbA==\<close> on the unpriced route \<open>/proxy/api/free\<close> of the sample gateway.
\<close>

theorem null_signature_throws_witness:
  "findPolicy sampleEngine ''/proxy/api/free'' ''GET'' = None
   \<and> fst (gateway nullPlatform sampleEngine sampleConfig (sampleClock 0) sampleHandler
         (sampleRequest ''GET'' ''/proxy/api/free'' [(''payment-signature'', Single ''bnVsbA=='')])
         initialState)
       = Failed ''TypeError''"
proof -
  let ?req = "sampleRequest ''GET'' ''/proxy/api/free'' [(''payment-signature'', Single ''bnVsbA=='')]"
  have h: "headerString ?req X402_SIGNATURE = Some ''bnVsbA==''"
    by (simp add: headerString_def sampleRequest_def X402_SIGNATURE_def)
  have ne: "''bnVsbA=='' \<noteq> []" by simp
  have d: "decodePayload nullPlatform ''bnVsbA=='' = Some ParsedNull"
    by (simp add: nullPlatform_def)
  have miss: "cachedReply (sampleClock 0) ?req initialState = None"
    by (simp add: cachedReply_def headerString_def sampleRequest_def)
  from null_signature_throws[OF h ne d, of sampleEngine sampleConfig newRes "sampleClock 0"
      sampleHandler initialState, THEN conjunct2, THEN conjunct2, rule_format, OF miss]
    sample_free_route
  show ?thesis by simp
qed

subsection \<open>Proxy request headers\<close>






subsection \<open>Configuration\<close>

text \<open>
  Claim C7 fails on the code. With \<open>MOCK_PAYMENTS=0\<close> the flag \<open>mockPayments\<close> is false (live
  mode), but the fallbacks are withheld only for the literal \<open>false\<close>: without \<open>PAY_TO\<close> and
  \<open>AMOUNT_MICROSTX\<close> loading succeeds and the live gateway pays to the default address.
\<close>

theorem loadConfig_live_defaults:
  "loadConfig (Map.empty(''MOCK_PAYMENTS'' \<mapsto> ''0'')) =
     Inr \<lparr>config.network = ''stacks:2147483648'',
          facilitatorUrl = ''https://facilitator.stacksx402.com'',
          config.payTo = ''ST1PQHQKV0RJXZFY1DGX8MNSNYVE3VGZJSRTPGZGM'',
          amountMicroStx = ''100000'',
          mockPayments = False,
          upstreamUrl = ''http://localhost:4000'',
          baseUrl = None\<rparr>"
  by (simp add: loadConfig_def required_var_def falsy_def bool_var_def orDefault_def)

lemma loadConfig_live_missing_payTo:
  "env ''MOCK_PAYMENTS'' = Some ''false'' \<Longrightarrow> env ''PAY_TO'' = None \<Longrightarrow>
     loadConfig env = Inl ''Missing required env var: PAY_TO''"
  by (simp add: loadConfig_def required_var_def falsy_def)

lemma loadConfig_live_missing_amount:
  "env ''MOCK_PAYMENTS'' = Some ''false'' \<Longrightarrow> env ''PAY_TO'' = Some pay \<Longrightarrow> pay \<noteq> [] \<Longrightarrow>
   env ''AMOUNT_MICROSTX'' = None \<Longrightarrow>
     loadConfig env = Inl ''Missing required env var: AMOUNT_MICROSTX''"
  by (simp add: loadConfig_def required_var_def falsy_def)

lemma loadConfig_mock_defaults:
  assumes "env ''MOCK_PAYMENTS'' = None \<or> env ''MOCK_PAYMENTS'' = Some ''true''
           \<or> env ''MOCK_PAYMENTS'' = Some ''1''"
    and "env ''PAY_TO'' = None" and "env ''AMOUNT_MICROSTX'' = None"
  shows "\<exists>cfg. loadConfig env = Inr cfg \<and> mockPayments cfg
           \<and> config.payTo cfg = ''ST1PQHQKV0RJXZFY1DGX8MNSNYVE3VGZJSRTPGZGM''
           \<and> amountMicroStx cfg = ''100000''"
  using assms
  by (auto simp: loadConfig_def required_var_def falsy_def bool_var_def)

subsection \<open>Discovery\<close>

text \<open>
  Claim C8 as stated fails: the entry's network is not the short token of the policy's chain
  identifier when that identifier is not a Stacks one.
\<close>

theorem discovery_network_counterexample:
  "X402AcceptEntry.network (policyToAccept examplePolicy ''https://api.example.com/'')
     \<noteq> shortNetworkToken_spec (RoutePolicy.network examplePolicy)"
  by (simp add: policyToAccept_def examplePolicy_def shortNetworkToken_spec_def)

lemma stripTrailingSlashes_split:
  "\<exists>n. s = stripTrailingSlashes s @ replicate n CHR ''/''"
proof -
  let ?P = "\<lambda>c. c = CHR ''/''"
  have "rev s = takeWhile ?P (rev s) @ dropWhile ?P (rev s)" by simp
  then have "s = rev (dropWhile ?P (rev s)) @ rev (takeWhile ?P (rev s))"
    by (metis rev_append rev_rev_ident)
  moreover have "takeWhile ?P (rev s) = replicate (length (takeWhile ?P (rev s))) CHR ''/''"
    by (rule replicate_length_same[symmetric]) (auto dest: set_takeWhileD)
  ultimately show ?thesis
    unfolding stripTrailingSlashes_def by (metis rev_replicate)
qed

lemma stripTrailingSlashes_last:
  "stripTrailingSlashes s = [] \<or> last (stripTrailingSlashes s) \<noteq> CHR ''/''"
proof (cases "dropWhile (\<lambda>c. c = CHR ''/'') (rev s)")
  case Nil
  then show ?thesis by (simp add: stripTrailingSlashes_def)
next
  case (Cons a as)
  then have "a \<noteq> CHR ''/''" using hd_dropWhile[of "\<lambda>c. c = CHR ''/''" "rev s"] by simp
  then show ?thesis using Cons by (simp add: stripTrailingSlashes_def)
qed

text \<open>
  Claim C8, amended. The discovery document has exactly one accept entry per registered
  policy, in registration order. Each entry's resource is the public base URL without its
  trailing slashes followed by the policy path; its network is the constant \<open>stacks\<close>,
  whatever the policy's chain identifier (so it is the short token of that identifier exactly
  for Stacks chains); and when the policy has no schema of its own the entry carries the
  fallback schema: the policy's method, empty input, and the single output field \<open>data\<close> of
  type object.
\<close>

theorem discovery_entries:
  "X402Discovery.accepts (generateDiscovery eng opts)
     = map (\<lambda>p. policyToAccept p (publicBaseUrl opts)) (all eng)
   \<and> length (X402Discovery.accepts (generateDiscovery eng opts)) = length (all eng)
   \<and> (\<forall>i < length (all eng).
        X402AcceptEntry.resource (X402Discovery.accepts (generateDiscovery eng opts) ! i)
          = stripTrailingSlashes (publicBaseUrl opts) @ RoutePolicy.path (all eng ! i)
        \<and> X402AcceptEntry.network (X402Discovery.accepts (generateDiscovery eng opts) ! i) = ''stacks''
        \<and> (shortNetworkToken_spec (RoutePolicy.network (all eng ! i)) = ''stacks'' \<longrightarrow>
             X402AcceptEntry.network (X402Discovery.accepts (generateDiscovery eng opts) ! i)
               = shortNetworkToken_spec (RoutePolicy.network (all eng ! i)))
        \<and> (RoutePolicy.outputSchema (all eng ! i) = None \<longrightarrow>
             X402AcceptEntry.outputSchema (X402Discovery.accepts (generateDiscovery eng opts) ! i)
               = \<lparr>EndpointSchema.method = methodName (RoutePolicy.method (all eng ! i)),
                  schemaInput = \<lparr>query = None, body = None\<rparr>,
                  schemaOutput =
                    [(''data'', \<lparr>fieldType = TObject,
                                 SchemaField.description = Some ''Response payload'',
                                 required = None, example = None\<rparr>)]\<rparr>)
        \<and> (\<forall>sch. RoutePolicy.outputSchema (all eng ! i) = Some sch \<longrightarrow>
             X402AcceptEntry.outputSchema (X402Discovery.accepts (generateDiscovery eng opts) ! i)
               = sch))
   \<and> (\<exists>n. publicBaseUrl opts = stripTrailingSlashes (publicBaseUrl opts) @ replicate n CHR ''/'')
   \<and> (stripTrailingSlashes (publicBaseUrl opts) = []
        \<or> last (stripTrailingSlashes (publicBaseUrl opts)) \<noteq> CHR ''/'')"
proof -
  have acc: "X402Discovery.accepts (generateDiscovery eng opts)
     = map (\<lambda>p. policyToAccept p (publicBaseUrl opts)) (all eng)"
    by (simp add: generateDiscovery_def Let_def)
  show ?thesis
    unfolding acc
    using stripTrailingSlashes_split[of "publicBaseUrl opts"]
      stripTrailingSlashes_last[of "publicBaseUrl opts"]
    by (simp add: policyToAccept_def fallbackSchema_def)
qed

text \<open>
  The discovery entry of a policy without a schema, under a base URL with two trailing slashes.
\<close>

theorem discovery_entries_witness:
  "X402AcceptEntry.resource
      (X402Discovery.accepts (generateDiscovery (add newPolicyEngine [examplePolicy]) sampleOptions) ! 0)
     = ''https://api.example.com/v1/report''
   \<and> X402AcceptEntry.network
      (X402Discovery.accepts (generateDiscovery (add newPolicyEngine [examplePolicy]) sampleOptions) ! 0)
     = ''stacks''
   \<and> X402AcceptEntry.outputSchema
      (X402Discovery.accepts (generateDiscovery (add newPolicyEngine [examplePolicy]) sampleOptions) ! 0)
     = \<lparr>EndpointSchema.method = ''GET'',
        schemaInput = \<lparr>query = None, body = None\<rparr>,
        schemaOutput =
          [(''data'', \<lparr>fieldType = TObject, SchemaField.description = Some ''Response payload'',
                       required = None, example = None\<rparr>)]\<rparr>
   \<and> length (X402Discovery.accepts (generateDiscovery (add newPolicyEngine [examplePolicy]) sampleOptions))
     = 1"
proof -
  let ?eng = "add newPolicyEngine [examplePolicy]"
  have l: "0 < length (all ?eng)" "length (all ?eng) = 1"
    by (simp_all add: all_def add_def newPolicyEngine_def)
  have p: "all ?eng ! 0 = examplePolicy"
    by (simp add: all_def add_def newPolicyEngine_def)
  have none: "RoutePolicy.outputSchema (all ?eng ! 0) = None"
    unfolding p by (simp add: examplePolicy_def)
  have strip: "stripTrailingSlashes (publicBaseUrl sampleOptions) = ''https://api.example.com''"
    by (simp add: stripTrailingSlashes_def sampleOptions_def)
  note main = discovery_entries[of ?eng sampleOptions]
  note entry = main[THEN conjunct2, THEN conjunct2, THEN conjunct1, rule_format, OF l(1)]
  have r: "X402AcceptEntry.resource (X402Discovery.accepts (generateDiscovery ?eng sampleOptions) ! 0)
          = ''https://api.example.com/v1/report''"
    unfolding entry[THEN conjunct1] strip p by (simp add: examplePolicy_def)
  have n: "X402AcceptEntry.network (X402Discovery.accepts (generateDiscovery ?eng sampleOptions) ! 0)
          = ''stacks''"
    by (rule entry[THEN conjunct2, THEN conjunct1])
  have f: "X402AcceptEntry.outputSchema (X402Discovery.accepts (generateDiscovery ?eng sampleOptions) ! 0)
             = \<lparr>EndpointSchema.method = ''GET'',
                schemaInput = \<lparr>query = None, body = None\<rparr>,
                schemaOutput =
                  [(''data'', \<lparr>fieldType = TObject,
                               SchemaField.description = Some ''Response payload'',
                               required = None, example = None\<rparr>)]\<rparr>"
    unfolding entry[THEN conjunct2, THEN conjunct2, THEN conjunct2, THEN conjunct1, rule_format, OF none] p
    by (simp add: examplePolicy_def)
  have len: "length (X402Discovery.accepts (generateDiscovery ?eng sampleOptions)) = 1"
    unfolding main[THEN conjunct2, THEN conjunct1] by (rule l(2))
  from r n f len show ?thesis by simp
qed

end
